theory Spec2Isabelle
  imports Complex_Main
begin

section \<open>Python values used by the planner\<close>

text \<open>
  The longitudinal planner (selfdrive/controls/lib/longitudinal_planner.py) computes with
  Python floats. They are modelled as \<^typ>\<open>real\<close>: finite values with exact arithmetic,
  so rounding, infinities and NaN are outside this development. Python integers are
  \<^typ>\<open>int\<close>. Every exception the planner's own code can raise is a value of
  \<open>py_error\<close>, and a computation that can raise returns \<open>py_error + 'a\<close>.
\<close>

datatype py_error = IndexError | ZeroDivisionError | ValueError | TypeError | OverflowError

definition bind_error :: "py_error + 'a \<Rightarrow> ('a \<Rightarrow> py_error + 'b) \<Rightarrow> py_error + 'b" where
  "bind_error m f = (case m of Inl e \<Rightarrow> Inl e | Inr x \<Rightarrow> f x)"

text \<open>List subscription \<open>xs[i]\<close>: a negative index counts from the end, an index out
  of range raises IndexError.\<close>

definition py_get :: "'a list \<Rightarrow> int \<Rightarrow> py_error + 'a" where
  "py_get xs i =
     (if 0 \<le> i \<and> i < int (length xs) then Inr (xs ! nat i)
      else if i < 0 \<and> - int (length xs) \<le> i then Inr (xs ! nat (int (length xs) + i))
      else Inl IndexError)"

text \<open>Float division \<open>x / y\<close> raises ZeroDivisionError on a zero divisor.\<close>

definition py_div :: "real \<Rightarrow> real \<Rightarrow> py_error + real" where
  "py_div x y = (if y = 0 then Inl ZeroDivisionError else Inr (x / y))"

text \<open>\<open>min(xs)\<close> over a list: the first smallest element; ValueError on an empty list.\<close>

fun py_min :: "real list \<Rightarrow> py_error + real" where
  "py_min [] = Inl ValueError"
| "py_min (x # xs) = Inr (fold (\<lambda>y m. if y < m then y else m) xs x)"

text \<open>A dict keeps its keys in insertion order: it is an association list with distinct
  keys. \<open>d[k] = v\<close> overwrites in place or appends.\<close>

fun dict_set :: "('k \<times> 'v) list \<Rightarrow> 'k \<Rightarrow> 'v \<Rightarrow> ('k \<times> 'v) list" where
  "dict_set [] k v = [(k, v)]"
| "dict_set ((k', v') # d) k v = (if k' = k then (k, v) # d else (k', v') # dict_set d k v)"

text \<open>\<open>min(d, key=d.get)\<close>: iterates over the keys in insertion order and keeps the first
  key whose value is smallest; ValueError on an empty dict.\<close>

fun min_key_from :: "'k \<times> real \<Rightarrow> ('k \<times> real) list \<Rightarrow> 'k" where
  "min_key_from (k, v) [] = k"
| "min_key_from (k, v) ((k', v') # d) =
     (if v' < v then min_key_from (k', v') d else min_key_from (k, v) d)"

fun py_min_key :: "('k \<times> real) list \<Rightarrow> py_error + 'k" where
  "py_min_key [] = Inl ValueError"
| "py_min_key (kv # d) = Inr (min_key_from kv d)"

text \<open>\<open>s.rstrip('\n')\<close> and \<open>int(x)\<close> of a finite float (truncation towards zero).\<close>

definition rstrip_newline :: "string \<Rightarrow> string" where
  "rstrip_newline s = rev (dropWhile (\<lambda>c. c = CHR 0x0A) (rev s))"

definition py_int_of_float :: "real \<Rightarrow> int" where
  "py_int_of_float x = (if 0 \<le> x then \<lfloor>x\<rfloor> else \<lceil>x\<rceil>)"

section \<open>Messages read by the planner\<close>

text \<open>Modelled from the spec: the enum LongCtrlState is declared in longcontrol, outside
  this file. The spec lists the modes pid-following, starting, stopping and other;
  \<open>off\<close> stands for the last one.\<close>

datatype LongCtrlState = off | pid | stopping | starting

record CarState =
  vEgo :: real
  aEgo :: real
  steeringAngleDeg :: real
  brakePressed :: bool
  gasPressed :: bool
  leftBlinker :: bool
  rightBlinker :: bool
  vSetDis :: real

record ControlsState =
  longControlState :: LongCtrlState
  vCruise :: real
  forceDecel :: bool
  active :: bool

text \<open>A lead record of radarState; its field \<open>fcw\<close> is named \<open>lead_fcw\<close> here.\<close>

record LeadData =
  status :: bool
  dRel :: real
  yRel :: real
  vRel :: real
  vLead :: real
  vLeadK :: real
  aLeadK :: real
  vLat :: real
  lead_fcw :: bool

record RadarState =
  leadOne :: LeadData
  leadTwo :: LeadData

record ModelDataV2 =
  position_x :: "real list"
  velocity_x :: "real list"

text \<open>The SubMaster \<open>sm\<close>: the messages of one cycle, the alive flag of modelV2, and what
  publish reads from it (log times, receive time of radarState, and the result of
  \<open>all_alive_and_valid\<close> for carState, controlsState and radarState).\<close>

record SubMaster =
  carState :: CarState
  controlsState :: ControlsState
  radarState :: RadarState
  modelV2 :: ModelDataV2
  alive_modelV2 :: bool
  logMonoTime_modelV2 :: int
  logMonoTime_radarState :: int
  rcv_time_radarState :: real
  all_alive_and_valid :: bool

text \<open>What one cycle reads from the persistent parameter store.\<close>

record Params =
  OpkrMapEnable :: bool
  ModelLongEnabled :: bool
  LimitSetSpeedCamera :: "string option"
  LimitSetSpeedCameraDist :: "string option"

record CarParams =
  steerRatio :: real
  wheelbase :: real
  minSpeedCan :: real
  startAccel :: real
  radarTimeStep :: real
  sccBus :: int

text \<open>The unit conversions \<open>CV\<close> (selfdrive.config.Conversions) are constants declared
  outside this file; they are parameters of the model.\<close>

record Conversions =
  KPH_TO_MS :: real
  MS_TO_KPH :: real
  DEG_TO_RAD :: real

section \<open>Lookup tables and acceleration limits\<close>

definition LON_MPC_STEP :: real where
  "LON_MPC_STEP = 0.2"

definition AWARENESS_DECEL :: real where
  "AWARENESS_DECEL = - 0.2"

definition A_CRUISE_MIN_V_FOLLOWING :: "real list" where
  "A_CRUISE_MIN_V_FOLLOWING = [- 2.7, - 2.4, - 2.0, - 1.4, - 0.5]"

definition A_CRUISE_MIN_V :: "real list" where
  "A_CRUISE_MIN_V = [- 1.0, - 0.8, - 0.67, - 0.5, - 0.30]"

definition A_CRUISE_MIN_BP :: "real list" where
  "A_CRUISE_MIN_BP = [0, 5, 10, 20, 40]"

definition A_CRUISE_MAX_V :: "real list" where
  "A_CRUISE_MAX_V = [1.2, 1.2, 0.65, 0.4]"

definition A_CRUISE_MAX_V_FOLLOWING :: "real list" where
  "A_CRUISE_MAX_V_FOLLOWING = [1.6, 1.6, 0.65, 0.4]"

definition A_CRUISE_MAX_BP :: "real list" where
  "A_CRUISE_MAX_BP = [0, 6.4, 22.5, 40]"

definition A_TOTAL_MAX_V :: "real list" where
  "A_TOTAL_MAX_V = [1.7, 3.2]"

definition A_TOTAL_MAX_BP :: "real list" where
  "A_TOTAL_MAX_BP = [20, 40]"

text \<open>Modelled from the spec: \<open>interp\<close> is imported from common.numpy_fast, which is not
  part of the source at hand. The spec describes it as piecewise-linear interpolation of a
  value against a breakpoint table, total, clamping to the table's ends outside the
  breakpoints. With fewer than two breakpoints left the value at hand is returned; the
  result on an empty value table is not described by the spec and never used.\<close>

fun interp :: "real \<Rightarrow> real list \<Rightarrow> real list \<Rightarrow> real" where
  "interp x (x0 # x1 # xp) (f0 # f1 # fp) =
     (if x \<le> x0 then f0
      else if x \<le> x1 then f0 + (x - x0) * (f1 - f0) / (x1 - x0)
      else interp x (x1 # xp) (f1 # fp))"
| "interp x xp (f0 # fp) = f0"
| "interp x xp [] = 0"

text \<open>\<open>calc_cruise_accel_limits\<close> stacks the two bounds with \<open>np.vstack\<close>; its caller reads
  them back with \<open>float\<close> into the list \<open>[a_cruise_min, a_cruise_max]\<close>, which is what the
  model returns.\<close>

definition calc_cruise_accel_limits :: "real \<Rightarrow> bool \<Rightarrow> real list" where
  "calc_cruise_accel_limits v_ego following =
     (if following
      then [interp v_ego A_CRUISE_MIN_BP A_CRUISE_MIN_V_FOLLOWING,
            interp v_ego A_CRUISE_MAX_BP A_CRUISE_MAX_V_FOLLOWING]
      else [interp v_ego A_CRUISE_MIN_BP A_CRUISE_MIN_V,
            interp v_ego A_CRUISE_MAX_BP A_CRUISE_MAX_V])"

text \<open>\<open>x ** 2\<close> on a float raises OverflowError when the square leaves the float range:
  a square at or above \<open>2 ^ 1024 - 2 ^ 970\<close> rounds to infinity. It is the one place
  where the range of the floats shows as an exception, so the model keeps it.\<close>

definition float_overflow :: real where
  "float_overflow = 2 ^ 1024 - 2 ^ 970"

definition py_pow2 :: "real \<Rightarrow> py_error + real" where
  "py_pow2 x = (if float_overflow \<le> x\<^sup>2 then Inl OverflowError else Inr (x\<^sup>2))"

definition limit_accel_in_turns ::
    "Conversions \<Rightarrow> real \<Rightarrow> real \<Rightarrow> real list \<Rightarrow> CarParams \<Rightarrow> py_error + real list" where
  "limit_accel_in_turns CV v_ego angle_steers a_target CP =
     (let a_total_max = interp v_ego A_TOTAL_MAX_BP A_TOTAL_MAX_V in
      bind_error (py_pow2 v_ego) (\<lambda>v_ego2.
      bind_error (py_div (v_ego2 * angle_steers * DEG_TO_RAD CV) (steerRatio CP * wheelbase CP))
        (\<lambda>a_y.
      bind_error (py_pow2 a_total_max) (\<lambda>a_total_max2.
      bind_error (py_pow2 a_y) (\<lambda>a_y2.
      let a_x_allowed = sqrt (max (a_total_max2 - a_y2) 0) in
      bind_error (py_get a_target 0) (\<lambda>a_lo.
      bind_error (py_get a_target 1) (\<lambda>a_hi.
      Inr [a_lo, min a_hi a_x_allowed])))))))"

section \<open>ModelMpcHelper\<close>

definition model_t :: "real list" where
  "model_t = map (\<lambda>i. (real i)\<^sup>2 / 102.4) [0..<33]"

definition mpc_t :: "nat list" where
  "mpc_t = [0..<10]"

text \<open>\<open>sorted(range(len(model_t)), key=...)[0]\<close>, the body of the comprehension that
  builds \<open>model_t_idx\<close>: Python's sort is stable, as \<open>sort_key\<close> is, so the first index
  with the smallest distance to the target time is taken.\<close>

definition nearest_model_t :: "nat \<Rightarrow> nat" where
  "nearest_model_t idx =
     hd (sort_key (\<lambda>i. \<bar>real idx - model_t ! i\<bar>) [0..<length model_t])"

definition model_t_idx :: "nat list" where
  "model_t_idx = map nearest_model_t mpc_t"

text \<open>The comprehension \<open>[xs[t] for t in idx]\<close>.\<close>

fun py_gets :: "'a list \<Rightarrow> nat list \<Rightarrow> py_error + 'a list" where
  "py_gets xs [] = Inr []"
| "py_gets xs (t # ts) =
     bind_error (py_get xs (int t)) (\<lambda>x.
     bind_error (py_gets xs ts) (\<lambda>rest. Inr (x # rest)))"

text \<open>The loop over \<open>mpc_t\<close> that appends the central differences.\<close>

fun accel_loop :: "real list \<Rightarrow> nat list \<Rightarrow> real list \<Rightarrow> py_error + real list" where
  "accel_loop speeds [] accelerations = Inr accelerations"
| "accel_loop speeds (t # ts) accelerations =
     (if 0 < t \<and> t < 9
      then bind_error (py_get speeds (int t + 1)) (\<lambda>v_hi.
           bind_error (py_get speeds (int t - 1)) (\<lambda>v_lo.
           accel_loop speeds ts (accelerations @ [(v_hi - v_lo) / 2])))
      else accel_loop speeds ts accelerations)"

definition convert_data :: "SubMaster \<Rightarrow> py_error + (real list \<times> real list \<times> real list)" where
  "convert_data sm =
     (if \<not> alive_modelV2 sm \<or> length (position_x (modelV2 sm)) = 0 then Inr ([], [], [])
      else
        bind_error (py_gets (velocity_x (modelV2 sm)) model_t_idx) (\<lambda>speeds.
        bind_error (py_gets (position_x (modelV2 sm)) model_t_idx) (\<lambda>distances.
        bind_error (accel_loop speeds mpc_t []) (\<lambda>accelerations.
        bind_error (py_get accelerations (- 1)) (\<lambda>a_last.
        bind_error (py_get accelerations (- 2)) (\<lambda>a_before.
        let accelerations = accelerations @ [a_last - (a_before - a_last)] in
        bind_error (py_get accelerations 0) (\<lambda>a_first.
        bind_error (py_get accelerations 1) (\<lambda>a_second.
        let accelerations = (a_first - (a_second - a_first)) # accelerations in
        Inr (distances, speeds, accelerations)))))))))"

text \<open>The list the loop of \<open>convert_data\<close> builds from ten speeds, in closed form; the
  proofs relate \<open>accel_loop\<close> to it.\<close>

definition central_differences :: "real list \<Rightarrow> real list" where
  "central_differences sp = [(sp ! 2 - sp ! 0) / 2, (sp ! 3 - sp ! 1) / 2, (sp ! 4 - sp ! 2) / 2,
                 (sp ! 5 - sp ! 3) / 2, (sp ! 6 - sp ! 4) / 2, (sp ! 7 - sp ! 5) / 2,
                 (sp ! 8 - sp ! 6) / 2, (sp ! 9 - sp ! 7) / 2]"

section \<open>The planner's collaborators\<close>

text \<open>
  The lead optimizers (LongitudinalMpc), the model optimizer (LongitudinalMpcModel), the
  collision warner (FCWChecker), the speed smoother, the message publisher and the
  constant \<open>V_CRUISE_MAX\<close> live outside this file. An optimizer is a record of the
  attributes the planner reads, with the rest of the object in \<open>internal\<close>; what the
  collaborators do is a parameter of the model, collected in \<open>Collaborators\<close>. A method
  that mutates its object is a function from the object to the object.
\<close>

record MpcOutput =
  v_mpc :: real
  a_mpc :: real
  v_mpc_future :: real

record ('sol, 'i) LongitudinalMpc = MpcOutput +
  prev_lead_status :: bool
  new_lead :: bool
  mpc_solution :: 'sol
  internal :: 'i

record 'j LongitudinalMpcModel = MpcOutput +
  valid :: bool
  model_internal :: 'j

text \<open>The published longitudinalPlan message; a field that shares its name with a field
  of the planner or of an input message carries the prefix \<open>plan_\<close>.\<close>

record LongitudinalPlan =
  mdMonoTime :: int
  radarStateMonoTime :: int
  plan_vCruise :: real
  plan_aCruise :: real
  vStart :: real
  aStart :: real
  vTarget :: real
  aTarget :: real
  vTargetFuture :: real
  hasLead :: bool
  plan_longitudinalPlanSource :: string
  plan_fcw :: bool
  processingDelay :: real
  dRel1 :: real
  yRel1 :: real
  vRel1 :: real
  dRel2 :: real
  yRel2 :: real
  vRel2 :: real
  status2 :: bool
  targetSpeedCamera :: real
  targetSpeedCameraDist :: real

record PlanSend =
  plan_valid :: bool
  longitudinalPlan :: LongitudinalPlan

record ('sol, 'i, 'j, 'f, 'pm) Collaborators =
  CV :: Conversions
  V_CRUISE_MAX :: real
  speed_smoother ::
    "real \<Rightarrow> real \<Rightarrow> real \<Rightarrow> real \<Rightarrow> real \<Rightarrow> real \<Rightarrow> real \<Rightarrow> real \<Rightarrow> real \<times> real"
  new_mpc :: "int \<Rightarrow> ('sol, 'i) LongitudinalMpc"
  mpc_set_cur_state ::
    "real \<Rightarrow> real \<Rightarrow> ('sol, 'i) LongitudinalMpc \<Rightarrow> ('sol, 'i) LongitudinalMpc"
  mpc_update ::
    "CarState \<Rightarrow> LeadData \<Rightarrow> ('sol, 'i) LongitudinalMpc \<Rightarrow> ('sol, 'i) LongitudinalMpc"
  mpc_publish :: "('sol, 'i) LongitudinalMpc \<Rightarrow> 'pm \<Rightarrow> 'pm"
  new_mpc_model :: "'j LongitudinalMpcModel"
  model_set_cur_state :: "real \<Rightarrow> real \<Rightarrow> 'j LongitudinalMpcModel \<Rightarrow> 'j LongitudinalMpcModel"
  model_update ::
    "real \<Rightarrow> real \<Rightarrow> real list \<Rightarrow> real list \<Rightarrow> real list \<Rightarrow>
     'j LongitudinalMpcModel \<Rightarrow> 'j LongitudinalMpcModel"
  new_FCWChecker :: 'f
  FCWChecker_reset_lead :: "real \<Rightarrow> 'f \<Rightarrow> 'f"
  FCWChecker_update ::
    "'sol \<Rightarrow> real \<Rightarrow> bool \<Rightarrow> real \<Rightarrow> real \<Rightarrow> real \<Rightarrow> real \<Rightarrow> real \<Rightarrow> real \<Rightarrow> real \<Rightarrow>
     bool \<Rightarrow> bool \<Rightarrow> 'f \<Rightarrow> bool \<times> 'f"
  pm_send :: "string \<Rightarrow> PlanSend \<Rightarrow> 'pm \<Rightarrow> 'pm"
  py_float :: "string \<Rightarrow> py_error + real"
  py_int :: "string \<Rightarrow> py_error + int"

text \<open>\<open>py_float\<close> and \<open>py_int\<close> are Python's \<open>float(s)\<close> and \<open>int(s)\<close> on a string;
  \<open>py_float\<close> also returns an error where the float is not finite, since the \<open>int()\<close>
  applied to it raises there.\<close>

section \<open>The planner\<close>

text \<open>The three shell commands that update passes to \<open>os.system\<close>: the two logcat
  queries that write LimitSetSpeedCamera and LimitSetSpeedCameraDist, and
  \<^verbatim>\<open>logcat -c\<close>. The planner's state records them, in order, in \<open>os_system\<close>.\<close>

datatype os_command = LogcatSpeedLimit | LogcatSpeedDist | LogcatClear

text \<open>The attributes of a Planner object. \<open>model_mpc_helper\<close> and \<open>path_x\<close> are
  constants and \<open>params\<close> is the parameter store, read through \<open>Params\<close>.\<close>

record ('sol, 'i, 'j, 'f) Planner =
  CP :: CarParams
  mpc1 :: "('sol, 'i) LongitudinalMpc"
  mpc2 :: "('sol, 'i) LongitudinalMpc"
  mpc_model :: "'j LongitudinalMpcModel"
  v_acc_start :: real
  a_acc_start :: real
  v_acc_next :: real
  a_acc_next :: real
  v_acc :: real
  v_acc_future :: real
  a_acc :: real
  v_cruise :: real
  a_cruise :: real
  longitudinalPlanSource :: string
  fcw_checker :: 'f
  fcw :: bool
  first_loop :: bool
  target_speed_map :: int
  target_speed_map_counter :: int
  target_speed_map_counter_check :: bool
  target_speed_map_counter1 :: int
  target_speed_map_counter2 :: int
  target_speed_map_counter3 :: int
  target_speed_map_dist :: int
  target_speed_map_block :: bool
  target_speed_map_sign :: bool
  tartget_speed_offset :: int
  vego :: real
  os_system :: "os_command list"

text \<open>\<open>Planner.__init__\<close>; \<open>offset\<close> is what the parameter store holds for
  OpkrSpeedLimitOffset (\<open>int(None)\<close> raises TypeError).\<close>

definition Planner_init ::
    "('sol, 'i, 'j, 'f, 'pm) Collaborators \<Rightarrow> CarParams \<Rightarrow> string option \<Rightarrow>
     py_error + ('sol, 'i, 'j, 'f) Planner" where
  "Planner_init E CP0 offset =
     bind_error (case offset of None \<Rightarrow> Inl TypeError | Some s \<Rightarrow> py_int E s) (\<lambda>off.
     Inr \<lparr> CP = CP0,
           mpc1 = new_mpc E 1,
           mpc2 = new_mpc E 2,
           mpc_model = new_mpc_model E,
           v_acc_start = 0,
           a_acc_start = 0,
           v_acc_next = 0,
           a_acc_next = 0,
           v_acc = 0,
           v_acc_future = 0,
           a_acc = 0,
           v_cruise = 0,
           a_cruise = 0,
           longitudinalPlanSource = ''cruise'',
           fcw_checker = new_FCWChecker E,
           fcw = False,
           first_loop = True,
           target_speed_map = 0,
           target_speed_map_counter = 0,
           target_speed_map_counter_check = False,
           target_speed_map_counter1 = 0,
           target_speed_map_counter2 = 0,
           target_speed_map_counter3 = 0,
           target_speed_map_dist = 0,
           target_speed_map_block = False,
           target_speed_map_sign = False,
           tartget_speed_offset = off,
           vego = 0,
           os_system = [] \<rparr>)"

subsection \<open>choose_solution\<close>

text \<open>The dict \<open>solutions\<close> and the list \<open>possible_futures\<close> as choose_solution builds
  them when \<open>enabled\<close> holds.\<close>

definition solutions_of :: "bool \<Rightarrow> ('sol, 'i, 'j, 'f) Planner \<Rightarrow> (string \<times> real) list" where
  "solutions_of model_enabled self =
     (let solutions = [(''cruise'', v_cruise self)];
          solutions = (if prev_lead_status (mpc1 self)
                       then dict_set solutions ''mpc1'' (v_mpc (mpc1 self)) else solutions);
          solutions = (if prev_lead_status (mpc2 self)
                       then dict_set solutions ''mpc2'' (v_mpc (mpc2 self)) else solutions);
          solutions = (if valid (mpc_model self) \<and> model_enabled
                       then dict_set solutions ''model'' (v_mpc (mpc_model self)) else solutions)
      in solutions)"

definition set_solution ::
    "string \<Rightarrow> ('sol, 'i, 'j, 'f) Planner \<Rightarrow> ('sol, 'i, 'j, 'f) Planner" where
  "set_solution slowest self =
     (let self = self\<lparr>longitudinalPlanSource := slowest\<rparr> in
      if slowest = ''mpc1''
      then self\<lparr>v_acc := v_mpc (mpc1 self), a_acc := a_mpc (mpc1 self)\<rparr>
      else if slowest = ''mpc2''
      then self\<lparr>v_acc := v_mpc (mpc2 self), a_acc := a_mpc (mpc2 self)\<rparr>
      else if slowest = ''cruise''
      then self\<lparr>v_acc := v_cruise self, a_acc := a_cruise self\<rparr>
      else if slowest = ''model''
      then self\<lparr>v_acc := v_mpc (mpc_model self), a_acc := a_mpc (mpc_model self)\<rparr>
      else self)"

definition choose_solution ::
    "real \<Rightarrow> bool \<Rightarrow> bool \<Rightarrow> ('sol, 'i, 'j, 'f) Planner \<Rightarrow> py_error + ('sol, 'i, 'j, 'f) Planner" where
  "choose_solution v_cruise_setpoint enabled model_enabled self =
     (let possible_futures =
            [v_mpc_future (mpc1 self), v_mpc_future (mpc2 self), v_cruise_setpoint]
      in
      bind_error
        (if enabled
         then
           (let possible_futures =
                  (if valid (mpc_model self) \<and> model_enabled
                   then possible_futures @ [v_mpc_future (mpc_model self)]
                   else possible_futures)
            in
            bind_error (py_min_key (solutions_of model_enabled self)) (\<lambda>slowest.
            Inr (set_solution slowest self, possible_futures)))
         else Inr (self, possible_futures))
        (\<lambda>(self, possible_futures).
      bind_error (py_min possible_futures) (\<lambda>m.
      Inr (self\<lparr>v_acc_future := m\<rparr>))))"

subsection \<open>update\<close>

text \<open>\<open>update\<close> is one method in the source; the model cuts it into the blocks below, in
  source order. First the speed-limit-camera block (the \<open>if\<close> on OpkrMapEnable).\<close>

definition update_speed_map ::
    "('sol, 'i, 'j, 'f, 'pm) Collaborators \<Rightarrow> Params \<Rightarrow> ('sol, 'i, 'j, 'f) Planner \<Rightarrow>
     py_error + ('sol, 'i, 'j, 'f) Planner" where
  "update_speed_map E prm self =
     (if OpkrMapEnable prm
      then
        (let self = self\<lparr>target_speed_map_counter := target_speed_map_counter self + 1\<rparr> in
         if target_speed_map_counter self \<ge> 50 + target_speed_map_counter1 self
            \<and> target_speed_map_counter_check self = False
         then
           (let self = self\<lparr>target_speed_map_counter_check := True,
                             os_system := os_system self @ [LogcatSpeedLimit, LogcatSpeedDist],
                             target_speed_map_counter3 := target_speed_map_counter3 self + 1\<rparr>
            in
            Inr (if target_speed_map_counter3 self > 2
                 then self\<lparr>target_speed_map_counter3 := 0,
                           os_system := os_system self @ [LogcatClear]\<rparr>
                 else self))
         else if target_speed_map_counter self \<ge> 75 + target_speed_map_counter1 self
         then
           (let self = self\<lparr>target_speed_map_counter1 := 0,
                             target_speed_map_counter := 0,
                             target_speed_map_counter_check := False\<rparr>;
                otherwise = self\<lparr>target_speed_map_counter := 49,
                                  target_speed_map_counter2 := 0,
                                  target_speed_map := 0,
                                  target_speed_map_dist := 0,
                                  target_speed_map_counter_check := False,
                                  target_speed_map_block := False,
                                  target_speed_map_sign := False\<rparr>
            in
            case (LimitSetSpeedCamera prm, LimitSetSpeedCameraDist prm) of
              (Some s1, Some s2) \<Rightarrow>
                bind_error (py_float E (rstrip_newline s1)) (\<lambda>f1.
                bind_error (py_float E (rstrip_newline s2)) (\<lambda>f2.
                let mapspeed = py_int_of_float f1;
                    mapspeeddist = py_int_of_float f2
                in
                Inr (if mapspeed > 29
                     then
                       (let self = self\<lparr>target_speed_map := mapspeed,
                                         target_speed_map_dist := mapspeeddist\<rparr>;
                            self = (if target_speed_map_dist self > 1001
                                    then self\<lparr>target_speed_map_block := True\<rparr> else self)
                        in self\<lparr>target_speed_map_counter1 := 80,
                                 os_system := os_system self @ [LogcatClear]\<rparr>)
                     else self\<lparr>target_speed_map := 0,
                               target_speed_map_dist := 0,
                               target_speed_map_block := False\<rparr>)))
            | (None, None) \<Rightarrow>
                Inr (if target_speed_map_counter2 self < 2
                     then self\<lparr>target_speed_map_counter2 := target_speed_map_counter2 self + 1,
                               target_speed_map_counter := 51,
                               target_speed_map := 0,
                               target_speed_map_dist := 0,
                               target_speed_map_counter_check := True,
                               target_speed_map_block := False,
                               target_speed_map_sign := False\<rparr>
                     else otherwise)
            | _ \<Rightarrow> Inr otherwise)
         else Inr self)
      else Inr self)"

text \<open>The cruise block: the speed smoother when engaged and not overridden, the reset to
  the ego kinematics (or to the start constants) otherwise. The awareness deceleration
  is guarded by \<open>force_slow_decel and False\<close>, as in the source.\<close>

definition update_cruise ::
    "('sol, 'i, 'j, 'f, 'pm) Collaborators \<Rightarrow> SubMaster \<Rightarrow> real \<Rightarrow> bool \<Rightarrow> bool \<Rightarrow> bool \<Rightarrow>
     ('sol, 'i, 'j, 'f) Planner \<Rightarrow> py_error + ('sol, 'i, 'j, 'f) Planner" where
  "update_cruise E sm v_cruise_setpoint enabled following force_slow_decel self =
     (let v_ego = vEgo (carState sm) in
      if enabled \<and> \<not> first_loop self \<and> \<not> brakePressed (carState sm)
         \<and> \<not> gasPressed (carState sm)
      then
        (let accel_limits = calc_cruise_accel_limits v_ego following in
         bind_error (py_get accel_limits 0) (\<lambda>al0.
         bind_error (py_get accel_limits 1) (\<lambda>al1.
         let jerk_limits = [min (- 0.1) al0, max 0.1 al1] in
         bind_error (limit_accel_in_turns (CV E) v_ego (steeringAngleDeg (carState sm))
                       accel_limits (CP self)) (\<lambda>accel_limits_turns.
         bind_error
           (if force_slow_decel \<and> False
            then
              bind_error (py_get accel_limits_turns 1) (\<lambda>t1.
              let accel_limits_turns = accel_limits_turns[1 := min t1 AWARENESS_DECEL] in
              bind_error (py_get accel_limits_turns 0) (\<lambda>t0.
              bind_error (py_get accel_limits_turns 1) (\<lambda>t1.
              Inr (accel_limits_turns[0 := min t0 t1]))))
            else Inr accel_limits_turns) (\<lambda>accel_limits_turns.
         bind_error (py_get accel_limits_turns 1) (\<lambda>alt1.
         bind_error (py_get accel_limits_turns 0) (\<lambda>alt0.
         bind_error (py_get jerk_limits 1) (\<lambda>jl1.
         bind_error (py_get jerk_limits 0) (\<lambda>jl0.
         let (vc, ac) = speed_smoother E (v_acc_start self) (a_acc_start self)
                          v_cruise_setpoint alt1 alt0 jl1 jl0 LON_MPC_STEP
         in Inr (self\<lparr>v_cruise := max vc 0, a_cruise := ac\<rparr>))))))))))
      else
        (let is_starting = (longControlState (controlsState sm) = starting);
             a_ego = min (aEgo (carState sm)) 0;
             reset_speed = (if is_starting then minSpeedCan (CP self) else v_ego);
             reset_accel = (if is_starting then startAccel (CP self) else a_ego)
         in Inr (self\<lparr>v_acc := reset_speed,
                      a_acc := reset_accel,
                      v_acc_start := reset_speed,
                      a_acc_start := reset_accel,
                      v_cruise := reset_speed,
                      a_cruise := reset_accel\<rparr>)))"

text \<open>The three optimizers are started from the warm-start state and updated.\<close>

definition update_mpcs ::
    "('sol, 'i, 'j, 'f, 'pm) Collaborators \<Rightarrow> SubMaster \<Rightarrow> ('sol, 'i, 'j, 'f) Planner \<Rightarrow>
     py_error + ('sol, 'i, 'j, 'f) Planner" where
  "update_mpcs E sm self =
     (let self = self\<lparr>mpc1 := mpc_set_cur_state E (v_acc_start self) (a_acc_start self) (mpc1 self)\<rparr>;
          self = self\<lparr>mpc2 := mpc_set_cur_state E (v_acc_start self) (a_acc_start self) (mpc2 self)\<rparr>;
          self = self\<lparr>mpc_model :=
                   model_set_cur_state E (v_acc_start self) (a_acc_start self) (mpc_model self)\<rparr>;
          self = self\<lparr>mpc1 := mpc_update E (carState sm) (leadOne (radarState sm)) (mpc1 self)\<rparr>;
          self = self\<lparr>mpc2 := mpc_update E (carState sm) (leadTwo (radarState sm)) (mpc2 self)\<rparr>
      in
      bind_error (convert_data sm) (\<lambda>(distances, speeds, accelerations).
      Inr (self\<lparr>mpc_model :=
             model_update E (vEgo (carState sm)) (aEgo (carState sm))
               distances speeds accelerations (mpc_model self)\<rparr>)))"

text \<open>The collision warning: the warner is reset on a new lead, and its result is
  and-ed with \<open>not brakePressed\<close>. \<open>fcw_raw\<close> is what the warner returns in this cycle.\<close>

definition fcw_call ::
    "('sol, 'i, 'j, 'f, 'pm) Collaborators \<Rightarrow> SubMaster \<Rightarrow> real \<Rightarrow> ('sol, 'i, 'j, 'f) Planner \<Rightarrow>
     bool \<times> 'f" where
  "fcw_call E sm cur_time self =
     (let lead_1 = leadOne (radarState sm);
          checker = (if new_lead (mpc1 self)
                     then FCWChecker_reset_lead E cur_time (fcw_checker self) else fcw_checker self);
          blinkers = (leftBlinker (carState sm) \<or> rightBlinker (carState sm))
      in FCWChecker_update E (mpc_solution (mpc1 self)) cur_time (active (controlsState sm))
           (vEgo (carState sm)) (aEgo (carState sm))
           (dRel lead_1) (vLead lead_1) (aLeadK lead_1) (yRel lead_1) (vLat lead_1)
           (lead_fcw lead_1) blinkers checker)"

definition determine_fcw ::
    "('sol, 'i, 'j, 'f, 'pm) Collaborators \<Rightarrow> SubMaster \<Rightarrow> real \<Rightarrow> ('sol, 'i, 'j, 'f) Planner \<Rightarrow>
     ('sol, 'i, 'j, 'f) Planner" where
  "determine_fcw E sm cur_time self =
     (let (fcw_raw, checker) = fcw_call E sm cur_time self in
      self\<lparr>fcw_checker := checker,
           fcw := (fcw_raw \<and> \<not> brakePressed (carState sm))\<rparr>)"

text \<open>The interpolation over one radar time step that is saved as the starting point of
  the next cycle.\<close>

definition update_next ::
    "CarParams \<Rightarrow> ('sol, 'i, 'j, 'f) Planner \<Rightarrow> ('sol, 'i, 'j, 'f) Planner" where
  "update_next CP' self =
     (let a_acc_sol = a_acc_start self
                       + (radarTimeStep CP' / LON_MPC_STEP) * (a_acc self - a_acc_start self);
          v_acc_sol = v_acc_start self + radarTimeStep CP' * (a_acc_sol + a_acc_start self) / 2.0
      in self\<lparr>v_acc_next := v_acc_sol, a_acc_next := a_acc_sol, first_loop := False\<rparr>)"

definition is_enabled :: "SubMaster \<Rightarrow> bool" where
  "is_enabled sm =
     (longControlState (controlsState sm) = pid \<or> longControlState (controlsState sm) = stopping)"

definition cruise_setpoint ::
    "('sol, 'i, 'j, 'f, 'pm) Collaborators \<Rightarrow> CarParams \<Rightarrow> SubMaster \<Rightarrow> real" where
  "cruise_setpoint E CP' sm =
     (let v_cruise_kph = (if sccBus CP' = 2 then vSetDis (carState sm)
                          else vCruise (controlsState sm));
          v_cruise_kph = min v_cruise_kph (V_CRUISE_MAX E)
      in v_cruise_kph * KPH_TO_MS (CV E))"

text \<open>\<open>Planner.update(sm, CP)\<close>. \<open>CP'\<close> is the argument (the planner also keeps the
  \<open>CP\<close> it was built with), \<open>prm\<close> what the parameter store returns in this cycle and
  \<open>cur_time\<close> the value of \<open>sec_since_boot()\<close>.\<close>

definition update ::
    "('sol, 'i, 'j, 'f, 'pm) Collaborators \<Rightarrow> CarParams \<Rightarrow> SubMaster \<Rightarrow> Params \<Rightarrow> real \<Rightarrow>
     ('sol, 'i, 'j, 'f) Planner \<Rightarrow> py_error + ('sol, 'i, 'j, 'f) Planner" where
  "update E CP' sm prm cur_time self =
     (let v_ego = vEgo (carState sm);
          self = self\<lparr>vego := v_ego\<rparr>;
          force_slow_decel = forceDecel (controlsState sm);
          v_cruise_setpoint = cruise_setpoint E CP' sm;
          lead_1 = leadOne (radarState sm);
          enabled = is_enabled sm;
          following = (status lead_1 \<and> dRel lead_1 < 45.0 \<and> vLeadK lead_1 > v_ego
                       \<and> aLeadK lead_1 > 0.0);
          self = self\<lparr>v_acc_start := v_acc_next self, a_acc_start := a_acc_next self\<rparr>
      in
      bind_error (update_speed_map E prm self) (\<lambda>self.
      bind_error (update_cruise E sm v_cruise_setpoint enabled following force_slow_decel self)
        (\<lambda>self.
      bind_error (update_mpcs E sm self) (\<lambda>self.
      bind_error (choose_solution v_cruise_setpoint enabled (ModelLongEnabled prm) self) (\<lambda>self.
      Inr (update_next CP' (determine_fcw E sm cur_time self)))))))"

subsection \<open>publish\<close>

text \<open>The message that publish builds; \<open>logMonoTime\<close> is the time stamp of the new
  message. Building it sets \<open>target_speed_map_sign\<close> in two of the branches.\<close>

definition make_plan_send ::
    "('sol, 'i, 'j, 'f, 'pm) Collaborators \<Rightarrow> SubMaster \<Rightarrow> int \<Rightarrow> ('sol, 'i, 'j, 'f) Planner \<Rightarrow>
     ('sol, 'i, 'j, 'f) Planner \<times> PlanSend" where
  "make_plan_send E sm logMonoTime self =
     (let lead_1 = leadOne (radarState sm);
          lead_2 = leadTwo (radarState sm);
          cam_distance_calc =
            interp (vego self * MS_TO_KPH (CV E)) [30, 60, 100, 160] [3.75, 5.5, 6, 7];
          consider_speed =
            interp (vego self * MS_TO_KPH (CV E) - real_of_int (target_speed_map self))
              [10, 30] [1, 1.3];
          reach = cam_distance_calc * consider_speed * vego self * MS_TO_KPH (CV E);
          (camera, camera_dist, self') =
            (if target_speed_map self > 29 \<and> real_of_int (target_speed_map_dist self) < reach
             then (real_of_int (target_speed_map self), real_of_int (target_speed_map_dist self),
                   self\<lparr>target_speed_map_sign := True\<rparr>)
             else if target_speed_map self > 29
                     \<and> real_of_int (target_speed_map_dist self) \<ge> reach
                     \<and> target_speed_map_block self
             then (real_of_int (target_speed_map self), real_of_int (target_speed_map_dist self),
                   self\<lparr>target_speed_map_sign := True\<rparr>)
             else if target_speed_map self > 29 \<and> target_speed_map_sign self
             then (real_of_int (target_speed_map self), real_of_int (target_speed_map_dist self),
                   self)
             else (0, 0, self))
      in
      (self',
       \<lparr> plan_valid = all_alive_and_valid sm,
         longitudinalPlan =
           \<lparr> mdMonoTime = logMonoTime_modelV2 sm,
             radarStateMonoTime = logMonoTime_radarState sm,
             plan_vCruise = v_cruise self,
             plan_aCruise = a_cruise self,
             vStart = v_acc_start self,
             aStart = a_acc_start self,
             vTarget = v_acc self,
             aTarget = a_acc self,
             vTargetFuture = v_acc_future self,
             hasLead = prev_lead_status (mpc1 self),
             plan_longitudinalPlanSource = longitudinalPlanSource self,
             plan_fcw = fcw self,
             processingDelay = real_of_int logMonoTime / 1000000000 - rcv_time_radarState sm,
             dRel1 = dRel lead_1,
             yRel1 = yRel lead_1,
             vRel1 = vRel lead_1,
             dRel2 = dRel lead_2,
             yRel2 = yRel lead_2,
             vRel2 = vRel lead_2,
             status2 = status lead_2,
             targetSpeedCamera = camera,
             targetSpeedCameraDist = camera_dist \<rparr> \<rparr>))"

text \<open>\<open>Planner.publish(sm, pm)\<close>: the two lead optimizers publish first, then the plan is
  sent.\<close>

definition publish ::
    "('sol, 'i, 'j, 'f, 'pm) Collaborators \<Rightarrow> SubMaster \<Rightarrow> int \<Rightarrow> 'pm \<Rightarrow>
     ('sol, 'i, 'j, 'f) Planner \<Rightarrow> ('sol, 'i, 'j, 'f) Planner \<times> 'pm" where
  "publish E sm logMonoTime pm self =
     (let pm = mpc_publish E (mpc1 self) pm;
          pm = mpc_publish E (mpc2 self) pm;
          (self, plan_send) = make_plan_send E sm logMonoTime self
      in (self, pm_send E ''longitudinalPlan'' plan_send pm))"

section \<open>Example inputs\<close>

text \<open>Concrete conversions and vehicle parameters on which the theorems below are
  evaluated.\<close>

definition demo_CV :: Conversions where
  "demo_CV = \<lparr> KPH_TO_MS = 1 / 3.6, MS_TO_KPH = 3.6, DEG_TO_RAD = 0.017453292519943295 \<rparr>"

definition demo_CP :: CarParams where
  "demo_CP = \<lparr> steerRatio = 15, wheelbase = 3, minSpeedCan = 0.3, startAccel = 1,
               radarTimeStep = 0.05, sccBus = 0 \<rparr>"

text \<open>One cycle's messages: ego at 10 m/s under pid control, a lead at 7 m/s, a model
  trajectory of 33 samples; and a trajectory of one sample.\<close>

definition demo_carState :: CarState where
  "demo_carState = \<lparr> vEgo = 10, aEgo = 0.5, steeringAngleDeg = 0, brakePressed = False,
                      gasPressed = False, leftBlinker = False, rightBlinker = False,
                      vSetDis = 36 \<rparr>"

definition demo_controlsState :: ControlsState where
  "demo_controlsState = \<lparr> longControlState = pid, vCruise = 36, forceDecel = False,
                           active = True \<rparr>"

definition demo_lead :: LeadData where
  "demo_lead = \<lparr> status = True, dRel = 30, yRel = 0, vRel = - 3, vLead = 7, vLeadK = 7,
                  aLeadK = - 1, vLat = 0, lead_fcw = False \<rparr>"

definition demo_modelV2 :: ModelDataV2 where
  "demo_modelV2 = \<lparr> position_x = map (\<lambda>i. 10 * real i) [0..<33],
                     velocity_x = map real [0..<33] \<rparr>"

definition demo_sm :: SubMaster where
  "demo_sm = \<lparr> carState = demo_carState, controlsState = demo_controlsState,
                radarState = \<lparr> leadOne = demo_lead, leadTwo = demo_lead\<lparr>status := False, vLead := 5\<rparr> \<rparr>,
                modelV2 = demo_modelV2, alive_modelV2 = True,
                logMonoTime_modelV2 = 100, logMonoTime_radarState = 100,
                rcv_time_radarState = 0, all_alive_and_valid = True \<rparr>"

definition short_modelV2 :: ModelDataV2 where
  "short_modelV2 = \<lparr> position_x = [0], velocity_x = [20] \<rparr>"

section \<open>The candidates in the words of the specification\<close>

text \<open>The candidates the arbiter chooses from, as the specification lists them: label,
  speed and acceleration, in the priority order cruise, mpc1, mpc2, model. The cruise
  candidate is always eligible, a lead optimizer when its \<open>prev_lead_status\<close> is set, the
  model when it is valid and model planning is enabled. \<open>choose_solution\<close> above is the
  translation of the source; the two are related by \<open>choose_solution_enabled\<close> below.\<close>

definition eligible_candidates ::
    "bool \<Rightarrow> ('sol, 'i, 'j, 'f) Planner \<Rightarrow> (string \<times> real \<times> real) list" where
  "eligible_candidates model_enabled self =
     [(''cruise'', v_cruise self, a_cruise self)]
     @ (if prev_lead_status (mpc1 self)
        then [(''mpc1'', v_mpc (mpc1 self), a_mpc (mpc1 self))] else [])
     @ (if prev_lead_status (mpc2 self)
        then [(''mpc2'', v_mpc (mpc2 self), a_mpc (mpc2 self))] else [])
     @ (if valid (mpc_model self) \<and> model_enabled
        then [(''model'', v_mpc (mpc_model self), a_mpc (mpc_model self))] else [])"

text \<open>The planner without the state of the speed-limit-camera block.\<close>

definition without_speed_map :: "('sol, 'i, 'j, 'f) Planner \<Rightarrow> ('sol, 'i, 'j, 'f) Planner" where
  "without_speed_map self =
     self\<lparr>target_speed_map := 0,
          target_speed_map_counter := 0,
          target_speed_map_counter_check := False,
          target_speed_map_counter1 := 0,
          target_speed_map_counter2 := 0,
          target_speed_map_counter3 := 0,
          target_speed_map_dist := 0,
          target_speed_map_block := False,
          target_speed_map_sign := False,
          os_system := []\<rparr>"

section \<open>Example collaborators\<close>

text \<open>Collaborators for the example cycles: a speed smoother that integrates the start
  acceleration over the time step, lead optimizers that report the speed and the
  acceleration of their lead, a model optimizer that is valid when it is given ten speeds,
  and a warner that returns the lead's own fcw flag.\<close>

definition demo_mpc :: "(unit, unit) LongitudinalMpc" where
  "demo_mpc = \<lparr> v_mpc = 0, a_mpc = 0, v_mpc_future = 0, prev_lead_status = False,
                 new_lead = False, mpc_solution = (), internal = () \<rparr>"

definition demo_mpc_model :: "unit LongitudinalMpcModel" where
  "demo_mpc_model = \<lparr> v_mpc = 0, a_mpc = 0, v_mpc_future = 0, valid = False,
                       model_internal = () \<rparr>"

definition demo_E :: "(unit, unit, unit, unit, PlanSend list) Collaborators" where
  "demo_E =
     \<lparr> CV = demo_CV,
       V_CRUISE_MAX = 144,
       speed_smoother = (\<lambda>v_start a_start v_target a_max a_min j_max j_min ts.
                           (v_start + a_start * ts, a_start)),
       new_mpc = (\<lambda>mpc_id. demo_mpc),
       mpc_set_cur_state = (\<lambda>v a m. m),
       mpc_update = (\<lambda>cs lead m.
                       m\<lparr>v_mpc := vLead lead, a_mpc := aLeadK lead, v_mpc_future := vLead lead,
                         new_lead := (status lead \<and> \<not> prev_lead_status m),
                         prev_lead_status := status lead\<rparr>),
       mpc_publish = (\<lambda>m pm. pm),
       new_mpc_model = demo_mpc_model,
       model_set_cur_state = (\<lambda>v a m. m),
       model_update = (\<lambda>v_ego a_ego distances speeds accelerations m.
                         m\<lparr>v_mpc := v_ego, a_mpc := a_ego, v_mpc_future := v_ego,
                           valid := (length speeds = 10)\<rparr>),
       new_FCWChecker = (),
       FCWChecker_reset_lead = (\<lambda>t checker. checker),
       FCWChecker_update = (\<lambda>sol t act v_ego a_ego x_lead v_lead a_lead y_lead vlat_lead
                               fcw_lead blinkers checker. (fcw_lead, checker)),
       pm_send = (\<lambda>name msg pm. pm @ [msg]),
       py_float = (\<lambda>s. Inr 0),
       py_int = (\<lambda>s. Inr 0) \<rparr>"

definition demo_prm :: Params where
  "demo_prm = \<lparr> OpkrMapEnable = False, ModelLongEnabled = False,
                 LimitSetSpeedCamera = None, LimitSetSpeedCameraDist = None \<rparr>"

text \<open>A planner in the middle of a drive, which carries the label mpc2.\<close>

definition demo_planner :: "(unit, unit, unit, unit) Planner" where
  "demo_planner =
     \<lparr> CP = demo_CP, mpc1 = demo_mpc, mpc2 = demo_mpc, mpc_model = demo_mpc_model,
       v_acc_start = 10, a_acc_start = 0, v_acc_next = 10, a_acc_next = 0,
       v_acc = 10, v_acc_future = 10, a_acc = 0, v_cruise = 10, a_cruise = 0,
       longitudinalPlanSource = ''mpc2'', fcw_checker = (), fcw = False,
       first_loop = False, target_speed_map = 0, target_speed_map_counter = 0,
       target_speed_map_counter_check = False, target_speed_map_counter1 = 0,
       target_speed_map_counter2 = 0, target_speed_map_counter3 = 0,
       target_speed_map_dist = 0, target_speed_map_block = False,
       target_speed_map_sign = False, tartget_speed_offset = 0, vego = 10,
       os_system = [] \<rparr>"

text \<open>Variations of the example cycle: the long control off, the brake pressed (under pid
  control, with the long control off and in the starting state), a lead that raises the
  warner (brake free and pressed), forceDecel set, and the gas pressed.\<close>

definition demo_sm_off :: SubMaster where
  "demo_sm_off = demo_sm\<lparr>controlsState := demo_controlsState\<lparr>longControlState := off\<rparr>\<rparr>"

definition demo_sm_brake :: SubMaster where
  "demo_sm_brake = demo_sm\<lparr>carState := demo_carState\<lparr>brakePressed := True\<rparr>\<rparr>"

definition demo_sm_brake_off :: SubMaster where
  "demo_sm_brake_off = demo_sm_off\<lparr>carState := demo_carState\<lparr>brakePressed := True\<rparr>\<rparr>"

definition demo_sm_brake_starting :: SubMaster where
  "demo_sm_brake_starting =
     demo_sm_brake\<lparr>controlsState := demo_controlsState\<lparr>longControlState := starting\<rparr>\<rparr>"

definition demo_sm_fcw :: SubMaster where
  "demo_sm_fcw = demo_sm\<lparr>radarState := (radarState demo_sm)\<lparr>leadOne := demo_lead\<lparr>lead_fcw := True\<rparr>\<rparr>\<rparr>"

definition demo_sm_fcw_brake :: SubMaster where
  "demo_sm_fcw_brake = demo_sm_fcw\<lparr>carState := demo_carState\<lparr>brakePressed := True\<rparr>\<rparr>"

definition demo_sm_force_decel :: SubMaster where
  "demo_sm_force_decel = demo_sm\<lparr>controlsState := demo_controlsState\<lparr>forceDecel := True\<rparr>\<rparr>"

definition demo_sm_gas :: SubMaster where
  "demo_sm_gas = demo_sm\<lparr>carState := demo_carState\<lparr>gasPressed := True\<rparr>\<rparr>"


section \<open>Error plumbing\<close>

lemma bind_error_Inr [simp]: "bind_error (Inr x) f = f x"
  by (simp add: bind_error_def)

lemma bind_error_Inl [simp]: "bind_error (Inl e) f = Inl e"
  by (simp add: bind_error_def)

lemma bind_error_eq_Inr:
  "bind_error m f = Inr y \<longleftrightarrow> (\<exists>x. m = Inr x \<and> f x = Inr y)"
  by (cases m) simp_all

lemma py_get_pair_0: "py_get [a, b] 0 = Inr a"
  by (simp add: py_get_def)

lemma py_get_pair_1: "py_get [a, b] 1 = Inr b"
  by (simp add: py_get_def)

section \<open>The turn limiter\<close>

lemma float_overflow_large: "10000 \<le> float_overflow"
  by (simp add: float_overflow_def)

lemma interp_total_max:
  "interp v A_TOTAL_MAX_BP A_TOTAL_MAX_V =
     (if v \<le> 20 then 1.7 else if v \<le> 40 then 1.7 + (v - 20) * 1.5 / 20 else 3.2)"
  by (simp add: A_TOTAL_MAX_BP_def A_TOTAL_MAX_V_def)

lemma interp_total_max_bounds:
  "1.7 \<le> interp v A_TOTAL_MAX_BP A_TOTAL_MAX_V" "interp v A_TOTAL_MAX_BP A_TOTAL_MAX_V \<le> 3.2"
  by (auto simp: interp_total_max diff_divide_distrib)

lemma py_pow2_total_max:
  "py_pow2 (interp v A_TOTAL_MAX_BP A_TOTAL_MAX_V) = Inr ((interp v A_TOTAL_MAX_BP A_TOTAL_MAX_V)\<^sup>2)"
proof -
  let ?a = "interp v A_TOTAL_MAX_BP A_TOTAL_MAX_V"
  have "0 \<le> ?a" "?a \<le> 4" using interp_total_max_bounds [of v] by simp_all
  then have "?a\<^sup>2 \<le> 4\<^sup>2" by (intro power_mono) simp_all
  then have "?a\<^sup>2 < float_overflow" using float_overflow_large by simp
  then show ?thesis by (simp add: py_pow2_def)
qed

lemma interp_cruise_max:
  "interp v A_CRUISE_MAX_BP A_CRUISE_MAX_V =
     (if v \<le> 0 then 1.2 else if v \<le> 6.4 then 1.2
      else if v \<le> 22.5 then 1.2 + (v - 6.4) * (0.65 - 1.2) / (22.5 - 6.4)
      else if v \<le> 40 then 0.65 + (v - 22.5) * (0.4 - 0.65) / (40 - 22.5) else 0.4)"
  by (simp add: A_CRUISE_MAX_BP_def A_CRUISE_MAX_V_def)

lemma interp_cruise_max_following:
  "interp v A_CRUISE_MAX_BP A_CRUISE_MAX_V_FOLLOWING =
     (if v \<le> 0 then 1.6 else if v \<le> 6.4 then 1.6
      else if v \<le> 22.5 then 1.6 + (v - 6.4) * (0.65 - 1.6) / (22.5 - 6.4)
      else if v \<le> 40 then 0.65 + (v - 22.5) * (0.4 - 0.65) / (40 - 22.5) else 0.4)"
  by (simp add: A_CRUISE_MAX_BP_def A_CRUISE_MAX_V_FOLLOWING_def)

lemma interp_cruise_max_bounds:
  "0.4 \<le> interp v A_CRUISE_MAX_BP A_CRUISE_MAX_V"
  "interp v A_CRUISE_MAX_BP A_CRUISE_MAX_V \<le> 1.6"
  "0.4 \<le> interp v A_CRUISE_MAX_BP A_CRUISE_MAX_V_FOLLOWING"
  "interp v A_CRUISE_MAX_BP A_CRUISE_MAX_V_FOLLOWING \<le> 1.6"
  by (auto simp: interp_cruise_max interp_cruise_max_following diff_divide_distrib)

lemma calc_cruise_accel_limits_upper:
  "\<exists>lo hi. calc_cruise_accel_limits v following = [lo, hi] \<and> 0.4 \<le> hi \<and> hi \<le> 1.6"
  using interp_cruise_max_bounds [of v] by (simp add: calc_cruise_accel_limits_def)

lemma limit_accel_in_turns_value:
  assumes "steerRatio cp * wheelbase cp \<noteq> 0"
    and "v_ego\<^sup>2 < float_overflow"
    and "(v_ego\<^sup>2 * angle_steers * DEG_TO_RAD cv / (steerRatio cp * wheelbase cp))\<^sup>2
           < float_overflow"
  shows "limit_accel_in_turns cv v_ego angle_steers [a_min, a_max] cp =
           Inr [a_min,
                min a_max
                  (sqrt (max ((interp v_ego A_TOTAL_MAX_BP A_TOTAL_MAX_V)\<^sup>2
                     - (v_ego\<^sup>2 * angle_steers * DEG_TO_RAD cv
                          / (steerRatio cp * wheelbase cp))\<^sup>2) 0))]"
proof -
  have p1: "py_pow2 v_ego = Inr (v_ego\<^sup>2)" using assms(2) by (simp add: py_pow2_def)
  have p2: "py_pow2 (v_ego\<^sup>2 * angle_steers * DEG_TO_RAD cv / (steerRatio cp * wheelbase cp))
      = Inr ((v_ego\<^sup>2 * angle_steers * DEG_TO_RAD cv / (steerRatio cp * wheelbase cp))\<^sup>2)"
    using assms(3) by (simp add: py_pow2_def)
  have d: "py_div (v_ego\<^sup>2 * angle_steers * DEG_TO_RAD cv) (steerRatio cp * wheelbase cp)
      = Inr (v_ego\<^sup>2 * angle_steers * DEG_TO_RAD cv / (steerRatio cp * wheelbase cp))"
    using assms(1) by (simp add: py_div_def)
  show ?thesis
    unfolding limit_accel_in_turns_def Let_def p1 bind_error_Inr d py_pow2_total_max p2
      py_get_pair_0 py_get_pair_1 ..
qed

lemma limit_accel_in_turns_overflow_speed:
  assumes "float_overflow \<le> v_ego\<^sup>2"
  shows "limit_accel_in_turns cv v_ego angle_steers a_target cp = Inl OverflowError"
  using assms by (simp add: limit_accel_in_turns_def py_pow2_def)

lemma limit_accel_in_turns_zero_division:
  assumes "v_ego\<^sup>2 < float_overflow" and "steerRatio cp * wheelbase cp = 0"
  shows "limit_accel_in_turns cv v_ego angle_steers a_target cp = Inl ZeroDivisionError"
  using assms by (simp add: limit_accel_in_turns_def py_pow2_def py_div_def)

lemma limit_accel_in_turns_overflow_lateral:
  assumes "v_ego\<^sup>2 < float_overflow" and "steerRatio cp * wheelbase cp \<noteq> 0"
    and "float_overflow
           \<le> (v_ego\<^sup>2 * angle_steers * DEG_TO_RAD cv / (steerRatio cp * wheelbase cp))\<^sup>2"
  shows "limit_accel_in_turns cv v_ego angle_steers a_target cp = Inl OverflowError"
proof -
  have p1: "py_pow2 v_ego = Inr (v_ego\<^sup>2)" using assms(1) by (simp add: py_pow2_def)
  have p2: "py_pow2 (v_ego\<^sup>2 * angle_steers * DEG_TO_RAD cv / (steerRatio cp * wheelbase cp))
      = Inl OverflowError"
    using assms(3) by (simp add: py_pow2_def)
  have d: "py_div (v_ego\<^sup>2 * angle_steers * DEG_TO_RAD cv) (steerRatio cp * wheelbase cp)
      = Inr (v_ego\<^sup>2 * angle_steers * DEG_TO_RAD cv / (steerRatio cp * wheelbase cp))"
    using assms(2) by (simp add: py_div_def)
  show ?thesis
    unfolding limit_accel_in_turns_def Let_def p1 bind_error_Inr d py_pow2_total_max p2
      bind_error_Inl ..
qed

lemma limit_accel_in_turns_pair:
  assumes "limit_accel_in_turns cv v_ego angle_steers [a_min, a_max] cp = Inr x"
  shows "\<exists>a_up. x = [a_min, a_up]"
proof -
  have v: "v_ego\<^sup>2 < float_overflow"
    using assms limit_accel_in_turns_overflow_speed [of v_ego cv angle_steers "[a_min, a_max]" cp]
    by (cases "v_ego\<^sup>2 < float_overflow") simp_all
  have nz: "steerRatio cp * wheelbase cp \<noteq> 0"
    using assms limit_accel_in_turns_zero_division [OF v, of cp cv angle_steers "[a_min, a_max]"]
    by (cases "steerRatio cp * wheelbase cp = 0") simp_all
  have y: "(v_ego\<^sup>2 * angle_steers * DEG_TO_RAD cv / (steerRatio cp * wheelbase cp))\<^sup>2
           < float_overflow"
    using assms limit_accel_in_turns_overflow_lateral [OF v nz, of angle_steers cv "[a_min, a_max]"]
    by (cases "(v_ego\<^sup>2 * angle_steers * DEG_TO_RAD cv / (steerRatio cp * wheelbase cp))\<^sup>2
           < float_overflow") simp_all
  from assms show ?thesis unfolding limit_accel_in_turns_value [OF nz v y] by auto
qed

lemma turn_limit_sign:
  "min a_max (sqrt (max x 0)) < 0 \<longleftrightarrow> a_max < 0"
proof -
  have g: "\<And>s::real. 0 \<le> s \<Longrightarrow> (min a_max s < 0 \<longleftrightarrow> a_max < 0)"
    by (auto simp: min_def)
  show ?thesis by (rule g) simp
qed

lemma turn_limit_zero_angle:
  assumes "0 \<le> t"
  shows "min a_max (sqrt (max (t\<^sup>2 - 0\<^sup>2) 0)) = a_max \<longleftrightarrow> a_max \<le> t"
proof -
  have e: "sqrt (max (t\<^sup>2 - 0\<^sup>2) 0) = t" using assms by simp
  show ?thesis unfolding e by (auto simp: min_def)
qed

lemma limit_accel_in_turns_cruise:
  assumes nz: "steerRatio cp * wheelbase cp \<noteq> 0"
    and v: "v_ego\<^sup>2 < float_overflow"
    and y: "(v_ego\<^sup>2 * angle_steers * DEG_TO_RAD cv / (steerRatio cp * wheelbase cp))\<^sup>2
           < float_overflow"
  shows "\<exists>lo hi up. calc_cruise_accel_limits v_ego following = [lo, hi]
           \<and> limit_accel_in_turns cv v_ego angle_steers
                (calc_cruise_accel_limits v_ego following) cp = Inr [lo, up]
           \<and> 0 \<le> up \<and> up \<le> hi \<and> (angle_steers = 0 \<longrightarrow> up = hi)"
proof -
  let ?t = "interp v_ego A_TOTAL_MAX_BP A_TOTAL_MAX_V"
  let ?ay = "v_ego\<^sup>2 * angle_steers * DEG_TO_RAD cv / (steerRatio cp * wheelbase cp)"
  let ?ax = "sqrt (max (?t\<^sup>2 - ?ay\<^sup>2) 0)"
  from calc_cruise_accel_limits_upper [of v_ego following] obtain lo hi where
    c: "calc_cruise_accel_limits v_ego following = [lo, hi]" and h: "0.4 \<le> hi" "hi \<le> 1.6"
    by blast
  have r: "limit_accel_in_turns cv v_ego angle_steers
                (calc_cruise_accel_limits v_ego following) cp = Inr [lo, min hi ?ax]"
    unfolding c by (rule limit_accel_in_turns_value [OF nz v y])
  have s: "\<not> min hi ?ax < 0" using h(1) unfolding turn_limit_sign by simp
  have z: "min hi ?ax = hi" if "angle_steers = 0"
  proof -
    have t: "0 \<le> ?t" "hi \<le> ?t" using interp_total_max_bounds(1) [of v_ego] h(2) by simp_all
    have e: "?ay = 0" using that by simp
    show ?thesis unfolding e turn_limit_zero_angle [OF t(1)] by (rule t(2))
  qed
  have "calc_cruise_accel_limits v_ego following = [lo, hi]
           \<and> limit_accel_in_turns cv v_ego angle_steers
                (calc_cruise_accel_limits v_ego following) cp = Inr [lo, min hi ?ax]
           \<and> 0 \<le> min hi ?ax \<and> min hi ?ax \<le> hi \<and> (angle_steers = 0 \<longrightarrow> min hi ?ax = hi)"
    using c r s z by simp
  then show ?thesis by (intro exI)
qed






section \<open>The model trajectory adapter\<close>

lemma hd_insort_key:
  "hd (insort_key f a ys) = (if ys = [] \<or> f a \<le> f (hd ys) then a else hd ys)"
  by (cases ys) auto

lemma sort_key_Nil_iff: "sort_key f xs = [] \<longleftrightarrow> xs = []"
  by (metis length_sort list.size(3) length_0_conv)

lemma hd_sort_key_least:
  assumes "\<forall>y\<in>set bs. f x \<le> f y"
  shows "hd (sort_key f (x # bs)) = x"
proof (cases "bs = []")
  case True
  then show ?thesis by simp
next
  case False
  then have ne: "sort_key f bs \<noteq> []" by (simp add: sort_key_Nil_iff)
  then have "hd (sort_key f bs) \<in> set (sort_key f bs)" by (rule hd_in_set)
  then have "hd (sort_key f bs) \<in> set bs" by simp
  with assms have "f x \<le> f (hd (sort_key f bs))" by blast
  then show ?thesis by (simp add: hd_insort_key)
qed

lemma hd_sort_key_first_min:
  assumes "\<forall>y\<in>set as. f x < f y" and "\<forall>y\<in>set bs. f x \<le> f y"
  shows "hd (sort_key f (as @ x # bs)) = x"
  using assms(1)
proof (induction as)
  case Nil
  then show ?case using hd_sort_key_least [OF assms(2)] by simp
next
  case (Cons a as)
  then have ih: "hd (sort_key f (as @ x # bs)) = x" by simp
  have ne: "sort_key f (as @ x # bs) \<noteq> []" by (simp add: sort_key_Nil_iff)
  from Cons.prems have "\<not> f a \<le> f x" by auto
  with ih ne show ?case by (simp add: hd_insort_key)
qed

lemma upt33: "[0..<33] = [0,1,2,3,4,5,6,7,8,9,10,11,12,13,14,15,16,17,18,19,20,21,22,23,24,25,26,27,28,29,30,31,32::nat]"
  by (simp add: upt_rec)

lemma model_t_eq: "model_t = map (\<lambda>i. (real i)\<^sup>2 / 102.4) [0,1,2,3,4,5,6,7,8,9,10,11,12,13,14,15,16,17,18,19,20,21,22,23,24,25,26,27,28,29,30,31,32::nat]"
  by (simp only: model_t_def upt33)

lemma range_model_t: "[0..<length model_t] = [0,1,2,3,4,5,6,7,8,9,10,11,12,13,14,15,16,17,18,19,20,21,22,23,24,25,26,27,28,29,30,31,32::nat]"
  by (simp add: model_t_def upt33)

lemma nearest_0: "nearest_model_t 0 = 0"
proof -
  have l: "[0..<length model_t] = [] @ 0 # [1,2,3,4,5,6,7,8,9,10,11,12,13,14,15,16,17,18,19,20,21,22,23,24,25,26,27,28,29,30,31,32::nat]"
    by (simp add: range_model_t)
  show ?thesis unfolding nearest_model_t_def l
    by (rule hd_sort_key_first_min) (simp_all add: model_t_eq)
qed

lemma nearest_1: "nearest_model_t 1 = 10"
proof -
  have l: "[0..<length model_t] = [0,1,2,3,4,5,6,7,8,9] @ 10 # [11,12,13,14,15,16,17,18,19,20,21,22,23,24,25,26,27,28,29,30,31,32::nat]"
    by (simp add: range_model_t)
  show ?thesis unfolding nearest_model_t_def l
    by (rule hd_sort_key_first_min) (simp_all add: model_t_eq)
qed

lemma nearest_2: "nearest_model_t 2 = 14"
proof -
  have l: "[0..<length model_t] = [0,1,2,3,4,5,6,7,8,9,10,11,12,13] @ 14 # [15,16,17,18,19,20,21,22,23,24,25,26,27,28,29,30,31,32::nat]"
    by (simp add: range_model_t)
  show ?thesis unfolding nearest_model_t_def l
    by (rule hd_sort_key_first_min) (simp_all add: model_t_eq)
qed

lemma nearest_3: "nearest_model_t 3 = 18"
proof -
  have l: "[0..<length model_t] = [0,1,2,3,4,5,6,7,8,9,10,11,12,13,14,15,16,17] @ 18 # [19,20,21,22,23,24,25,26,27,28,29,30,31,32::nat]"
    by (simp add: range_model_t)
  show ?thesis unfolding nearest_model_t_def l
    by (rule hd_sort_key_first_min) (simp_all add: model_t_eq)
qed

lemma nearest_4: "nearest_model_t 4 = 20"
proof -
  have l: "[0..<length model_t] = [0,1,2,3,4,5,6,7,8,9,10,11,12,13,14,15,16,17,18,19] @ 20 # [21,22,23,24,25,26,27,28,29,30,31,32::nat]"
    by (simp add: range_model_t)
  show ?thesis unfolding nearest_model_t_def l
    by (rule hd_sort_key_first_min) (simp_all add: model_t_eq)
qed

lemma nearest_5: "nearest_model_t 5 = 23"
proof -
  have l: "[0..<length model_t] = [0,1,2,3,4,5,6,7,8,9,10,11,12,13,14,15,16,17,18,19,20,21,22] @ 23 # [24,25,26,27,28,29,30,31,32::nat]"
    by (simp add: range_model_t)
  show ?thesis unfolding nearest_model_t_def l
    by (rule hd_sort_key_first_min) (simp_all add: model_t_eq)
qed

lemma nearest_6: "nearest_model_t 6 = 25"
proof -
  have l: "[0..<length model_t] = [0,1,2,3,4,5,6,7,8,9,10,11,12,13,14,15,16,17,18,19,20,21,22,23,24] @ 25 # [26,27,28,29,30,31,32::nat]"
    by (simp add: range_model_t)
  show ?thesis unfolding nearest_model_t_def l
    by (rule hd_sort_key_first_min) (simp_all add: model_t_eq)
qed

lemma nearest_7: "nearest_model_t 7 = 27"
proof -
  have l: "[0..<length model_t] = [0,1,2,3,4,5,6,7,8,9,10,11,12,13,14,15,16,17,18,19,20,21,22,23,24,25,26] @ 27 # [28,29,30,31,32::nat]"
    by (simp add: range_model_t)
  show ?thesis unfolding nearest_model_t_def l
    by (rule hd_sort_key_first_min) (simp_all add: model_t_eq)
qed

lemma nearest_8: "nearest_model_t 8 = 29"
proof -
  have l: "[0..<length model_t] = [0,1,2,3,4,5,6,7,8,9,10,11,12,13,14,15,16,17,18,19,20,21,22,23,24,25,26,27,28] @ 29 # [30,31,32::nat]"
    by (simp add: range_model_t)
  show ?thesis unfolding nearest_model_t_def l
    by (rule hd_sort_key_first_min) (simp_all add: model_t_eq)
qed

lemma nearest_9: "nearest_model_t 9 = 30"
proof -
  have l: "[0..<length model_t] = [0,1,2,3,4,5,6,7,8,9,10,11,12,13,14,15,16,17,18,19,20,21,22,23,24,25,26,27,28,29] @ 30 # [31,32::nat]"
    by (simp add: range_model_t)
  show ?thesis unfolding nearest_model_t_def l
    by (rule hd_sort_key_first_min) (simp_all add: model_t_eq)
qed

lemma upt10: "[0..<10] = [0,1,2,3,4,5,6,7,8,9::nat]"
  by (simp add: upt_rec)

lemma model_t_idx_eq: "model_t_idx = [0, 10, 14, 18, 20, 23, 25, 27, 29, 30]"
  unfolding model_t_idx_def mpc_t_def upt10 
  by (simp only: list.map nearest_0 nearest_1 nearest_2 nearest_3 nearest_4 nearest_5 nearest_6
      nearest_7 nearest_8 nearest_9)

lemma py_get_nat: "n < length xs \<Longrightarrow> py_get xs (int n) = Inr (xs ! n)"
  by (simp add: py_get_def)

lemma py_get_nat_out: "length xs \<le> n \<Longrightarrow> py_get xs (int n) = Inl IndexError"
  by (simp add: py_get_def)

lemma py_gets_in_range:
  "\<forall>t\<in>set ts. t < length xs \<Longrightarrow> py_gets xs ts = Inr (map ((!) xs) ts)"
  by (induction ts) (simp_all add: py_get_nat)

lemma py_gets_model_t_idx:
  assumes "31 \<le> length xs"
  shows "py_gets xs model_t_idx = Inr (map ((!) xs) model_t_idx)"
  by (rule py_gets_in_range) (use assms in \<open>auto simp: model_t_idx_eq\<close>)

lemma py_gets_out_of_range:
  "t \<in> set ts \<Longrightarrow> length xs \<le> t \<Longrightarrow> py_gets xs ts = Inl IndexError"
proof (induction ts)
  case Nil
  then show ?case by simp
next
  case (Cons u us)
  show ?case
  proof (cases "length xs \<le> u")
    case True
    then show ?thesis by (simp add: py_get_nat_out)
  next
    case False
    then have u: "py_get xs (int u) = Inr (xs ! u)" by (simp add: py_get_nat)
    from False Cons.prems have "t \<in> set us" by auto
    with Cons have "py_gets xs us = Inl IndexError" by simp
    with u show ?thesis by simp
  qed
qed

lemma py_gets_model_t_idx_short:
  assumes "length xs < 31"
  shows "py_gets xs model_t_idx = Inl IndexError"
  by (rule py_gets_out_of_range [where t = 30]) (use assms in \<open>simp_all add: model_t_idx_eq\<close>)

lemma accel_loop_mpc_t:
  assumes "length sp = 10"
  shows "accel_loop sp mpc_t [] = Inr (central_differences sp)"
  unfolding mpc_t_def upt10 central_differences_def
  using assms by (simp add: py_get_def)

lemma convert_data_value:
  assumes "alive_modelV2 sm" "position_x (modelV2 sm) \<noteq> []"
    "31 \<le> length (position_x (modelV2 sm))" "31 \<le> length (velocity_x (modelV2 sm))"
  shows "convert_data sm =
     Inr (map ((!) (position_x (modelV2 sm))) model_t_idx,
          map ((!) (velocity_x (modelV2 sm))) model_t_idx,
          (let c = central_differences (map ((!) (velocity_x (modelV2 sm))) model_t_idx) in
           (c ! 0 - (c ! 1 - c ! 0)) # c @ [c ! 7 - (c ! 6 - c ! 7)]))"
proof -
  let ?sp = "map ((!) (velocity_x (modelV2 sm))) model_t_idx"
  have len: "length ?sp = 10" by (simp add: model_t_idx_eq)
  have lc: "length (central_differences ?sp) = 8" by (simp add: central_differences_def)
  have g1: "py_get (central_differences ?sp) (- 1) = Inr (central_differences ?sp ! 7)"
    using lc by (simp add: py_get_def)
  have g2: "py_get (central_differences ?sp) (- 2) = Inr (central_differences ?sp ! 6)"
    using lc by (simp add: py_get_def)
  have g3: "py_get (central_differences ?sp @ [x]) 0 = Inr (central_differences ?sp ! 0)" for x
    using lc by (simp add: py_get_def nth_append)
  have g4: "py_get (central_differences ?sp @ [x]) 1 = Inr (central_differences ?sp ! 1)" for x
    using lc by (simp add: py_get_def nth_append)
  show ?thesis
    using assms
    by (simp add: convert_data_def py_gets_model_t_idx accel_loop_mpc_t [OF len] g1 g2 g3 g4 Let_def)
qed


lemma convert_data_stale:
  "\<not> alive_modelV2 sm \<or> length (position_x (modelV2 sm)) = 0 \<Longrightarrow>
     convert_data sm = Inr ([], [], [])"
  by (auto simp: convert_data_def)

lemma convert_data_short:
  assumes "alive_modelV2 sm" "0 < length (position_x (modelV2 sm))"
    "length (position_x (modelV2 sm)) < 31 \<or> length (velocity_x (modelV2 sm)) < 31"
  shows "convert_data sm = Inl IndexError"
proof (cases "length (velocity_x (modelV2 sm)) < 31")
  case True
  then show ?thesis using assms(1,2)
    by (simp add: convert_data_def py_gets_model_t_idx_short)
next
  case False
  then have v: "31 \<le> length (velocity_x (modelV2 sm))" by simp
  from False assms(3) have p: "length (position_x (modelV2 sm)) < 31" by simp
  show ?thesis using assms(1,2)
    by (simp add: convert_data_def py_gets_model_t_idx [OF v] py_gets_model_t_idx_short [OF p])
qed

lemma length_central [simp]: "length (central_differences sp) = 8"
  by (simp add: central_differences_def)

lemma central_nth:
  assumes "1 \<le> t" "t \<le> 8"
  shows "central_differences sp ! (t - 1) = (sp ! (t + 1) - sp ! (t - 1)) / 2"
proof -
  from assms have "t = 1 \<or> t = 2 \<or> t = 3 \<or> t = 4 \<or> t = 5 \<or> t = 6 \<or> t = 7 \<or> t = 8"
    by arith
  then show ?thesis by (elim disjE) (simp_all add: central_differences_def eval_nat_numeral)
qed

lemma central_constant:
  assumes "\<forall>i<10. sp ! i = c"
  shows "central_differences sp = replicate 8 0"
  using assms by (simp add: central_differences_def numeral_eq_Suc)

text \<open>
  Claim C5. For every alive model trajectory of 33 position and 33 velocity samples,
  \<open>convert_data\<close> returns ten resampled speeds (the velocities at \<open>model_t_idx\<close>) and ten
  accelerations: at the interior indices 1..8 the central difference
  \<open>(v[t+1] - v[t-1]) / 2\<close> of the resampled speeds, at the ends the linear
  extrapolations \<open>a[0] = a[1] - (a[2] - a[1])\<close> and \<open>a[9] = a[8] - (a[7] - a[8])\<close>; for a
  constant velocity all ten accelerations are zero.
\<close>

theorem adapter_accelerations:
  assumes "alive_modelV2 sm"
    and "length (position_x (modelV2 sm)) = 33"
    and "length (velocity_x (modelV2 sm)) = 33"
  shows "\<exists>distances speeds accelerations.
           convert_data sm = Inr (distances, speeds, accelerations)
           \<and> speeds = map ((!) (velocity_x (modelV2 sm))) model_t_idx
           \<and> length speeds = 10 \<and> length accelerations = 10
           \<and> (\<forall>t. 1 \<le> t \<and> t \<le> 8 \<longrightarrow>
                 accelerations ! t = (speeds ! (t + 1) - speeds ! (t - 1)) / 2)
           \<and> accelerations ! 0 = accelerations ! 1 - (accelerations ! 2 - accelerations ! 1)
           \<and> accelerations ! 9 = accelerations ! 8 - (accelerations ! 7 - accelerations ! 8)
           \<and> ((\<forall>i<33. velocity_x (modelV2 sm) ! i = c) \<longrightarrow> accelerations = replicate 10 0)"
proof -
  let ?sp = "map ((!) (velocity_x (modelV2 sm))) model_t_idx"
  let ?c = "central_differences ?sp"
  let ?acc = "(?c ! 0 - (?c ! 1 - ?c ! 0)) # ?c @ [?c ! 7 - (?c ! 6 - ?c ! 7)]"
  have ne: "position_x (modelV2 sm) \<noteq> []" using assms(2) by auto
  have cd: "convert_data sm = Inr (map ((!) (position_x (modelV2 sm))) model_t_idx, ?sp, ?acc)"
    using convert_data_value [OF assms(1) ne] assms(2,3) by (simp add: Let_def)
  have len: "length ?sp = 10" by (simp add: model_t_idx_eq)
  have lacc: "length ?acc = 10" by simp
  have inner: "?acc ! t = (?sp ! (t + 1) - ?sp ! (t - 1)) / 2" if "1 \<le> t" "t \<le> 8" for t
  proof -
    from that obtain u where u: "t = Suc u" "u < 8" by (cases t) auto
    then have "?acc ! t = ?c ! u" by (simp add: nth_append)
    also have "\<dots> = (?sp ! (t + 1) - ?sp ! (t - 1)) / 2"
      using central_nth [OF that, of ?sp] u by simp
    finally show ?thesis .
  qed
  have a0: "?acc ! 0 = ?acc ! 1 - (?acc ! 2 - ?acc ! 1)"
    by (simp add: nth_append numeral_2_eq_2)
  have a9: "?acc ! 9 = ?acc ! 8 - (?acc ! 7 - ?acc ! 8)"
    by (simp add: nth_append nth_Cons' )
  have const: "?acc = replicate 10 0" if h: "\<forall>i<33. velocity_x (modelV2 sm) ! i = c"
  proof -
    have "\<forall>i<10. ?sp ! i = c"
    proof (intro allI impI)
      fix i :: nat assume i: "i < 10"
      have li: "i < length model_t_idx" using i by (simp add: model_t_idx_eq)
      have "\<forall>x\<in>set model_t_idx. x < 33" by (simp add: model_t_idx_eq)
      with li have b: "model_t_idx ! i < 33" using nth_mem by blast
      have "?sp ! i = velocity_x (modelV2 sm) ! (model_t_idx ! i)"
        using li by (rule nth_map)
      with h b show "?sp ! i = c" by simp
    qed
    then have "?c = replicate 8 0" by (rule central_constant)
    then show ?thesis by (simp add: numeral_eq_Suc)
  qed
  show ?thesis
    using cd len lacc inner a0 a9 const by (intro exI conjI) (blast | assumption | simp)+
qed


lemma demo_sm_model:
  "alive_modelV2 demo_sm" "length (position_x (modelV2 demo_sm)) = 33"
  "length (velocity_x (modelV2 demo_sm)) = 33"
  by (simp_all add: demo_sm_def demo_modelV2_def)

theorem adapter_accelerations_witness:
  "alive_modelV2 demo_sm \<and> length (position_x (modelV2 demo_sm)) = 33
   \<and> length (velocity_x (modelV2 demo_sm)) = 33
   \<and> (\<exists>distances speeds accelerations.
         convert_data demo_sm = Inr (distances, speeds, accelerations)
         \<and> speeds = [0, 10, 14, 18, 20, 23, 25, 27, 29, 30]
         \<and> accelerations ! 1 = (speeds ! 2 - speeds ! 0) / 2
         \<and> accelerations ! 0 = accelerations ! 1 - (accelerations ! 2 - accelerations ! 1)
         \<and> accelerations ! 9 = accelerations ! 8 - (accelerations ! 7 - accelerations ! 8))"
proof -
  from adapter_accelerations [OF demo_sm_model, of 0]
  obtain d s a where r: "convert_data demo_sm = Inr (d, s, a)"
    and s: "s = map ((!) (velocity_x (modelV2 demo_sm))) model_t_idx"
    and inner: "\<forall>t. 1 \<le> t \<and> t \<le> 8 \<longrightarrow> a ! t = (s ! (t + 1) - s ! (t - 1)) / 2"
    and a0: "a ! 0 = a ! 1 - (a ! 2 - a ! 1)"
    and a9: "a ! 9 = a ! 8 - (a ! 7 - a ! 8)"
    by blast
  have v: "velocity_x (modelV2 demo_sm) ! i = real i" if "i < 33" for i
    using that by (simp add: demo_sm_def demo_modelV2_def del: upt_Suc)
  have s': "s = [0, 10, 14, 18, 20, 23, 25, 27, 29, 30]"
    unfolding s model_t_idx_eq by (simp add: v)
  have p: "(1::nat) \<le> 1 \<and> (1::nat) \<le> 8" by simp
  have e: "(1::nat) + 1 = 2" "(1::nat) - 1 = 0" by simp_all
  have a1: "a ! 1 = (s ! 2 - s ! 0) / 2"
    using inner [rule_format, OF p] unfolding e .
  have "convert_data demo_sm = Inr (d, s, a)
         \<and> s = [0, 10, 14, 18, 20, 23, 25, 27, 29, 30]
         \<and> a ! 1 = (s ! 2 - s ! 0) / 2
         \<and> a ! 0 = a ! 1 - (a ! 2 - a ! 1)
         \<and> a ! 9 = a ! 8 - (a ! 7 - a ! 8)"
    using r s' a1 a0 a9 by (intro conjI)
  then have "\<exists>distances speeds accelerations.
         convert_data demo_sm = Inr (distances, speeds, accelerations)
         \<and> speeds = [0, 10, 14, 18, 20, 23, 25, 27, 29, 30]
         \<and> accelerations ! 1 = (speeds ! 2 - speeds ! 0) / 2
         \<and> accelerations ! 0 = accelerations ! 1 - (accelerations ! 2 - accelerations ! 1)
         \<and> accelerations ! 9 = accelerations ! 8 - (accelerations ! 7 - accelerations ! 8)"
    by (intro exI)
  with demo_sm_model show ?thesis by (intro conjI)
qed

text \<open>
  Claim C6, as amended. \<open>convert_data\<close> returns three empty arrays when the trajectory
  is not alive or has no position sample; it returns three arrays of exactly ten
  elements when the trajectory is alive and both its position and its velocity array
  have at least 31 samples (the largest index read is 30), as every 33-sample trajectory
  has; on an alive, non-empty trajectory with a shorter position or velocity array the
  subscription raises IndexError.
\<close>

theorem adapter_lengths:
  "(\<not> alive_modelV2 sm \<or> length (position_x (modelV2 sm)) = 0
      \<longrightarrow> convert_data sm = Inr ([], [], []))
   \<and> (alive_modelV2 sm \<and> 31 \<le> length (position_x (modelV2 sm))
        \<and> 31 \<le> length (velocity_x (modelV2 sm))
      \<longrightarrow> (\<exists>distances speeds accelerations.
            convert_data sm = Inr (distances, speeds, accelerations)
            \<and> length distances = 10 \<and> length speeds = 10 \<and> length accelerations = 10))
   \<and> (alive_modelV2 sm \<and> 0 < length (position_x (modelV2 sm))
        \<and> (length (position_x (modelV2 sm)) < 31 \<or> length (velocity_x (modelV2 sm)) < 31)
      \<longrightarrow> convert_data sm = Inl IndexError)"
proof (intro conjI impI)
  assume "\<not> alive_modelV2 sm \<or> length (position_x (modelV2 sm)) = 0"
  then show "convert_data sm = Inr ([], [], [])" by (rule convert_data_stale)
next
  assume h: "alive_modelV2 sm \<and> 31 \<le> length (position_x (modelV2 sm))
        \<and> 31 \<le> length (velocity_x (modelV2 sm))"
  then have ne: "position_x (modelV2 sm) \<noteq> []" by auto
  from h have "convert_data sm =
     Inr (map ((!) (position_x (modelV2 sm))) model_t_idx,
          map ((!) (velocity_x (modelV2 sm))) model_t_idx,
          (let c = central_differences (map ((!) (velocity_x (modelV2 sm))) model_t_idx) in
           (c ! 0 - (c ! 1 - c ! 0)) # c @ [c ! 7 - (c ! 6 - c ! 7)]))"
    using convert_data_value [OF _ ne] by blast
  then show "\<exists>distances speeds accelerations.
            convert_data sm = Inr (distances, speeds, accelerations)
            \<and> length distances = 10 \<and> length speeds = 10 \<and> length accelerations = 10"
    by (simp add: Let_def model_t_idx_eq)
next
  assume "alive_modelV2 sm \<and> 0 < length (position_x (modelV2 sm))
        \<and> (length (position_x (modelV2 sm)) < 31 \<or> length (velocity_x (modelV2 sm)) < 31)"
  then show "convert_data sm = Inl IndexError"
    using convert_data_short by blast
qed

theorem adapter_lengths_witness:
  "convert_data (demo_sm\<lparr>alive_modelV2 := False\<rparr>) = Inr ([], [], [])
   \<and> (\<exists>distances speeds accelerations.
        convert_data demo_sm = Inr (distances, speeds, accelerations)
        \<and> length distances = 10 \<and> length speeds = 10 \<and> length accelerations = 10)
   \<and> convert_data (demo_sm\<lparr>modelV2 := short_modelV2\<rparr>) = Inl IndexError"
proof -
  have a: "\<not> alive_modelV2 (demo_sm\<lparr>alive_modelV2 := False\<rparr>)" by simp
  have b: "alive_modelV2 demo_sm \<and> 31 \<le> length (position_x (modelV2 demo_sm))
        \<and> 31 \<le> length (velocity_x (modelV2 demo_sm))"
    by (simp add: demo_sm_model)
  have c: "alive_modelV2 (demo_sm\<lparr>modelV2 := short_modelV2\<rparr>)
        \<and> 0 < length (position_x (modelV2 (demo_sm\<lparr>modelV2 := short_modelV2\<rparr>)))
        \<and> (length (position_x (modelV2 (demo_sm\<lparr>modelV2 := short_modelV2\<rparr>))) < 31
           \<or> length (velocity_x (modelV2 (demo_sm\<lparr>modelV2 := short_modelV2\<rparr>))) < 31)"
    by (simp add: demo_sm_model short_modelV2_def)
  have r1: "convert_data (demo_sm\<lparr>alive_modelV2 := False\<rparr>) = Inr ([], [], [])"
    using adapter_lengths [of "demo_sm\<lparr>alive_modelV2 := False\<rparr>", THEN conjunct1, THEN mp,
        OF disjI1, OF a] .
  have r2: "\<exists>distances speeds accelerations.
        convert_data demo_sm = Inr (distances, speeds, accelerations)
        \<and> length distances = 10 \<and> length speeds = 10 \<and> length accelerations = 10"
    using adapter_lengths [of demo_sm, THEN conjunct2, THEN conjunct1, THEN mp, OF b] .
  have r3: "convert_data (demo_sm\<lparr>modelV2 := short_modelV2\<rparr>) = Inl IndexError"
    using adapter_lengths [of "demo_sm\<lparr>modelV2 := short_modelV2\<rparr>", THEN conjunct2,
        THEN conjunct2, THEN mp, OF c] .
  show ?thesis using r1 r2 r3 by (intro conjI)
qed

text \<open>The claim as stated fails on an alive trajectory of one sample: it is non-empty,
  and no array is returned.\<close>

theorem adapter_lengths_counterexample:
  "alive_modelV2 (demo_sm\<lparr>modelV2 := short_modelV2\<rparr>)
   \<and> length (position_x (modelV2 (demo_sm\<lparr>modelV2 := short_modelV2\<rparr>))) = 1
   \<and> convert_data (demo_sm\<lparr>modelV2 := short_modelV2\<rparr>) = Inl IndexError"
proof -
  have "convert_data (demo_sm\<lparr>modelV2 := short_modelV2\<rparr>) = Inl IndexError"
    by (rule convert_data_short) (simp_all add: demo_sm_model short_modelV2_def)
  then show ?thesis by (simp add: demo_sm_model short_modelV2_def)
qed

section \<open>The arbiter\<close>

lemma solutions_of_eq:
  "solutions_of model_enabled self =
     map (\<lambda>c. (fst c, fst (snd c))) (eligible_candidates model_enabled self)"
  by (simp add: solutions_of_def eligible_candidates_def Let_def)

lemma min_key_from_decomp:
  "\<exists>as b bs. kv # d = as @ b # bs \<and> fst b = min_key_from kv d
      \<and> (\<forall>x\<in>set as. snd b < snd x) \<and> (\<forall>x\<in>set bs. snd b \<le> snd x)"
proof (induction d arbitrary: kv)
  case Nil
  have "[kv] = [] @ kv # [] \<and> fst kv = min_key_from kv []
      \<and> (\<forall>x\<in>set []. snd kv < snd x) \<and> (\<forall>x\<in>set []. snd kv \<le> snd x)"
    by (cases kv) simp
  then show ?case by (intro exI)
next
  case (Cons p d)
  obtain k v where kv: "kv = (k, v)" by (cases kv)
  obtain k' v' where p: "p = (k', v')" by (cases p)
  show ?case
  proof (cases "v' < v")
    case True
    from Cons.IH [of p] obtain as b bs where
      d: "p # d = as @ b # bs" and f: "fst b = min_key_from p d"
      and lt: "\<forall>x\<in>set as. snd b < snd x" and le: "\<forall>x\<in>set bs. snd b \<le> snd x"
      by (elim exE conjE)
    have "p \<in> set (as @ b # bs)" using d by (metis list.set_intros(1))
    then have "snd b \<le> snd p" using lt le by auto
    then have bv: "snd b < v" using True p by simp
    have 1: "kv # p # d = (kv # as) @ b # bs" using d by simp
    have 2: "fst b = min_key_from kv (p # d)" using f True kv p by simp
    have 3: "\<forall>x\<in>set (kv # as). snd b < snd x" using lt bv kv by simp
    from 1 2 3 le have "kv # p # d = (kv # as) @ b # bs \<and> fst b = min_key_from kv (p # d)
      \<and> (\<forall>x\<in>set (kv # as). snd b < snd x) \<and> (\<forall>x\<in>set bs. snd b \<le> snd x)"
      by (intro conjI)
    then show ?thesis by (intro exI)
  next
    case False
    from Cons.IH [of kv] obtain as b bs where
      d: "kv # d = as @ b # bs" and f: "fst b = min_key_from kv d"
      and lt: "\<forall>x\<in>set as. snd b < snd x" and le: "\<forall>x\<in>set bs. snd b \<le> snd x"
      by (elim exE conjE)
    have f': "fst b = min_key_from kv (p # d)" using f False kv p by simp
    show ?thesis
    proof (cases as)
      case Nil
      then have b: "b = kv" and bs: "bs = d" using d by simp_all
      have 1: "kv # p # d = [] @ b # (p # d)" using b by simp
      have 3: "\<forall>x\<in>set (p # d). snd b \<le> snd x" using le bs b False kv p by simp
      from 1 f' 3 have "kv # p # d = [] @ b # (p # d) \<and> fst b = min_key_from kv (p # d)
        \<and> (\<forall>x\<in>set []. snd b < snd x) \<and> (\<forall>x\<in>set (p # d). snd b \<le> snd x)"
        by simp
      then show ?thesis by (intro exI)
    next
      case (Cons a as')
      then have a: "a = kv" and d': "d = as' @ b # bs" using d by simp_all
      have "snd b < snd kv" using lt Cons a by simp
      then have bp: "snd b < snd p" using False kv p by simp
      have 1: "kv # p # d = (kv # p # as') @ b # bs" using d' by simp
      have 3: "\<forall>x\<in>set (kv # p # as'). snd b < snd x" using lt Cons a bp by simp
      from 1 f' 3 le have "kv # p # d = (kv # p # as') @ b # bs
        \<and> fst b = min_key_from kv (p # d)
        \<and> (\<forall>x\<in>set (kv # p # as'). snd b < snd x) \<and> (\<forall>x\<in>set bs. snd b \<le> snd x)"
        by (intro conjI)
      then show ?thesis by (intro exI)
    qed
  qed
qed

lemma set_solution_cruise:
  "set_solution ''cruise'' self =
     self\<lparr>longitudinalPlanSource := ''cruise'', v_acc := v_cruise self, a_acc := a_cruise self\<rparr>"
  by (simp add: set_solution_def)

lemma set_solution_mpc1:
  "set_solution ''mpc1'' self =
     self\<lparr>longitudinalPlanSource := ''mpc1'', v_acc := v_mpc (mpc1 self),
          a_acc := a_mpc (mpc1 self)\<rparr>"
  by (simp add: set_solution_def)

lemma set_solution_mpc2:
  "set_solution ''mpc2'' self =
     self\<lparr>longitudinalPlanSource := ''mpc2'', v_acc := v_mpc (mpc2 self),
          a_acc := a_mpc (mpc2 self)\<rparr>"
  by (simp add: set_solution_def)

lemma set_solution_model:
  "set_solution ''model'' self =
     self\<lparr>longitudinalPlanSource := ''model'', v_acc := v_mpc (mpc_model self),
          a_acc := a_mpc (mpc_model self)\<rparr>"
  by (simp add: set_solution_def)

lemma eligible_candidates_cases:
  assumes "w \<in> set (eligible_candidates model_enabled self)"
  shows "w = (''cruise'', v_cruise self, a_cruise self)
       \<or> w = (''mpc1'', v_mpc (mpc1 self), a_mpc (mpc1 self))
       \<or> w = (''mpc2'', v_mpc (mpc2 self), a_mpc (mpc2 self))
       \<or> w = (''model'', v_mpc (mpc_model self), a_mpc (mpc_model self))"
  using assms unfolding eligible_candidates_def
  by (auto split: if_splits)

lemma set_solution_candidate:
  assumes "w \<in> set (eligible_candidates model_enabled self)"
  shows "set_solution (fst w) self =
           self\<lparr>longitudinalPlanSource := fst w, v_acc := fst (snd w), a_acc := snd (snd w)\<rparr>"
  using eligible_candidates_cases [OF assms]
  by (elim disjE)
     (simp_all only: fst_conv snd_conv set_solution_cruise set_solution_mpc1
        set_solution_mpc2 set_solution_model)

lemma py_min_3: "py_min [a, b, c] = Inr (min a (min b c))"
  by (simp add: min_def)

lemma py_min_4: "py_min [a, b, c, d] = Inr (min (min a (min b c)) d)"
  by (simp add: min_def)

lemma choose_solution_disabled:
  "choose_solution sp False model_enabled self =
     Inr (self\<lparr>v_acc_future := min (v_mpc_future (mpc1 self)) (min (v_mpc_future (mpc2 self)) sp)\<rparr>)"
  unfolding choose_solution_def Let_def if_False
  by (simp add: py_min_3 del: py_min.simps)

lemma map_eq_decomp:
  "map f xs = as' @ b # bs' \<Longrightarrow>
     \<exists>as w bs. xs = as @ w # bs \<and> as' = map f as \<and> b = f w \<and> bs' = map f bs"
proof (induction as' arbitrary: xs)
  case Nil
  then obtain z zs where "xs = z # zs" "f z = b" "map f zs = bs'"
    by (auto simp: map_eq_Cons_conv)
  then have "xs = [] @ z # zs \<and> [] = map f [] \<and> b = f z \<and> bs' = map f zs" by simp
  then show ?case by (intro exI)
next
  case (Cons a as')
  then obtain z zs where z: "xs = z # zs" "f z = a" "map f zs = as' @ b # bs'"
    by (auto simp: map_eq_Cons_conv)
  from Cons.IH [OF z(3)] obtain as w bs where
    "zs = as @ w # bs" "as' = map f as" "b = f w" "bs' = map f bs" by (elim exE conjE)
  with z have "xs = (z # as) @ w # bs \<and> a # as' = map f (z # as) \<and> b = f w \<and> bs' = map f bs"
    by simp
  then show ?case by (intro exI)
qed

lemma py_min_key_candidates:
  "\<exists>as w bs. eligible_candidates model_enabled self = as @ w # bs
      \<and> py_min_key (solutions_of model_enabled self) = Inr (fst w)
      \<and> (\<forall>c\<in>set as. fst (snd w) < fst (snd c))
      \<and> (\<forall>c\<in>set bs. fst (snd w) \<le> fst (snd c))"
proof -
  let ?f = "\<lambda>c :: string \<times> real \<times> real. (fst c, fst (snd c))"
  obtain c0 rest where e: "eligible_candidates model_enabled self = c0 # rest"
    by (simp add: eligible_candidates_def)
  have sol: "solutions_of model_enabled self = ?f c0 # map ?f rest"
    by (simp add: solutions_of_eq e)
  from min_key_from_decomp [of "?f c0" "map ?f rest"]
  obtain as' b bs' where d: "?f c0 # map ?f rest = as' @ b # bs'"
    and k: "fst b = min_key_from (?f c0) (map ?f rest)"
    and lt: "\<forall>x\<in>set as'. snd b < snd x" and le: "\<forall>x\<in>set bs'. snd b \<le> snd x"
    by (elim exE conjE)
  from d have "map ?f (c0 # rest) = as' @ b # bs'" by simp
  from map_eq_decomp [OF this]
  obtain as w bs where 1: "c0 # rest = as @ w # bs" and 2: "as' = map ?f as"
    and 5: "b = ?f w" and 6: "bs' = map ?f bs"
    by (elim exE conjE)
  have A: "eligible_candidates model_enabled self = as @ w # bs" using e 1 by simp
  have B: "py_min_key (solutions_of model_enabled self) = Inr (fst w)"
    using sol k 5 by simp
  have C: "\<forall>c\<in>set as. fst (snd w) < fst (snd c)" using lt 2 5 by simp
  have D: "\<forall>c\<in>set bs. fst (snd w) \<le> fst (snd c)" using le 6 5 by simp
  from A B C D have "eligible_candidates model_enabled self = as @ w # bs
      \<and> py_min_key (solutions_of model_enabled self) = Inr (fst w)
      \<and> (\<forall>c\<in>set as. fst (snd w) < fst (snd c))
      \<and> (\<forall>c\<in>set bs. fst (snd w) \<le> fst (snd c))"
    by (intro conjI)
  then show ?thesis by (intro exI)
qed

lemma choose_solution_enabled:
  "\<exists>as w bs. eligible_candidates model_enabled self = as @ w # bs
      \<and> (\<forall>c\<in>set as. fst (snd w) < fst (snd c))
      \<and> (\<forall>c\<in>set bs. fst (snd w) \<le> fst (snd c))
      \<and> choose_solution sp True model_enabled self =
          Inr (self\<lparr>longitudinalPlanSource := fst w, v_acc := fst (snd w), a_acc := snd (snd w),
                    v_acc_future :=
                      (if valid (mpc_model self) \<and> model_enabled
                       then min (min (v_mpc_future (mpc1 self)) (min (v_mpc_future (mpc2 self)) sp))
                              (v_mpc_future (mpc_model self))
                       else min (v_mpc_future (mpc1 self)) (min (v_mpc_future (mpc2 self)) sp))\<rparr>)"
proof -
  from py_min_key_candidates [of model_enabled self]
  obtain as w bs where A: "eligible_candidates model_enabled self = as @ w # bs"
    and B: "py_min_key (solutions_of model_enabled self) = Inr (fst w)"
    and C: "\<forall>c\<in>set as. fst (snd w) < fst (snd c)"
    and D: "\<forall>c\<in>set bs. fst (snd w) \<le> fst (snd c)"
    by (elim exE conjE)
  have "w \<in> set (eligible_candidates model_enabled self)" using A by simp
  then have S: "set_solution (fst w) self =
           self\<lparr>longitudinalPlanSource := fst w, v_acc := fst (snd w), a_acc := snd (snd w)\<rparr>"
    by (rule set_solution_candidate)
  have E: "choose_solution sp True model_enabled self =
          Inr (self\<lparr>longitudinalPlanSource := fst w, v_acc := fst (snd w), a_acc := snd (snd w),
                    v_acc_future :=
                      (if valid (mpc_model self) \<and> model_enabled
                       then min (min (v_mpc_future (mpc1 self)) (min (v_mpc_future (mpc2 self)) sp))
                              (v_mpc_future (mpc_model self))
                       else min (v_mpc_future (mpc1 self)) (min (v_mpc_future (mpc2 self)) sp))\<rparr>)"
  proof (cases "valid (mpc_model self) \<and> model_enabled")
    case True
    show ?thesis
      unfolding choose_solution_def Let_def B if_P [OF True]
      by (simp add: S py_min_4 del: py_min.simps)
  next
    case False
    show ?thesis
      unfolding choose_solution_def Let_def B if_not_P [OF False]
      by (simp add: S py_min_3 del: py_min.simps)
  qed
  from A C D E have "eligible_candidates model_enabled self = as @ w # bs
      \<and> (\<forall>c\<in>set as. fst (snd w) < fst (snd c))
      \<and> (\<forall>c\<in>set bs. fst (snd w) \<le> fst (snd c))
      \<and> choose_solution sp True model_enabled self =
          Inr (self\<lparr>longitudinalPlanSource := fst w, v_acc := fst (snd w), a_acc := snd (snd w),
                    v_acc_future :=
                      (if valid (mpc_model self) \<and> model_enabled
                       then min (min (v_mpc_future (mpc1 self)) (min (v_mpc_future (mpc2 self)) sp))
                              (v_mpc_future (mpc_model self))
                       else min (v_mpc_future (mpc1 self)) (min (v_mpc_future (mpc2 self)) sp))\<rparr>)"
    by (intro conjI)
  then show ?thesis by (intro exI)
qed

section \<open>The blocks of update\<close>

lemma update_unfold:
  "update E cp sm prm cur_time self =
     bind_error (update_speed_map E prm
        (self\<lparr>vego := vEgo (carState sm), v_acc_start := v_acc_next self,
              a_acc_start := a_acc_next self\<rparr>)) (\<lambda>s1.
     bind_error (update_cruise E sm (cruise_setpoint E cp sm) (is_enabled sm)
        (status (leadOne (radarState sm)) \<and> dRel (leadOne (radarState sm)) < 45
         \<and> vLeadK (leadOne (radarState sm)) > vEgo (carState sm)
         \<and> aLeadK (leadOne (radarState sm)) > 0)
        (forceDecel (controlsState sm)) s1) (\<lambda>s2.
     bind_error (update_mpcs E sm s2) (\<lambda>s3.
     bind_error (choose_solution (cruise_setpoint E cp sm) (is_enabled sm)
        (ModelLongEnabled prm) s3) (\<lambda>s4.
     Inr (update_next cp (determine_fcw E sm cur_time s4))))))"
  by (simp add: update_def Let_def)

lemma update_speed_map_frame_aux:
  "case update_speed_map E prm self of Inl e \<Rightarrow> True
   | Inr s1 \<Rightarrow> without_speed_map s1 = without_speed_map self"
  unfolding update_speed_map_def Let_def
  by (simp add: without_speed_map_def bind_error_def split: sum.split option.split)

lemma update_speed_map_frame:
  assumes "update_speed_map E prm self = Inr s1"
  shows "without_speed_map s1 = without_speed_map self"
  using update_speed_map_frame_aux [where E = E and prm = prm and self = self] assms by simp

lemma update_speed_map_disabled:
  "\<not> OpkrMapEnable prm \<Longrightarrow> update_speed_map E prm self = Inr self"
  by (simp add: update_speed_map_def)

lemma update_cruise_override:
  assumes "\<not> (enabled \<and> \<not> first_loop self \<and> \<not> brakePressed (carState sm)
              \<and> \<not> gasPressed (carState sm))"
  shows "update_cruise E sm sp enabled following fsd self =
     Inr (self\<lparr>v_acc := (if longControlState (controlsState sm) = starting
                         then minSpeedCan (CP self) else vEgo (carState sm)),
               a_acc := (if longControlState (controlsState sm) = starting
                         then startAccel (CP self) else min (aEgo (carState sm)) 0),
               v_acc_start := (if longControlState (controlsState sm) = starting
                         then minSpeedCan (CP self) else vEgo (carState sm)),
               a_acc_start := (if longControlState (controlsState sm) = starting
                         then startAccel (CP self) else min (aEgo (carState sm)) 0),
               v_cruise := (if longControlState (controlsState sm) = starting
                         then minSpeedCan (CP self) else vEgo (carState sm)),
               a_cruise := (if longControlState (controlsState sm) = starting
                         then startAccel (CP self) else min (aEgo (carState sm)) 0)\<rparr>)"
  unfolding update_cruise_def Let_def if_not_P [OF assms] by simp

lemma calc_cruise_accel_limits_pair:
  "\<exists>lo hi. calc_cruise_accel_limits v following = [lo, hi]"
  by (simp add: calc_cruise_accel_limits_def)

text \<open>The engaged branch, given what the turn limiter returns.\<close>

lemma update_cruise_engaged_value:
  assumes c: "enabled \<and> \<not> first_loop self \<and> \<not> brakePressed (carState sm)
              \<and> \<not> gasPressed (carState sm)"
    and l: "calc_cruise_accel_limits (vEgo (carState sm)) following = [lo, hi]"
    and t: "limit_accel_in_turns (CV E) (vEgo (carState sm)) (steeringAngleDeg (carState sm))
              [lo, hi] (CP self) = Inr [lo, up]"
  shows "update_cruise E sm sp enabled following fsd self =
     Inr (self\<lparr>v_cruise := max (fst (speed_smoother E (v_acc_start self) (a_acc_start self) sp
                                 up lo (max 0.1 hi) (min (- 0.1) lo) LON_MPC_STEP)) 0,
               a_cruise := snd (speed_smoother E (v_acc_start self) (a_acc_start self) sp
                                 up lo (max 0.1 hi) (min (- 0.1) lo) LON_MPC_STEP)\<rparr>)"
  unfolding update_cruise_def Let_def if_P [OF c] l t
  by (simp add: py_get_pair_0 py_get_pair_1 case_prod_beta)

lemma update_cruise_engaged_error:
  assumes c: "enabled \<and> \<not> first_loop self \<and> \<not> brakePressed (carState sm)
              \<and> \<not> gasPressed (carState sm)"
    and t: "limit_accel_in_turns (CV E) (vEgo (carState sm)) (steeringAngleDeg (carState sm))
              (calc_cruise_accel_limits (vEgo (carState sm)) following) (CP self) = Inl e"
  shows "update_cruise E sm sp enabled following fsd self = Inl e"
proof -
  obtain lo hi where l: "calc_cruise_accel_limits (vEgo (carState sm)) following = [lo, hi]"
    using calc_cruise_accel_limits_pair by blast
  show ?thesis
    using t unfolding update_cruise_def Let_def if_P [OF c] l
    by (simp add: py_get_pair_0 py_get_pair_1)
qed

lemma update_cruise_engaged:
  assumes c: "enabled \<and> \<not> first_loop self \<and> \<not> brakePressed (carState sm)
              \<and> \<not> gasPressed (carState sm)"
    and r: "update_cruise E sm sp enabled following fsd self = Inr s2"
  shows "\<exists>vc ac. s2 = self\<lparr>v_cruise := vc, a_cruise := ac\<rparr> \<and> 0 \<le> vc"
proof -
  obtain lo hi where l: "calc_cruise_accel_limits (vEgo (carState sm)) following = [lo, hi]"
    using calc_cruise_accel_limits_pair by blast
  show ?thesis
  proof (cases "limit_accel_in_turns (CV E) (vEgo (carState sm))
      (steeringAngleDeg (carState sm)) [lo, hi] (CP self)")
    case (Inl e)
    then have "update_cruise E sm sp enabled following fsd self = Inl e"
      using update_cruise_engaged_error [OF c, of E following e] l by simp
    with r show ?thesis by simp
  next
    case (Inr x)
    from limit_accel_in_turns_pair [OF Inr] obtain up where x: "x = [lo, up]" by blast
    note v = update_cruise_engaged_value [OF c l Inr [unfolded x], of sp fsd]
    from r have "s2 = self\<lparr>v_cruise := max (fst (speed_smoother E (v_acc_start self)
        (a_acc_start self) sp up lo (max 0.1 hi) (min (- 0.1) lo) LON_MPC_STEP)) 0,
        a_cruise := snd (speed_smoother E (v_acc_start self) (a_acc_start self) sp
                                 up lo (max 0.1 hi) (min (- 0.1) lo) LON_MPC_STEP)\<rparr>
      \<and> 0 \<le> max (fst (speed_smoother E (v_acc_start self)
        (a_acc_start self) sp up lo (max 0.1 hi) (min (- 0.1) lo) LON_MPC_STEP)) 0"
      unfolding v by simp
    then show ?thesis by (intro exI)
  qed
qed

lemma update_cruise_force_slow_decel:
  "update_cruise E sm sp enabled following fsd self
     = update_cruise E sm sp enabled following fsd' self"
  unfolding update_cruise_def Let_def by (simp only: simp_thms)

lemma update_mpcs_frame:
  assumes "update_mpcs E sm self = Inr s3"
  shows "\<exists>m1 m2 mm. s3 = self\<lparr>mpc1 := m1, mpc2 := m2, mpc_model := mm\<rparr>"
proof -
  from assms obtain d sp acc where "convert_data sm = Inr (d, sp, acc)"
    and s3: "s3 = self\<lparr>mpc1 := mpc_update E (carState sm) (leadOne (radarState sm))
                          (mpc_set_cur_state E (v_acc_start self) (a_acc_start self) (mpc1 self)),
                   mpc2 := mpc_update E (carState sm) (leadTwo (radarState sm))
                          (mpc_set_cur_state E (v_acc_start self) (a_acc_start self) (mpc2 self)),
                   mpc_model := model_update E (vEgo (carState sm)) (aEgo (carState sm)) d sp acc
                          (model_set_cur_state E (v_acc_start self) (a_acc_start self)
                             (mpc_model self))\<rparr>"
    by (auto simp: update_mpcs_def Let_def bind_error_eq_Inr)
  then show ?thesis by (intro exI)
qed

subsection \<open>What each block leaves unchanged\<close>

lemma without_speed_map_sel:
  assumes "without_speed_map a = without_speed_map b"
    and "\<And>s :: ('sol, 'i, 'j, 'f) Planner. g (without_speed_map s) = g s"
  shows "g a = g b"
  using assms by metis

lemma update_speed_map_fields:
  assumes "update_speed_map E prm self = Inr s1"
  shows "CP s1 = CP self" and "mpc1 s1 = mpc1 self" and "mpc2 s1 = mpc2 self"
    and "mpc_model s1 = mpc_model self"
    and "v_acc_start s1 = v_acc_start self" and "a_acc_start s1 = a_acc_start self"
    and "v_acc s1 = v_acc self" and "a_acc s1 = a_acc self"
    and "v_cruise s1 = v_cruise self" and "a_cruise s1 = a_cruise self"
    and "longitudinalPlanSource s1 = longitudinalPlanSource self"
    and "fcw_checker s1 = fcw_checker self" and "first_loop s1 = first_loop self"
proof -
  note f = update_speed_map_frame [OF assms]
  show "CP s1 = CP self"
    by (rule without_speed_map_sel [OF f]) (simp add: without_speed_map_def)
  show "mpc1 s1 = mpc1 self"
    by (rule without_speed_map_sel [OF f]) (simp add: without_speed_map_def)
  show "mpc2 s1 = mpc2 self"
    by (rule without_speed_map_sel [OF f]) (simp add: without_speed_map_def)
  show "mpc_model s1 = mpc_model self"
    by (rule without_speed_map_sel [OF f]) (simp add: without_speed_map_def)
  show "v_acc_start s1 = v_acc_start self"
    by (rule without_speed_map_sel [OF f]) (simp add: without_speed_map_def)
  show "a_acc_start s1 = a_acc_start self"
    by (rule without_speed_map_sel [OF f]) (simp add: without_speed_map_def)
  show "v_acc s1 = v_acc self"
    by (rule without_speed_map_sel [OF f]) (simp add: without_speed_map_def)
  show "a_acc s1 = a_acc self"
    by (rule without_speed_map_sel [OF f]) (simp add: without_speed_map_def)
  show "v_cruise s1 = v_cruise self"
    by (rule without_speed_map_sel [OF f]) (simp add: without_speed_map_def)
  show "a_cruise s1 = a_cruise self"
    by (rule without_speed_map_sel [OF f]) (simp add: without_speed_map_def)
  show "longitudinalPlanSource s1 = longitudinalPlanSource self"
    by (rule without_speed_map_sel [OF f]) (simp add: without_speed_map_def)
  show "fcw_checker s1 = fcw_checker self"
    by (rule without_speed_map_sel [OF f]) (simp add: without_speed_map_def)
  show "first_loop s1 = first_loop self"
    by (rule without_speed_map_sel [OF f]) (simp add: without_speed_map_def)
qed

lemma update_steps:
  assumes "update E cp sm prm cur_time self = Inr s'"
  shows "\<exists>s1 s2 s3 s4.
    update_speed_map E prm
        (self\<lparr>vego := vEgo (carState sm), v_acc_start := v_acc_next self,
              a_acc_start := a_acc_next self\<rparr>) = Inr s1
    \<and> update_cruise E sm (cruise_setpoint E cp sm) (is_enabled sm)
        (status (leadOne (radarState sm)) \<and> dRel (leadOne (radarState sm)) < 45
         \<and> vLeadK (leadOne (radarState sm)) > vEgo (carState sm)
         \<and> aLeadK (leadOne (radarState sm)) > 0)
        (forceDecel (controlsState sm)) s1 = Inr s2
    \<and> update_mpcs E sm s2 = Inr s3
    \<and> choose_solution (cruise_setpoint E cp sm) (is_enabled sm) (ModelLongEnabled prm) s3
           = Inr s4
    \<and> s' = update_next cp (determine_fcw E sm cur_time s4)"
proof -
  from assms obtain s1 where 1: "update_speed_map E prm
        (self\<lparr>vego := vEgo (carState sm), v_acc_start := v_acc_next self,
              a_acc_start := a_acc_next self\<rparr>) = Inr s1"
    and r1: "bind_error (update_cruise E sm (cruise_setpoint E cp sm) (is_enabled sm)
        (status (leadOne (radarState sm)) \<and> dRel (leadOne (radarState sm)) < 45
         \<and> vLeadK (leadOne (radarState sm)) > vEgo (carState sm)
         \<and> aLeadK (leadOne (radarState sm)) > 0)
        (forceDecel (controlsState sm)) s1) (\<lambda>s2.
     bind_error (update_mpcs E sm s2) (\<lambda>s3.
     bind_error (choose_solution (cruise_setpoint E cp sm) (is_enabled sm)
        (ModelLongEnabled prm) s3) (\<lambda>s4.
     Inr (update_next cp (determine_fcw E sm cur_time s4))))) = Inr s'"
    unfolding update_unfold by (cases "update_speed_map E prm
        (self\<lparr>vego := vEgo (carState sm), v_acc_start := v_acc_next self,
              a_acc_start := a_acc_next self\<rparr>)") simp_all
  from r1 obtain s2 where 2: "update_cruise E sm (cruise_setpoint E cp sm) (is_enabled sm)
        (status (leadOne (radarState sm)) \<and> dRel (leadOne (radarState sm)) < 45
         \<and> vLeadK (leadOne (radarState sm)) > vEgo (carState sm)
         \<and> aLeadK (leadOne (radarState sm)) > 0)
        (forceDecel (controlsState sm)) s1 = Inr s2"
    and r2: "bind_error (update_mpcs E sm s2) (\<lambda>s3.
     bind_error (choose_solution (cruise_setpoint E cp sm) (is_enabled sm)
        (ModelLongEnabled prm) s3) (\<lambda>s4.
     Inr (update_next cp (determine_fcw E sm cur_time s4)))) = Inr s'"
    by (cases "update_cruise E sm (cruise_setpoint E cp sm) (is_enabled sm)
        (status (leadOne (radarState sm)) \<and> dRel (leadOne (radarState sm)) < 45
         \<and> vLeadK (leadOne (radarState sm)) > vEgo (carState sm)
         \<and> aLeadK (leadOne (radarState sm)) > 0)
        (forceDecel (controlsState sm)) s1") simp_all
  from r2 obtain s3 where 3: "update_mpcs E sm s2 = Inr s3"
    and r3: "bind_error (choose_solution (cruise_setpoint E cp sm) (is_enabled sm)
        (ModelLongEnabled prm) s3) (\<lambda>s4.
     Inr (update_next cp (determine_fcw E sm cur_time s4))) = Inr s'"
    by (cases "update_mpcs E sm s2") simp_all
  from r3 obtain s4 where 4: "choose_solution (cruise_setpoint E cp sm) (is_enabled sm)
        (ModelLongEnabled prm) s3 = Inr s4"
    and 5: "s' = update_next cp (determine_fcw E sm cur_time s4)"
    by (cases "choose_solution (cruise_setpoint E cp sm) (is_enabled sm)
        (ModelLongEnabled prm) s3") auto
  from 1 2 3 4 5 show ?thesis by (intro exI conjI)
qed

lemma finish_fields:
  "v_acc (update_next cp (determine_fcw E sm t s)) = v_acc s"
  "a_acc (update_next cp (determine_fcw E sm t s)) = a_acc s"
  "v_acc_future (update_next cp (determine_fcw E sm t s)) = v_acc_future s"
  "v_cruise (update_next cp (determine_fcw E sm t s)) = v_cruise s"
  "a_cruise (update_next cp (determine_fcw E sm t s)) = a_cruise s"
  "v_acc_start (update_next cp (determine_fcw E sm t s)) = v_acc_start s"
  "a_acc_start (update_next cp (determine_fcw E sm t s)) = a_acc_start s"
  "longitudinalPlanSource (update_next cp (determine_fcw E sm t s)) = longitudinalPlanSource s"
  "mpc1 (update_next cp (determine_fcw E sm t s)) = mpc1 s"
  "mpc2 (update_next cp (determine_fcw E sm t s)) = mpc2 s"
  "mpc_model (update_next cp (determine_fcw E sm t s)) = mpc_model s"
  "first_loop (update_next cp (determine_fcw E sm t s)) = False"
  "fcw (update_next cp (determine_fcw E sm t s))
     = (fst (fcw_call E sm t s) \<and> \<not> brakePressed (carState sm))"
  "fcw_checker (update_next cp (determine_fcw E sm t s)) = snd (fcw_call E sm t s)"
  "a_acc_next (update_next cp (determine_fcw E sm t s))
     = a_acc_start s + (radarTimeStep cp / LON_MPC_STEP) * (a_acc s - a_acc_start s)"
  "v_acc_next (update_next cp (determine_fcw E sm t s))
     = v_acc_start s + radarTimeStep cp
         * (a_acc_start s + (radarTimeStep cp / LON_MPC_STEP) * (a_acc s - a_acc_start s)
            + a_acc_start s) / 2"
  by (simp_all add: update_next_def determine_fcw_def Let_def case_prod_beta)

lemma update_cruise_returns:
  assumes "\<not> (enabled \<and> \<not> first_loop self \<and> \<not> brakePressed (carState sm)
              \<and> \<not> gasPressed (carState sm))
           \<or> (\<exists>x. limit_accel_in_turns (CV E) (vEgo (carState sm))
                 (steeringAngleDeg (carState sm))
                 (calc_cruise_accel_limits (vEgo (carState sm)) following) (CP self) = Inr x)"
  shows "\<exists>s2. update_cruise E sm sp enabled following fsd self = Inr s2"
proof (cases "enabled \<and> \<not> first_loop self \<and> \<not> brakePressed (carState sm)
              \<and> \<not> gasPressed (carState sm)")
  case False
  show ?thesis unfolding update_cruise_override [OF False] by (intro exI) (rule refl)
next
  case True
  obtain lo hi where l: "calc_cruise_accel_limits (vEgo (carState sm)) following = [lo, hi]"
    using calc_cruise_accel_limits_pair by blast
  from True assms obtain x where
    x: "limit_accel_in_turns (CV E) (vEgo (carState sm)) (steeringAngleDeg (carState sm))
          [lo, hi] (CP self) = Inr x"
    unfolding l by blast
  from limit_accel_in_turns_pair [OF x] obtain up where "x = [lo, up]" by blast
  with x have t: "limit_accel_in_turns (CV E) (vEgo (carState sm))
      (steeringAngleDeg (carState sm)) [lo, hi] (CP self) = Inr [lo, up]" by simp
  show ?thesis
    unfolding update_cruise_engaged_value [OF True l t] by (intro exI) (rule refl)
qed

lemma update_mpcs_returns:
  assumes "convert_data sm = Inr x"
  shows "\<exists>s3. update_mpcs E sm self = Inr s3"
  unfolding update_mpcs_def Let_def assms by (simp add: case_prod_beta)

lemma choose_solution_returns:
  "\<exists>s4. choose_solution sp enabled model_enabled self = Inr s4"
proof (cases enabled)
  case True
  from choose_solution_enabled [of model_enabled self sp]
  obtain r where "choose_solution sp True model_enabled self = Inr r" by blast
  with True show ?thesis by simp
next
  case False
  then show ?thesis using choose_solution_disabled [of sp model_enabled self] by simp
qed

lemma update_returns:
  assumes m: "\<not> OpkrMapEnable prm"
    and c: "\<not> (is_enabled sm \<and> \<not> first_loop self \<and> \<not> brakePressed (carState sm)
              \<and> \<not> gasPressed (carState sm))
           \<or> (\<exists>x. limit_accel_in_turns (CV E) (vEgo (carState sm))
                 (steeringAngleDeg (carState sm))
                 (calc_cruise_accel_limits (vEgo (carState sm))
                    (status (leadOne (radarState sm)) \<and> dRel (leadOne (radarState sm)) < 45
                     \<and> vLeadK (leadOne (radarState sm)) > vEgo (carState sm)
                     \<and> aLeadK (leadOne (radarState sm)) > 0)) (CP self) = Inr x)"
    and d: "convert_data sm = Inr x"
  shows "\<exists>s'. update E cp sm prm cur_time self = Inr s'"
proof -
  let ?s0 = "self\<lparr>vego := vEgo (carState sm), v_acc_start := v_acc_next self,
              a_acc_start := a_acc_next self\<rparr>"
  let ?fol = "status (leadOne (radarState sm)) \<and> dRel (leadOne (radarState sm)) < 45
                     \<and> vLeadK (leadOne (radarState sm)) > vEgo (carState sm)
                     \<and> aLeadK (leadOne (radarState sm)) > 0"
  have 1: "update_speed_map E prm ?s0 = Inr ?s0" using m by (rule update_speed_map_disabled)
  have c': "\<not> (is_enabled sm \<and> \<not> first_loop ?s0 \<and> \<not> brakePressed (carState sm)
              \<and> \<not> gasPressed (carState sm))
           \<or> (\<exists>x. limit_accel_in_turns (CV E) (vEgo (carState sm))
                 (steeringAngleDeg (carState sm))
                 (calc_cruise_accel_limits (vEgo (carState sm)) ?fol) (CP ?s0) = Inr x)"
    using c by simp
  from update_cruise_returns [OF c'] obtain s2 where
    2: "update_cruise E sm (cruise_setpoint E cp sm) (is_enabled sm) ?fol
        (forceDecel (controlsState sm)) ?s0 = Inr s2" by blast
  from update_mpcs_returns [OF d] obtain s3 where 3: "update_mpcs E sm s2 = Inr s3" by blast
  from choose_solution_returns obtain s4 where
    4: "choose_solution (cruise_setpoint E cp sm) (is_enabled sm) (ModelLongEnabled prm) s3
           = Inr s4" by blast
  show ?thesis unfolding update_unfold 1 bind_error_Inr 2 3 4 by (intro exI) (rule refl)
qed

lemma update_cruise_fields:
  assumes "update_cruise E sm sp enabled following fsd self = Inr s2"
  shows "CP s2 = CP self" and "mpc1 s2 = mpc1 self" and "mpc2 s2 = mpc2 self"
    and "mpc_model s2 = mpc_model self" and "fcw_checker s2 = fcw_checker self"
    and "longitudinalPlanSource s2 = longitudinalPlanSource self"
    and "first_loop s2 = first_loop self"
proof -
  have "CP s2 = CP self \<and> mpc1 s2 = mpc1 self \<and> mpc2 s2 = mpc2 self
    \<and> mpc_model s2 = mpc_model self \<and> fcw_checker s2 = fcw_checker self
    \<and> longitudinalPlanSource s2 = longitudinalPlanSource self
    \<and> first_loop s2 = first_loop self"
  proof (cases "enabled \<and> \<not> first_loop self \<and> \<not> brakePressed (carState sm)
              \<and> \<not> gasPressed (carState sm)")
    case True
    from update_cruise_engaged [OF True assms] obtain vc ac where
      "s2 = self\<lparr>v_cruise := vc, a_cruise := ac\<rparr>" by blast
    then show ?thesis by simp
  next
    case False
    from assms show ?thesis unfolding update_cruise_override [OF False] by auto
  qed
  then show "CP s2 = CP self" and "mpc1 s2 = mpc1 self" and "mpc2 s2 = mpc2 self"
    and "mpc_model s2 = mpc_model self" and "fcw_checker s2 = fcw_checker self"
    and "longitudinalPlanSource s2 = longitudinalPlanSource self"
    and "first_loop s2 = first_loop self"
    by simp_all
qed

lemma update_mpcs_fields:
  assumes "update_mpcs E sm self = Inr s3"
  shows "CP s3 = CP self" and "v_acc_start s3 = v_acc_start self"
    and "a_acc_start s3 = a_acc_start self" and "v_acc s3 = v_acc self"
    and "a_acc s3 = a_acc self" and "v_cruise s3 = v_cruise self"
    and "a_cruise s3 = a_cruise self"
    and "longitudinalPlanSource s3 = longitudinalPlanSource self"
    and "fcw_checker s3 = fcw_checker self" and "first_loop s3 = first_loop self"
proof -
  from update_mpcs_frame [OF assms] obtain m1 m2 mm where
    "s3 = self\<lparr>mpc1 := m1, mpc2 := m2, mpc_model := mm\<rparr>" by blast
  then show "CP s3 = CP self" and "v_acc_start s3 = v_acc_start self"
    and "a_acc_start s3 = a_acc_start self" and "v_acc s3 = v_acc self"
    and "a_acc s3 = a_acc self" and "v_cruise s3 = v_cruise self"
    and "a_cruise s3 = a_cruise self"
    and "longitudinalPlanSource s3 = longitudinalPlanSource self"
    and "fcw_checker s3 = fcw_checker self" and "first_loop s3 = first_loop self"
    by simp_all
qed

lemma choose_solution_fields:
  assumes "choose_solution sp enabled model_enabled self = Inr s4"
  shows "CP s4 = CP self" and "mpc1 s4 = mpc1 self" and "mpc2 s4 = mpc2 self"
    and "mpc_model s4 = mpc_model self" and "v_acc_start s4 = v_acc_start self"
    and "a_acc_start s4 = a_acc_start self" and "v_cruise s4 = v_cruise self"
    and "a_cruise s4 = a_cruise self" and "fcw_checker s4 = fcw_checker self"
    and "first_loop s4 = first_loop self"
proof -
  have "\<exists>l v a f. s4 = self\<lparr>longitudinalPlanSource := l, v_acc := v, a_acc := a,
                             v_acc_future := f\<rparr>"
  proof (cases enabled)
    case True
    from choose_solution_enabled [of model_enabled self sp] obtain w f where
      "choose_solution sp True model_enabled self =
         Inr (self\<lparr>longitudinalPlanSource := fst w, v_acc := fst (snd w), a_acc := snd (snd w),
                   v_acc_future := f\<rparr>)" by blast
    with assms True
    have "s4 = self\<lparr>longitudinalPlanSource := fst w, v_acc := fst (snd w),
                    a_acc := snd (snd w), v_acc_future := f\<rparr>" by simp
    then show ?thesis by (intro exI)
  next
    case False
    with assms have "s4 = self\<lparr>longitudinalPlanSource := longitudinalPlanSource self,
        v_acc := v_acc self, a_acc := a_acc self,
        v_acc_future := min (v_mpc_future (mpc1 self)) (min (v_mpc_future (mpc2 self)) sp)\<rparr>"
      by (simp add: choose_solution_disabled)
    then show ?thesis by (intro exI)
  qed
  then obtain l v a f where
    "s4 = self\<lparr>longitudinalPlanSource := l, v_acc := v, a_acc := a, v_acc_future := f\<rparr>"
    by blast
  then show "CP s4 = CP self" and "mpc1 s4 = mpc1 self" and "mpc2 s4 = mpc2 self"
    and "mpc_model s4 = mpc_model self" and "v_acc_start s4 = v_acc_start self"
    and "a_acc_start s4 = a_acc_start self" and "v_cruise s4 = v_cruise self"
    and "a_cruise s4 = a_cruise self" and "fcw_checker s4 = fcw_checker self"
    and "first_loop s4 = first_loop self"
    by simp_all
qed

lemma make_plan_send_fields:
  "vTarget (longitudinalPlan (snd (make_plan_send E sm lt self))) = v_acc self"
  "aTarget (longitudinalPlan (snd (make_plan_send E sm lt self))) = a_acc self"
  "vTargetFuture (longitudinalPlan (snd (make_plan_send E sm lt self))) = v_acc_future self"
  "vStart (longitudinalPlan (snd (make_plan_send E sm lt self))) = v_acc_start self"
  "aStart (longitudinalPlan (snd (make_plan_send E sm lt self))) = a_acc_start self"
  "plan_longitudinalPlanSource (longitudinalPlan (snd (make_plan_send E sm lt self)))
     = longitudinalPlanSource self"
  "plan_fcw (longitudinalPlan (snd (make_plan_send E sm lt self))) = fcw self"
  by (simp_all add: make_plan_send_def Let_def case_prod_beta)

lemma fcw_call_cong:
  "mpc1 a = mpc1 b \<Longrightarrow> fcw_checker a = fcw_checker b \<Longrightarrow>
     fcw_call E sm t a = fcw_call E sm t b"
  by (simp add: fcw_call_def)

lemma Planner_init_source:
  "Planner_init E cp0 offset = Inr s0 \<Longrightarrow> longitudinalPlanSource s0 = ''cruise''"
  by (auto simp: Planner_init_def bind_error_eq_Inr)

subsection \<open>The example cycle returns\<close>

lemma convert_data_cong:
  "modelV2 a = modelV2 b \<Longrightarrow> alive_modelV2 a = alive_modelV2 b \<Longrightarrow>
     convert_data a = convert_data b"
  by (simp add: convert_data_def)

lemma convert_data_demo_sm: "\<exists>x. convert_data demo_sm = Inr x"
proof -
  have ne: "position_x (modelV2 demo_sm) \<noteq> []" using demo_sm_model(2) by auto
  show ?thesis
    unfolding convert_data_value [OF demo_sm_model(1) ne, simplified demo_sm_model, simplified]
    by (intro exI) (rule refl)
qed

text \<open>The demo cycle returns for every variation of its control state and pedals.\<close>

lemma update_demo_returns:
  assumes "modelV2 sm = modelV2 demo_sm" and "alive_modelV2 sm = alive_modelV2 demo_sm"
    and "vEgo (carState sm) = 10" and "steeringAngleDeg (carState sm) = 0"
    and "CP self = demo_CP"
  shows "\<exists>s'. update demo_E cp sm demo_prm t self = Inr s'"
proof -
  let ?fol = "status (leadOne (radarState sm)) \<and> dRel (leadOne (radarState sm)) < 45
                     \<and> vLeadK (leadOne (radarState sm)) > vEgo (carState sm)
                     \<and> aLeadK (leadOne (radarState sm)) > 0"
  have m: "\<not> OpkrMapEnable demo_prm" by (simp add: demo_prm_def)
  have nz: "steerRatio demo_CP * wheelbase demo_CP \<noteq> 0" by (simp add: demo_CP_def)
  have v: "(10::real)\<^sup>2 < float_overflow" by (simp add: float_overflow_def)
  have y: "((10::real)\<^sup>2 * 0 * DEG_TO_RAD demo_CV
              / (steerRatio demo_CP * wheelbase demo_CP))\<^sup>2 < float_overflow"
    by (simp add: float_overflow_def)
  from limit_accel_in_turns_cruise [OF nz v y, of ?fol] obtain x where
    "limit_accel_in_turns demo_CV 10 0 (calc_cruise_accel_limits 10 ?fol) demo_CP = Inr x"
    by blast
  then have "\<exists>x. limit_accel_in_turns (CV demo_E) (vEgo (carState sm))
                 (steeringAngleDeg (carState sm))
                 (calc_cruise_accel_limits (vEgo (carState sm)) ?fol) (CP self) = Inr x"
    unfolding assms(3,4,5) by (simp add: demo_E_def)
  then have c: "\<not> (is_enabled sm \<and> \<not> first_loop self
              \<and> \<not> brakePressed (carState sm) \<and> \<not> gasPressed (carState sm))
           \<or> (\<exists>x. limit_accel_in_turns (CV demo_E) (vEgo (carState sm))
                 (steeringAngleDeg (carState sm))
                 (calc_cruise_accel_limits (vEgo (carState sm)) ?fol) (CP self) = Inr x)"
    by (rule disjI2)
  have e: "convert_data sm = convert_data demo_sm"
    using assms(1,2) by (rule convert_data_cong)
  from convert_data_demo_sm obtain x where "convert_data sm = Inr x"
    unfolding e by blast
  from update_returns [OF m c this] show ?thesis .
qed

lemma update_source_disabled:
  assumes en: "\<not> is_enabled sm" and u: "update E cp sm prm t self = Inr s'"
  shows "longitudinalPlanSource s' = longitudinalPlanSource self"
proof -
  from update_steps [OF u] obtain s1 s2 s3 s4 where
    1: "update_speed_map E prm
        (self\<lparr>vego := vEgo (carState sm), v_acc_start := v_acc_next self,
              a_acc_start := a_acc_next self\<rparr>) = Inr s1"
    and 2: "update_cruise E sm (cruise_setpoint E cp sm) (is_enabled sm)
        (status (leadOne (radarState sm)) \<and> dRel (leadOne (radarState sm)) < 45
         \<and> vLeadK (leadOne (radarState sm)) > vEgo (carState sm)
         \<and> aLeadK (leadOne (radarState sm)) > 0)
        (forceDecel (controlsState sm)) s1 = Inr s2"
    and 3: "update_mpcs E sm s2 = Inr s3"
    and 4: "choose_solution (cruise_setpoint E cp sm) (is_enabled sm) (ModelLongEnabled prm) s3
           = Inr s4"
    and 5: "s' = update_next cp (determine_fcw E sm t s4)"
    by (elim exE conjE)
  from 4 en have "s4 = s3\<lparr>v_acc_future := min (v_mpc_future (mpc1 s3))
        (min (v_mpc_future (mpc2 s3)) (cruise_setpoint E cp sm))\<rparr>"
    by (simp add: choose_solution_disabled)
  then have "longitudinalPlanSource s4 = longitudinalPlanSource s3" by simp
  also have "\<dots> = longitudinalPlanSource s2" by (rule update_mpcs_fields(8) [OF 3])
  also have "\<dots> = longitudinalPlanSource s1" by (rule update_cruise_fields(6) [OF 2])
  also have "\<dots> = longitudinalPlanSource self"
    using update_speed_map_fields(11) [OF 1] by simp
  finally show ?thesis unfolding 5 finish_fields .
qed

lemma demo_sm_off_not_enabled: "\<not> is_enabled demo_sm_off"
  by (simp add: is_enabled_def demo_sm_off_def)

lemma demo_sm_carState:
  "vEgo (carState demo_sm) = 10" "steeringAngleDeg (carState demo_sm) = 0"
  "aEgo (carState demo_sm) = 0.5" "\<not> brakePressed (carState demo_sm)"
  "\<not> gasPressed (carState demo_sm)"
  by (simp_all add: demo_sm_def demo_carState_def)

section \<open>One cycle of the planner\<close>

text \<open>What a returning update did before the arbitration: \<open>s3\<close> is the planner as
  \<open>choose_solution\<close> receives it.\<close>

lemma update_summary:
  assumes u: "update E cp sm prm t self = Inr s'"
  shows "\<exists>s3 s4.
     choose_solution (cruise_setpoint E cp sm) (is_enabled sm) (ModelLongEnabled prm) s3 = Inr s4
     \<and> s' = update_next cp (determine_fcw E sm t s4)
     \<and> fcw_checker s3 = fcw_checker self
     \<and> longitudinalPlanSource s3 = longitudinalPlanSource self
     \<and> (is_enabled sm \<and> \<not> first_loop self \<and> \<not> brakePressed (carState sm)
          \<and> \<not> gasPressed (carState sm) \<longrightarrow>
          v_acc_start s3 = v_acc_next self \<and> a_acc_start s3 = a_acc_next self
          \<and> 0 \<le> v_cruise s3)
     \<and> (\<not> (is_enabled sm \<and> \<not> first_loop self \<and> \<not> brakePressed (carState sm)
          \<and> \<not> gasPressed (carState sm)) \<longrightarrow>
          v_acc s3 = (if longControlState (controlsState sm) = starting
                      then minSpeedCan (CP self) else vEgo (carState sm))
          \<and> a_acc s3 = (if longControlState (controlsState sm) = starting
                      then startAccel (CP self) else min (aEgo (carState sm)) 0)
          \<and> v_acc_start s3 = (if longControlState (controlsState sm) = starting
                      then minSpeedCan (CP self) else vEgo (carState sm))
          \<and> a_acc_start s3 = (if longControlState (controlsState sm) = starting
                      then startAccel (CP self) else min (aEgo (carState sm)) 0)
          \<and> v_cruise s3 = (if longControlState (controlsState sm) = starting
                      then minSpeedCan (CP self) else vEgo (carState sm))
          \<and> a_cruise s3 = (if longControlState (controlsState sm) = starting
                      then startAccel (CP self) else min (aEgo (carState sm)) 0))"
proof -
  let ?s0 = "self\<lparr>vego := vEgo (carState sm), v_acc_start := v_acc_next self,
              a_acc_start := a_acc_next self\<rparr>"
  let ?fol = "status (leadOne (radarState sm)) \<and> dRel (leadOne (radarState sm)) < 45
         \<and> vLeadK (leadOne (radarState sm)) > vEgo (carState sm)
         \<and> aLeadK (leadOne (radarState sm)) > 0"
  let ?eng = "is_enabled sm \<and> \<not> first_loop self \<and> \<not> brakePressed (carState sm)
          \<and> \<not> gasPressed (carState sm)"
  from update_steps [OF u] obtain s1 s2 s3 s4 where
    1: "update_speed_map E prm ?s0 = Inr s1"
    and 2: "update_cruise E sm (cruise_setpoint E cp sm) (is_enabled sm) ?fol
        (forceDecel (controlsState sm)) s1 = Inr s2"
    and 3: "update_mpcs E sm s2 = Inr s3"
    and 4: "choose_solution (cruise_setpoint E cp sm) (is_enabled sm) (ModelLongEnabled prm) s3
           = Inr s4"
    and 5: "s' = update_next cp (determine_fcw E sm t s4)"
    by (elim exE conjE)
  note f1 = update_speed_map_fields [OF 1]
  note f2 = update_cruise_fields [OF 2]
  note f3 = update_mpcs_fields [OF 3]
  have fl: "first_loop s1 = first_loop self" using f1(13) by simp
  have cp1: "CP s1 = CP self" using f1(1) by simp
  have A: "fcw_checker s3 = fcw_checker self" using f3(9) f2(5) f1(12) by simp
  have B: "longitudinalPlanSource s3 = longitudinalPlanSource self"
    using f3(8) f2(6) f1(11) by simp
  have C: "v_acc_start s3 = v_acc_next self \<and> a_acc_start s3 = a_acc_next self
          \<and> 0 \<le> v_cruise s3" if e: ?eng
  proof -
    from e fl have e1: "is_enabled sm \<and> \<not> first_loop s1 \<and> \<not> brakePressed (carState sm)
          \<and> \<not> gasPressed (carState sm)" by simp
    from update_cruise_engaged [OF e1 2] obtain vc ac where
      s2: "s2 = s1\<lparr>v_cruise := vc, a_cruise := ac\<rparr>" and vc: "0 \<le> vc" by blast
    have "v_acc_start s3 = v_acc_start s1" "a_acc_start s3 = a_acc_start s1" "v_cruise s3 = vc"
      using f3(2,3,6) s2 by simp_all
    then show ?thesis using f1(5,6) vc by simp
  qed
  have D: "v_acc s3 = (if longControlState (controlsState sm) = starting
                      then minSpeedCan (CP self) else vEgo (carState sm))
          \<and> a_acc s3 = (if longControlState (controlsState sm) = starting
                      then startAccel (CP self) else min (aEgo (carState sm)) 0)
          \<and> v_acc_start s3 = (if longControlState (controlsState sm) = starting
                      then minSpeedCan (CP self) else vEgo (carState sm))
          \<and> a_acc_start s3 = (if longControlState (controlsState sm) = starting
                      then startAccel (CP self) else min (aEgo (carState sm)) 0)
          \<and> v_cruise s3 = (if longControlState (controlsState sm) = starting
                      then minSpeedCan (CP self) else vEgo (carState sm))
          \<and> a_cruise s3 = (if longControlState (controlsState sm) = starting
                      then startAccel (CP self) else min (aEgo (carState sm)) 0)" if e: "\<not> ?eng"
  proof -
    from e fl have e1: "\<not> (is_enabled sm \<and> \<not> first_loop s1 \<and> \<not> brakePressed (carState sm)
          \<and> \<not> gasPressed (carState sm))" by simp
    from 2 have s2: "s2 = s1\<lparr>v_acc := (if longControlState (controlsState sm) = starting
                         then minSpeedCan (CP s1) else vEgo (carState sm)),
               a_acc := (if longControlState (controlsState sm) = starting
                         then startAccel (CP s1) else min (aEgo (carState sm)) 0),
               v_acc_start := (if longControlState (controlsState sm) = starting
                         then minSpeedCan (CP s1) else vEgo (carState sm)),
               a_acc_start := (if longControlState (controlsState sm) = starting
                         then startAccel (CP s1) else min (aEgo (carState sm)) 0),
               v_cruise := (if longControlState (controlsState sm) = starting
                         then minSpeedCan (CP s1) else vEgo (carState sm)),
               a_cruise := (if longControlState (controlsState sm) = starting
                         then startAccel (CP s1) else min (aEgo (carState sm)) 0)\<rparr>"
      unfolding update_cruise_override [OF e1] by simp
    have "v_acc s3 = v_acc s2" "a_acc s3 = a_acc s2" "v_acc_start s3 = v_acc_start s2"
      "a_acc_start s3 = a_acc_start s2" "v_cruise s3 = v_cruise s2" "a_cruise s3 = a_cruise s2"
      using f3 by simp_all
    then show ?thesis unfolding s2 cp1 by simp
  qed
  from 4 5 A B C D show ?thesis by (intro exI conjI impI) (assumption | blast)+
qed

lemma update_mpcs_value:
  assumes "update_mpcs E sm self = Inr s3"
  shows "mpc1 s3 = mpc_update E (carState sm) (leadOne (radarState sm))
                     (mpc_set_cur_state E (v_acc_start self) (a_acc_start self) (mpc1 self))
    \<and> mpc2 s3 = mpc_update E (carState sm) (leadTwo (radarState sm))
                     (mpc_set_cur_state E (v_acc_start self) (a_acc_start self) (mpc2 self))
    \<and> (\<exists>d sp acc. convert_data sm = Inr (d, sp, acc)
          \<and> mpc_model s3 = model_update E (vEgo (carState sm)) (aEgo (carState sm)) d sp acc
                 (model_set_cur_state E (v_acc_start self) (a_acc_start self) (mpc_model self)))"
  using assms by (auto simp: update_mpcs_def Let_def bind_error_eq_Inr)

text \<open>The optimizers after a returning update: started from the cycle's warm start and
  updated once.\<close>

lemma update_optimizers:
  assumes u: "update E cp sm prm t self = Inr s'"
  shows "mpc1 s' = mpc_update E (carState sm) (leadOne (radarState sm))
                     (mpc_set_cur_state E (v_acc_start s') (a_acc_start s') (mpc1 self))
    \<and> mpc2 s' = mpc_update E (carState sm) (leadTwo (radarState sm))
                     (mpc_set_cur_state E (v_acc_start s') (a_acc_start s') (mpc2 self))
    \<and> (\<exists>d sp acc. convert_data sm = Inr (d, sp, acc)
          \<and> mpc_model s' = model_update E (vEgo (carState sm)) (aEgo (carState sm)) d sp acc
                 (model_set_cur_state E (v_acc_start s') (a_acc_start s') (mpc_model self)))"
proof -
  let ?s0 = "self\<lparr>vego := vEgo (carState sm), v_acc_start := v_acc_next self,
              a_acc_start := a_acc_next self\<rparr>"
  from update_steps [OF u] obtain s1 s2 s3 s4 where
    1: "update_speed_map E prm ?s0 = Inr s1"
    and 2: "update_cruise E sm (cruise_setpoint E cp sm) (is_enabled sm)
        (status (leadOne (radarState sm)) \<and> dRel (leadOne (radarState sm)) < 45
         \<and> vLeadK (leadOne (radarState sm)) > vEgo (carState sm)
         \<and> aLeadK (leadOne (radarState sm)) > 0)
        (forceDecel (controlsState sm)) s1 = Inr s2"
    and 3: "update_mpcs E sm s2 = Inr s3"
    and 4: "choose_solution (cruise_setpoint E cp sm) (is_enabled sm) (ModelLongEnabled prm) s3
           = Inr s4"
    and 5: "s' = update_next cp (determine_fcw E sm t s4)"
    by (elim exE conjE)
  note f1 = update_speed_map_fields [OF 1]
  note f2 = update_cruise_fields [OF 2]
  note f3 = update_mpcs_fields [OF 3]
  note f4 = choose_solution_fields [OF 4]
  have m: "mpc1 s2 = mpc1 self" "mpc2 s2 = mpc2 self" "mpc_model s2 = mpc_model self"
    using f2(2,3,4) f1(2,3,4) by simp_all
  have w: "v_acc_start s2 = v_acc_start s'" "a_acc_start s2 = a_acc_start s'"
    unfolding 5 finish_fields using f4(5,6) f3(2,3) by simp_all
  have e: "mpc1 s' = mpc1 s3" "mpc2 s' = mpc2 s3" "mpc_model s' = mpc_model s3"
    unfolding 5 finish_fields using f4(2,3,4) by simp_all
  show ?thesis using update_mpcs_value [OF 3] unfolding m w e .
qed

lemma update_future:
  assumes u: "update E cp sm prm t self = Inr s'"
  shows "v_acc_future s' =
     (if is_enabled sm \<and> valid (mpc_model s') \<and> ModelLongEnabled prm
      then min (min (cruise_setpoint E cp sm)
                  (min (v_mpc_future (mpc1 s')) (v_mpc_future (mpc2 s'))))
             (v_mpc_future (mpc_model s'))
      else min (cruise_setpoint E cp sm)
             (min (v_mpc_future (mpc1 s')) (v_mpc_future (mpc2 s'))))"
proof -
  from update_summary [OF u] obtain s3 s4 where
    4: "choose_solution (cruise_setpoint E cp sm) (is_enabled sm) (ModelLongEnabled prm) s3
          = Inr s4"
    and 5: "s' = update_next cp (determine_fcw E sm t s4)"
    by (elim exE conjE)
  note f4 = choose_solution_fields [OF 4]
  have e: "mpc1 s' = mpc1 s3" "mpc2 s' = mpc2 s3" "mpc_model s' = mpc_model s3"
    "v_acc_future s' = v_acc_future s4"
    unfolding 5 finish_fields using f4(2,3,4) by simp_all
  show ?thesis
  proof (cases "is_enabled sm")
    case False
    with 4 have "s4 = s3\<lparr>v_acc_future := min (v_mpc_future (mpc1 s3))
        (min (v_mpc_future (mpc2 s3)) (cruise_setpoint E cp sm))\<rparr>"
      by (simp add: choose_solution_disabled)
    then have "v_acc_future s4 = min (v_mpc_future (mpc1 s3))
        (min (v_mpc_future (mpc2 s3)) (cruise_setpoint E cp sm))" by simp
    with False show ?thesis unfolding e by (simp add: min.commute min.left_commute)
  next
    case True
    from choose_solution_enabled [of "ModelLongEnabled prm" s3 "cruise_setpoint E cp sm"]
    obtain w where "choose_solution (cruise_setpoint E cp sm) True (ModelLongEnabled prm) s3 =
          Inr (s3\<lparr>longitudinalPlanSource := fst w, v_acc := fst (snd w), a_acc := snd (snd w),
                    v_acc_future :=
                      (if valid (mpc_model s3) \<and> ModelLongEnabled prm
                       then min (min (v_mpc_future (mpc1 s3))
                                   (min (v_mpc_future (mpc2 s3)) (cruise_setpoint E cp sm)))
                              (v_mpc_future (mpc_model s3))
                       else min (v_mpc_future (mpc1 s3))
                              (min (v_mpc_future (mpc2 s3)) (cruise_setpoint E cp sm)))\<rparr>)"
      by (elim exE conjE)
    with 4 True have "s4 = s3\<lparr>longitudinalPlanSource := fst w, v_acc := fst (snd w),
                    a_acc := snd (snd w),
                    v_acc_future :=
                      (if valid (mpc_model s3) \<and> ModelLongEnabled prm
                       then min (min (v_mpc_future (mpc1 s3))
                                   (min (v_mpc_future (mpc2 s3)) (cruise_setpoint E cp sm)))
                              (v_mpc_future (mpc_model s3))
                       else min (v_mpc_future (mpc1 s3))
                              (min (v_mpc_future (mpc2 s3)) (cruise_setpoint E cp sm)))\<rparr>"
      by simp
    then have "v_acc_future s4 =
                      (if valid (mpc_model s3) \<and> ModelLongEnabled prm
                       then min (min (v_mpc_future (mpc1 s3))
                                   (min (v_mpc_future (mpc2 s3)) (cruise_setpoint E cp sm)))
                              (v_mpc_future (mpc_model s3))
                       else min (v_mpc_future (mpc1 s3))
                              (min (v_mpc_future (mpc2 s3)) (cruise_setpoint E cp sm)))"
      by simp
    with True show ?thesis unfolding e by (simp add: min.commute min.left_commute)
  qed
qed

text \<open>
  Claim C3. After every returning update, \<open>v_acc_future\<close> is the minimum of the cruise
  setpoint and the future speeds of both lead optimizers, taken whatever their lead status
  is; the future speed of the model optimizer is included exactly when the cycle is
  enabled, the model optimizer is valid and model planning is enabled, that is, when the
  model candidate is eligible. Hence \<open>v_acc_future\<close> is at most the minimum of the three,
  with equality when the model is not eligible, and publish sends it as vTargetFuture.
\<close>

theorem future_speed_minimum:
  assumes "update E cp sm prm t self = Inr s'"
  shows "v_acc_future s' =
     (if is_enabled sm \<and> valid (mpc_model s') \<and> ModelLongEnabled prm
      then min (min (cruise_setpoint E cp sm)
                  (min (v_mpc_future (mpc1 s')) (v_mpc_future (mpc2 s'))))
             (v_mpc_future (mpc_model s'))
      else min (cruise_setpoint E cp sm)
             (min (v_mpc_future (mpc1 s')) (v_mpc_future (mpc2 s'))))
   \<and> v_acc_future s' \<le> min (cruise_setpoint E cp sm)
                          (min (v_mpc_future (mpc1 s')) (v_mpc_future (mpc2 s')))
   \<and> (\<not> (valid (mpc_model s') \<and> ModelLongEnabled prm) \<longrightarrow>
        v_acc_future s' = min (cruise_setpoint E cp sm)
                            (min (v_mpc_future (mpc1 s')) (v_mpc_future (mpc2 s'))))
   \<and> vTargetFuture (longitudinalPlan (snd (make_plan_send E sm lt s'))) = v_acc_future s'"
proof -
  let ?m3 = "min (cruise_setpoint E cp sm)
               (min (v_mpc_future (mpc1 s')) (v_mpc_future (mpc2 s')))"
  note a = update_future [OF assms]
  have b: "v_acc_future s' \<le> ?m3"
  proof (cases "is_enabled sm \<and> valid (mpc_model s') \<and> ModelLongEnabled prm")
    case True
    have "v_acc_future s' = min ?m3 (v_mpc_future (mpc_model s'))"
      unfolding a if_P [OF True] ..
    then show ?thesis by (simp only: min.cobounded1)
  next
    case False
    have "v_acc_future s' = ?m3" unfolding a if_not_P [OF False] ..
    then show ?thesis by (simp only: order_refl)
  qed
  have c: "v_acc_future s' = ?m3" if n: "\<not> (valid (mpc_model s') \<and> ModelLongEnabled prm)"
  proof -
    from n have "\<not> (is_enabled sm \<and> valid (mpc_model s') \<and> ModelLongEnabled prm)"
      by simp
    then show ?thesis unfolding a by (rule if_not_P)
  qed
  have d: "vTargetFuture (longitudinalPlan (snd (make_plan_send E sm lt s'))) = v_acc_future s'"
    by (rule make_plan_send_fields)
  from a b c d show ?thesis by (intro conjI impI) (assumption | blast)+
qed

lemma update_fcw:
  assumes u: "update E cp sm prm t self = Inr s'"
  shows "fcw s' =
     (fst (FCWChecker_update E (mpc_solution (mpc1 s')) t (active (controlsState sm))
             (vEgo (carState sm)) (aEgo (carState sm))
             (dRel (leadOne (radarState sm))) (vLead (leadOne (radarState sm)))
             (aLeadK (leadOne (radarState sm))) (yRel (leadOne (radarState sm)))
             (vLat (leadOne (radarState sm))) (lead_fcw (leadOne (radarState sm)))
             (leftBlinker (carState sm) \<or> rightBlinker (carState sm))
             (if new_lead (mpc1 s') then FCWChecker_reset_lead E t (fcw_checker self)
              else fcw_checker self))
      \<and> \<not> brakePressed (carState sm))"
proof -
  from update_summary [OF u] obtain s3 s4 where
    4: "choose_solution (cruise_setpoint E cp sm) (is_enabled sm) (ModelLongEnabled prm) s3
          = Inr s4"
    and 5: "s' = update_next cp (determine_fcw E sm t s4)"
    and c: "fcw_checker s3 = fcw_checker self"
    by (elim exE conjE)
  note f4 = choose_solution_fields [OF 4]
  have e: "mpc1 s' = mpc1 s4" unfolding 5 finish_fields ..
  have c4: "fcw_checker s4 = fcw_checker self" using f4(9) c by simp
  have "fcw s' = (fst (fcw_call E sm t s4) \<and> \<not> brakePressed (carState sm))"
    unfolding 5 finish_fields ..
  then show ?thesis unfolding fcw_call_def Let_def e c4 .
qed

text \<open>
  Claim C8. After every returning update the collision-warning flag is the result of the
  warner's update (called on the solution of the first lead optimizer, the lead data and
  the blinkers of this cycle, after the reset on a new lead) and-ed with
  \<open>not brakePressed\<close>; it is false whenever the brake is pressed, and publish sends it as
  fcw.
\<close>

theorem collision_warning_flag:
  assumes "update E cp sm prm t self = Inr s'"
  shows "fcw s' =
     (fst (FCWChecker_update E (mpc_solution (mpc1 s')) t (active (controlsState sm))
             (vEgo (carState sm)) (aEgo (carState sm))
             (dRel (leadOne (radarState sm))) (vLead (leadOne (radarState sm)))
             (aLeadK (leadOne (radarState sm))) (yRel (leadOne (radarState sm)))
             (vLat (leadOne (radarState sm))) (lead_fcw (leadOne (radarState sm)))
             (leftBlinker (carState sm) \<or> rightBlinker (carState sm))
             (if new_lead (mpc1 s') then FCWChecker_reset_lead E t (fcw_checker self)
              else fcw_checker self))
      \<and> \<not> brakePressed (carState sm))
   \<and> (brakePressed (carState sm) \<longrightarrow> \<not> fcw s')
   \<and> plan_fcw (longitudinalPlan (snd (make_plan_send E sm lt s'))) = fcw s'"
  unfolding make_plan_send_fields update_fcw [OF assms] by simp

lemma update_next_fields:
  assumes u: "update E cp sm prm t self = Inr s'"
  shows "a_acc_next s' = a_acc_start s' + (radarTimeStep cp / LON_MPC_STEP)
                            * (a_acc s' - a_acc_start s')"
    and "v_acc_next s' = v_acc_start s' + radarTimeStep cp
                            * (a_acc_next s' + a_acc_start s') / 2"
    and "first_loop s' = False"
proof -
  from update_summary [OF u] obtain s4 where
    5: "s' = update_next cp (determine_fcw E sm t s4)"
    by (elim exE conjE)
  show "a_acc_next s' = a_acc_start s' + (radarTimeStep cp / LON_MPC_STEP)
                            * (a_acc s' - a_acc_start s')"
    unfolding 5 finish_fields ..
  show "v_acc_next s' = v_acc_start s' + radarTimeStep cp
                            * (a_acc_next s' + a_acc_start s') / 2"
    unfolding 5 finish_fields ..
  show "first_loop s' = False" unfolding 5 finish_fields ..
qed

lemma update_warm_start:
  assumes u: "update E cp sm prm t self = Inr s'"
    and e: "is_enabled sm \<and> \<not> first_loop self \<and> \<not> brakePressed (carState sm)
          \<and> \<not> gasPressed (carState sm)"
  shows "v_acc_start s' = v_acc_next self" and "a_acc_start s' = a_acc_next self"
proof -
  from update_summary [OF u] obtain s3 s4 where
    4: "choose_solution (cruise_setpoint E cp sm) (is_enabled sm) (ModelLongEnabled prm) s3
          = Inr s4"
    and 5: "s' = update_next cp (determine_fcw E sm t s4)"
    and i: "is_enabled sm \<and> \<not> first_loop self \<and> \<not> brakePressed (carState sm)
          \<and> \<not> gasPressed (carState sm) \<longrightarrow>
          v_acc_start s3 = v_acc_next self \<and> a_acc_start s3 = a_acc_next self
          \<and> 0 \<le> v_cruise s3"
    by (elim exE conjE)
  note w = i [THEN mp, OF e]
  note f4 = choose_solution_fields [OF 4]
  show "v_acc_start s' = v_acc_next self" unfolding 5 finish_fields using f4(5) w by simp
  show "a_acc_start s' = a_acc_next self" unfolding 5 finish_fields using f4(6) w by simp
qed

lemma publish_fields:
  "v_acc_next (fst (publish E sm lt pm s)) = v_acc_next s"
  "a_acc_next (fst (publish E sm lt pm s)) = a_acc_next s"
  "first_loop (fst (publish E sm lt pm s)) = first_loop s"
  "CP (fst (publish E sm lt pm s)) = CP s"
  by (simp_all add: publish_def make_plan_send_def Let_def case_prod_beta)

text \<open>
  Claim C4. Take two consecutive returning updates, with or without the publish in
  between, the second one enabled with brake and gas free; it is not a first loop, since
  every update clears \<open>first_loop\<close>. Then the warm start \<open>v_acc_start\<close>, \<open>a_acc_start\<close> of
  the second cycle is exactly the \<open>v_acc_next\<close>, \<open>a_acc_next\<close> that the first cycle
  interpolated over one radar time step, and that is what is published as vStart and
  aStart after the second cycle.
\<close>

theorem warm_start_continuity:
  assumes "update E cp1 sm1 prm1 t1 s0 = Inr s1"
    and "s1' = s1 \<or> s1' = fst (publish E sm1 lt1 pm s1)"
    and "update E cp2 sm2 prm2 t2 s1' = Inr s2"
    and "is_enabled sm2"
    and "\<not> brakePressed (carState sm2)" and "\<not> gasPressed (carState sm2)"
  shows "v_acc_start s2 = v_acc_next s1 \<and> a_acc_start s2 = a_acc_next s1
   \<and> a_acc_next s1 = a_acc_start s1 + (radarTimeStep cp1 / LON_MPC_STEP)
                         * (a_acc s1 - a_acc_start s1)
   \<and> v_acc_next s1 = v_acc_start s1 + radarTimeStep cp1
                         * (a_acc_next s1 + a_acc_start s1) / 2
   \<and> vStart (longitudinalPlan (snd (make_plan_send E sm2 lt s2))) = v_acc_next s1
   \<and> aStart (longitudinalPlan (snd (make_plan_send E sm2 lt s2))) = a_acc_next s1"
proof -
  note n = update_next_fields [OF assms(1)]
  have k: "v_acc_next s1' = v_acc_next s1" "a_acc_next s1' = a_acc_next s1"
    "first_loop s1' = first_loop s1"
    using assms(2) by (auto simp: publish_fields)
  have e: "is_enabled sm2 \<and> \<not> first_loop s1' \<and> \<not> brakePressed (carState sm2)
          \<and> \<not> gasPressed (carState sm2)"
    using assms(4,5,6) n(3) k(3) by simp
  note w = update_warm_start [OF assms(3) e]
  show ?thesis unfolding make_plan_send_fields using w n(1,2) k(1,2) by simp
qed

lemma eligible_candidates_cong:
  assumes "v_cruise a = v_cruise b" "a_cruise a = a_cruise b" "mpc1 a = mpc1 b"
    "mpc2 a = mpc2 b" "mpc_model a = mpc_model b"
  shows "eligible_candidates model_enabled a = eligible_candidates model_enabled b"
  unfolding eligible_candidates_def assms ..

lemma update_selection:
  assumes u: "update E cp sm prm t self = Inr s'" and en: "is_enabled sm"
  shows "\<exists>as w bs. eligible_candidates (ModelLongEnabled prm) s' = as @ w # bs
      \<and> (\<forall>c\<in>set as. fst (snd w) < fst (snd c))
      \<and> (\<forall>c\<in>set bs. fst (snd w) \<le> fst (snd c))
      \<and> longitudinalPlanSource s' = fst w
      \<and> v_acc s' = fst (snd w) \<and> a_acc s' = snd (snd w)"
proof -
  from update_summary [OF u] obtain s3 s4 where
    4: "choose_solution (cruise_setpoint E cp sm) (is_enabled sm) (ModelLongEnabled prm) s3
          = Inr s4"
    and 5: "s' = update_next cp (determine_fcw E sm t s4)"
    by (elim exE conjE)
  note f4 = choose_solution_fields [OF 4]
  from choose_solution_enabled [of "ModelLongEnabled prm" s3 "cruise_setpoint E cp sm"]
  obtain as w bs f where A: "eligible_candidates (ModelLongEnabled prm) s3 = as @ w # bs"
    and C: "\<forall>c\<in>set as. fst (snd w) < fst (snd c)"
    and D: "\<forall>c\<in>set bs. fst (snd w) \<le> fst (snd c)"
    and E: "choose_solution (cruise_setpoint E cp sm) True (ModelLongEnabled prm) s3 =
          Inr (s3\<lparr>longitudinalPlanSource := fst w, v_acc := fst (snd w), a_acc := snd (snd w),
                    v_acc_future := f\<rparr>)"
    by (elim exE conjE)
  from 4 en E have s4: "s4 = s3\<lparr>longitudinalPlanSource := fst w, v_acc := fst (snd w),
      a_acc := snd (snd w), v_acc_future := f\<rparr>" by simp
  have c: "eligible_candidates (ModelLongEnabled prm) s' =
      eligible_candidates (ModelLongEnabled prm) s3"
    by (rule eligible_candidates_cong) (simp_all add: 5 finish_fields f4)
  have r: "longitudinalPlanSource s' = fst w" "v_acc s' = fst (snd w)" "a_acc s' = snd (snd w)"
    unfolding 5 finish_fields s4 by simp_all
  from A C D r have "eligible_candidates (ModelLongEnabled prm) s' = as @ w # bs
      \<and> (\<forall>c\<in>set as. fst (snd w) < fst (snd c))
      \<and> (\<forall>c\<in>set bs. fst (snd w) \<le> fst (snd c))
      \<and> longitudinalPlanSource s' = fst w
      \<and> v_acc s' = fst (snd w) \<and> a_acc s' = snd (snd w)"
    unfolding c by (intro conjI)
  then show ?thesis by (intro exI)
qed

text \<open>
  Claim C2. In every enabled cycle the list of eligible candidates, in the order cruise,
  mpc1, mpc2, model, splits around the selected candidate \<open>w\<close>: every candidate before
  \<open>w\<close> is strictly faster and every candidate after it is at least as fast. So \<open>w\<close> has
  the minimum speed and wins ties by that order. The label, the speed and the
  acceleration of \<open>w\<close> become \<open>longitudinalPlanSource\<close>, \<open>v_acc\<close> and \<open>a_acc\<close>, and publish
  sends them. The cruise candidate is always in the list, a lead optimizer iff its
  \<open>prev_lead_status\<close> is set, the model iff it is valid and model planning is enabled.
\<close>

theorem arbiter_selects_slowest:
  assumes "update E cp sm prm t self = Inr s'" and "is_enabled sm"
  shows "\<exists>as w bs. eligible_candidates (ModelLongEnabled prm) s' = as @ w # bs
      \<and> (\<forall>c\<in>set as. fst (snd w) < fst (snd c))
      \<and> (\<forall>c\<in>set bs. fst (snd w) \<le> fst (snd c))
      \<and> longitudinalPlanSource s' = fst w
      \<and> v_acc s' = fst (snd w) \<and> a_acc s' = snd (snd w)
      \<and> plan_longitudinalPlanSource (longitudinalPlan (snd (make_plan_send E sm lt s'))) = fst w
      \<and> vTarget (longitudinalPlan (snd (make_plan_send E sm lt s'))) = fst (snd w)
      \<and> aTarget (longitudinalPlan (snd (make_plan_send E sm lt s'))) = snd (snd w)"
proof -
  from update_selection [OF assms] obtain as w bs where
    "eligible_candidates (ModelLongEnabled prm) s' = as @ w # bs"
    "\<forall>c\<in>set as. fst (snd w) < fst (snd c)"
    "\<forall>c\<in>set bs. fst (snd w) \<le> fst (snd c)"
    "longitudinalPlanSource s' = fst w" "v_acc s' = fst (snd w)" "a_acc s' = snd (snd w)"
    by (elim exE conjE)
  then have "eligible_candidates (ModelLongEnabled prm) s' = as @ w # bs
      \<and> (\<forall>c\<in>set as. fst (snd w) < fst (snd c))
      \<and> (\<forall>c\<in>set bs. fst (snd w) \<le> fst (snd c))
      \<and> longitudinalPlanSource s' = fst w
      \<and> v_acc s' = fst (snd w) \<and> a_acc s' = snd (snd w)
      \<and> plan_longitudinalPlanSource (longitudinalPlan (snd (make_plan_send E sm lt s'))) = fst w
      \<and> vTarget (longitudinalPlan (snd (make_plan_send E sm lt s'))) = fst (snd w)
      \<and> aTarget (longitudinalPlan (snd (make_plan_send E sm lt s'))) = snd (snd w)"
    unfolding make_plan_send_fields by (intro conjI)
  then show ?thesis by (intro exI)
qed

text \<open>The slowest candidate is at most the cruise candidate, which is always eligible.\<close>

lemma first_slowest_le_cruise:
  assumes "eligible_candidates model_enabled self = as @ w # bs"
    and "\<forall>c\<in>set as. fst (snd w) < fst (snd c)"
  shows "fst (snd w) \<le> v_cruise self"
proof (cases as)
  case Nil
  with assms(1) have "w = (''cruise'', v_cruise self, a_cruise self)"
    by (simp add: eligible_candidates_def)
  then show ?thesis by simp
next
  case (Cons a as')
  with assms(1) have "a = (''cruise'', v_cruise self, a_cruise self)"
    by (simp add: eligible_candidates_def)
  with Cons assms(2) show ?thesis by simp
qed

lemma update_override:
  assumes u: "update E cp sm prm t self = Inr s'"
    and o: "\<not> (is_enabled sm \<and> \<not> first_loop self \<and> \<not> brakePressed (carState sm)
              \<and> \<not> gasPressed (carState sm))"
  shows "v_acc_start s' = (if longControlState (controlsState sm) = starting
                      then minSpeedCan (CP self) else vEgo (carState sm))"
    and "a_acc_start s' = (if longControlState (controlsState sm) = starting
                      then startAccel (CP self) else min (aEgo (carState sm)) 0)"
    and "v_cruise s' = (if longControlState (controlsState sm) = starting
                      then minSpeedCan (CP self) else vEgo (carState sm))"
    and "a_cruise s' = (if longControlState (controlsState sm) = starting
                      then startAccel (CP self) else min (aEgo (carState sm)) 0)"
    and "\<not> is_enabled sm \<Longrightarrow>
          v_acc s' = (if longControlState (controlsState sm) = starting
                      then minSpeedCan (CP self) else vEgo (carState sm))"
    and "\<not> is_enabled sm \<Longrightarrow>
          a_acc s' = (if longControlState (controlsState sm) = starting
                      then startAccel (CP self) else min (aEgo (carState sm)) 0)"
proof -
  from update_summary [OF u] obtain s3 s4 where
    4: "choose_solution (cruise_setpoint E cp sm) (is_enabled sm) (ModelLongEnabled prm) s3
          = Inr s4"
    and 5: "s' = update_next cp (determine_fcw E sm t s4)"
    and i: "\<not> (is_enabled sm \<and> \<not> first_loop self \<and> \<not> brakePressed (carState sm)
          \<and> \<not> gasPressed (carState sm)) \<longrightarrow>
          v_acc s3 = (if longControlState (controlsState sm) = starting
                      then minSpeedCan (CP self) else vEgo (carState sm))
          \<and> a_acc s3 = (if longControlState (controlsState sm) = starting
                      then startAccel (CP self) else min (aEgo (carState sm)) 0)
          \<and> v_acc_start s3 = (if longControlState (controlsState sm) = starting
                      then minSpeedCan (CP self) else vEgo (carState sm))
          \<and> a_acc_start s3 = (if longControlState (controlsState sm) = starting
                      then startAccel (CP self) else min (aEgo (carState sm)) 0)
          \<and> v_cruise s3 = (if longControlState (controlsState sm) = starting
                      then minSpeedCan (CP self) else vEgo (carState sm))
          \<and> a_cruise s3 = (if longControlState (controlsState sm) = starting
                      then startAccel (CP self) else min (aEgo (carState sm)) 0)"
    by (elim exE conjE)
  note r = i [THEN mp, OF o]
  note f4 = choose_solution_fields [OF 4]
  show "v_acc_start s' = (if longControlState (controlsState sm) = starting
                      then minSpeedCan (CP self) else vEgo (carState sm))"
    unfolding 5 finish_fields f4 using r by simp
  show "a_acc_start s' = (if longControlState (controlsState sm) = starting
                      then startAccel (CP self) else min (aEgo (carState sm)) 0)"
    unfolding 5 finish_fields f4 using r by simp
  show "v_cruise s' = (if longControlState (controlsState sm) = starting
                      then minSpeedCan (CP self) else vEgo (carState sm))"
    unfolding 5 finish_fields f4 using r by simp
  show "a_cruise s' = (if longControlState (controlsState sm) = starting
                      then startAccel (CP self) else min (aEgo (carState sm)) 0)"
    unfolding 5 finish_fields f4 using r by simp
  assume d: "\<not> is_enabled sm"
  with 4 have s4: "s4 = s3\<lparr>v_acc_future := min (v_mpc_future (mpc1 s3))
        (min (v_mpc_future (mpc2 s3)) (cruise_setpoint E cp sm))\<rparr>"
    by (simp add: choose_solution_disabled)
  show "v_acc s' = (if longControlState (controlsState sm) = starting
                      then minSpeedCan (CP self) else vEgo (carState sm))"
    unfolding 5 finish_fields s4 using r by simp
  show "a_acc s' = (if longControlState (controlsState sm) = starting
                      then startAccel (CP self) else min (aEgo (carState sm)) 0)"
    unfolding 5 finish_fields s4 using r by simp
qed

lemma enabled_not_starting:
  "is_enabled sm \<Longrightarrow> longControlState (controlsState sm) \<noteq> starting"
  by (auto simp: is_enabled_def)

text \<open>
  Claim C1, as amended. In every returning cycle with the brake pressed the warm start and
  the cruise candidate are reset to the ego speed and \<open>min(aEgo, 0)\<close>, or to minSpeedCan
  and startAccel of the planner's CP when the long control state is starting. When the
  cycle is not enabled (long control state neither pid nor stopping), \<open>v_acc\<close> and
  \<open>a_acc\<close> are these reset values and the plan source is kept. When it is enabled, the
  arbiter still runs: it selects the first slowest eligible candidate, the cruise
  candidate being the reset values, so \<open>v_acc\<close> is at most the ego speed. publish sends
  \<open>v_acc\<close> and \<open>a_acc\<close> as vTarget and aTarget.
\<close>

theorem brake_override:
  assumes "update E cp sm prm t self = Inr s'" and "brakePressed (carState sm)"
  shows
   "v_acc_start s' = (if longControlState (controlsState sm) = starting
                      then minSpeedCan (CP self) else vEgo (carState sm))
    \<and> a_acc_start s' = (if longControlState (controlsState sm) = starting
                      then startAccel (CP self) else min (aEgo (carState sm)) 0)
    \<and> v_cruise s' = (if longControlState (controlsState sm) = starting
                      then minSpeedCan (CP self) else vEgo (carState sm))
    \<and> a_cruise s' = (if longControlState (controlsState sm) = starting
                      then startAccel (CP self) else min (aEgo (carState sm)) 0)
    \<and> (\<not> is_enabled sm \<longrightarrow>
         v_acc s' = (if longControlState (controlsState sm) = starting
                     then minSpeedCan (CP self) else vEgo (carState sm))
         \<and> a_acc s' = (if longControlState (controlsState sm) = starting
                     then startAccel (CP self) else min (aEgo (carState sm)) 0)
         \<and> longitudinalPlanSource s' = longitudinalPlanSource self)
    \<and> (is_enabled sm \<longrightarrow>
         v_cruise s' = vEgo (carState sm) \<and> a_cruise s' = min (aEgo (carState sm)) 0
         \<and> v_acc s' \<le> vEgo (carState sm)
         \<and> (\<exists>as w bs. eligible_candidates (ModelLongEnabled prm) s' = as @ w # bs
               \<and> (\<forall>c\<in>set as. fst (snd w) < fst (snd c))
               \<and> (\<forall>c\<in>set bs. fst (snd w) \<le> fst (snd c))
               \<and> longitudinalPlanSource s' = fst w
               \<and> v_acc s' = fst (snd w) \<and> a_acc s' = snd (snd w)))
    \<and> vTarget (longitudinalPlan (snd (make_plan_send E sm lt s'))) = v_acc s'
    \<and> aTarget (longitudinalPlan (snd (make_plan_send E sm lt s'))) = a_acc s'"
proof -
  have o: "\<not> (is_enabled sm \<and> \<not> first_loop self \<and> \<not> brakePressed (carState sm)
              \<and> \<not> gasPressed (carState sm))"
    using assms(2) by simp
  note r = update_override [OF assms(1) o]
  have d: "longitudinalPlanSource s' = longitudinalPlanSource self" if "\<not> is_enabled sm"
    using that assms(1) by (rule update_source_disabled)
  have e: "v_cruise s' = vEgo (carState sm) \<and> a_cruise s' = min (aEgo (carState sm)) 0
         \<and> v_acc s' \<le> vEgo (carState sm)
         \<and> (\<exists>as w bs. eligible_candidates (ModelLongEnabled prm) s' = as @ w # bs
               \<and> (\<forall>c\<in>set as. fst (snd w) < fst (snd c))
               \<and> (\<forall>c\<in>set bs. fst (snd w) \<le> fst (snd c))
               \<and> longitudinalPlanSource s' = fst w
               \<and> v_acc s' = fst (snd w) \<and> a_acc s' = snd (snd w))" if en: "is_enabled sm"
  proof -
    note ns = enabled_not_starting [OF en]
    have c: "v_cruise s' = vEgo (carState sm)" "a_cruise s' = min (aEgo (carState sm)) 0"
      using r(3,4) ns by simp_all
    note sel = update_selection [OF assms(1) en]
    from sel obtain as w bs where
      A: "eligible_candidates (ModelLongEnabled prm) s' = as @ w # bs"
      and C: "\<forall>c\<in>set as. fst (snd w) < fst (snd c)"
      and V: "v_acc s' = fst (snd w)"
      by (elim exE conjE)
    have "v_acc s' \<le> v_cruise s'" unfolding V by (rule first_slowest_le_cruise [OF A C])
    then have "v_acc s' \<le> vEgo (carState sm)" using c(1) by simp
    with c sel show ?thesis by (intro conjI)
  qed
  from r(1,2,3,4) r(5,6) d e show ?thesis
    unfolding make_plan_send_fields by (intro conjI impI) (assumption | blast | rule refl)+
qed

lemma update_cruise_candidate:
  assumes u: "update E cp sm prm t self = Inr s'"
    and e: "is_enabled sm \<and> \<not> first_loop self \<and> \<not> brakePressed (carState sm)
          \<and> \<not> gasPressed (carState sm)"
  shows "\<exists>lo hi up.
     v_cruise s' = max (fst (speed_smoother E (v_acc_next self) (a_acc_next self)
                           (cruise_setpoint E cp sm) up lo (max 0.1 hi) (min (- 0.1) lo)
                           LON_MPC_STEP)) 0
     \<and> a_cruise s' = snd (speed_smoother E (v_acc_next self) (a_acc_next self)
                           (cruise_setpoint E cp sm) up lo (max 0.1 hi) (min (- 0.1) lo)
                           LON_MPC_STEP)"
proof -
  let ?s0 = "self\<lparr>vego := vEgo (carState sm), v_acc_start := v_acc_next self,
              a_acc_start := a_acc_next self\<rparr>"
  let ?fol = "status (leadOne (radarState sm)) \<and> dRel (leadOne (radarState sm)) < 45
         \<and> vLeadK (leadOne (radarState sm)) > vEgo (carState sm)
         \<and> aLeadK (leadOne (radarState sm)) > 0"
  from update_steps [OF u] obtain s1 s2 s3 s4 where
    1: "update_speed_map E prm ?s0 = Inr s1"
    and 2: "update_cruise E sm (cruise_setpoint E cp sm) (is_enabled sm) ?fol
        (forceDecel (controlsState sm)) s1 = Inr s2"
    and 3: "update_mpcs E sm s2 = Inr s3"
    and 4: "choose_solution (cruise_setpoint E cp sm) (is_enabled sm) (ModelLongEnabled prm) s3
           = Inr s4"
    and 5: "s' = update_next cp (determine_fcw E sm t s4)"
    by (elim exE conjE)
  note f1 = update_speed_map_fields [OF 1]
  note f3 = update_mpcs_fields [OF 3]
  note f4 = choose_solution_fields [OF 4]
  have w: "v_acc_start s1 = v_acc_next self" "a_acc_start s1 = a_acc_next self"
    using f1(5,6) by simp_all
  from e f1(13) have e1: "is_enabled sm \<and> \<not> first_loop s1 \<and> \<not> brakePressed (carState sm)
          \<and> \<not> gasPressed (carState sm)" by simp
  obtain lo hi where l: "calc_cruise_accel_limits (vEgo (carState sm)) ?fol = [lo, hi]"
    using calc_cruise_accel_limits_pair by blast
  have "\<exists>up. limit_accel_in_turns (CV E) (vEgo (carState sm))
      (steeringAngleDeg (carState sm)) [lo, hi] (CP s1) = Inr [lo, up]"
  proof (cases "limit_accel_in_turns (CV E) (vEgo (carState sm))
      (steeringAngleDeg (carState sm)) [lo, hi] (CP s1)")
    case (Inl err)
    then have "update_cruise E sm (cruise_setpoint E cp sm) (is_enabled sm) ?fol
        (forceDecel (controlsState sm)) s1 = Inl err"
      using update_cruise_engaged_error [OF e1, of E ?fol err] l by simp
    with 2 show ?thesis by simp
  next
    case (Inr x)
    from limit_accel_in_turns_pair [OF Inr] obtain up where "x = [lo, up]" by blast
    with Inr show ?thesis by simp
  qed
  then obtain up where t: "limit_accel_in_turns (CV E) (vEgo (carState sm))
      (steeringAngleDeg (carState sm)) [lo, hi] (CP s1) = Inr [lo, up]" by (elim exE)
  note v = update_cruise_engaged_value [OF e1 l t, of "cruise_setpoint E cp sm"
      "forceDecel (controlsState sm)"]
  from 2 have s2: "s2 = s1\<lparr>v_cruise := max (fst (speed_smoother E (v_acc_start s1)
        (a_acc_start s1) (cruise_setpoint E cp sm) up lo (max 0.1 hi) (min (- 0.1) lo)
        LON_MPC_STEP)) 0,
      a_cruise := snd (speed_smoother E (v_acc_start s1) (a_acc_start s1)
        (cruise_setpoint E cp sm) up lo (max 0.1 hi) (min (- 0.1) lo) LON_MPC_STEP)\<rparr>"
    unfolding v by simp
  have "v_cruise s' = v_cruise s2" "a_cruise s' = a_cruise s2"
    unfolding 5 finish_fields using f4(7,8) f3(6,7) by simp_all
  then have "v_cruise s' = max (fst (speed_smoother E (v_acc_next self) (a_acc_next self)
                           (cruise_setpoint E cp sm) up lo (max 0.1 hi) (min (- 0.1) lo)
                           LON_MPC_STEP)) 0
     \<and> a_cruise s' = snd (speed_smoother E (v_acc_next self) (a_acc_next self)
                           (cruise_setpoint E cp sm) up lo (max 0.1 hi) (min (- 0.1) lo)
                           LON_MPC_STEP)"
    unfolding s2 w by simp
  then show ?thesis by (intro exI)
qed

section \<open>Evaluation on the example inputs\<close>

lemma pick_second:
  fixes c1 :: "string \<times> real \<times> real"
  assumes "[c1, c2] = as @ w # bs"
    and "\<forall>c\<in>set as. fst (snd w) < fst (snd c)"
    and "\<forall>c\<in>set bs. fst (snd w) \<le> fst (snd c)"
    and "fst (snd c2) < fst (snd c1)"
  shows "w = c2"
proof (cases as)
  case Nil
  with assms(1) have "w = c1" "bs = [c2]" by simp_all
  with assms(3) have "fst (snd c1) \<le> fst (snd c2)" by simp
  with assms(4) show ?thesis by simp
next
  case (Cons a as')
  with assms(1) have "as' @ w # bs = [c2]" by simp
  then show ?thesis by (simp add: append_eq_Cons_conv)
qed

lemma update_CP:
  assumes u: "update E cp sm prm t self = Inr s'"
  shows "CP s' = CP self"
proof -
  let ?s0 = "self\<lparr>vego := vEgo (carState sm), v_acc_start := v_acc_next self,
              a_acc_start := a_acc_next self\<rparr>"
  from update_steps [OF u] obtain s1 s2 s3 s4 where
    1: "update_speed_map E prm ?s0 = Inr s1"
    and 2: "update_cruise E sm (cruise_setpoint E cp sm) (is_enabled sm)
        (status (leadOne (radarState sm)) \<and> dRel (leadOne (radarState sm)) < 45
         \<and> vLeadK (leadOne (radarState sm)) > vEgo (carState sm)
         \<and> aLeadK (leadOne (radarState sm)) > 0)
        (forceDecel (controlsState sm)) s1 = Inr s2"
    and 3: "update_mpcs E sm s2 = Inr s3"
    and 4: "choose_solution (cruise_setpoint E cp sm) (is_enabled sm) (ModelLongEnabled prm) s3
           = Inr s4"
    and 5: "s' = update_next cp (determine_fcw E sm t s4)"
    by (elim exE conjE)
  have "CP s' = CP s4"
    unfolding 5 by (simp add: update_next_def determine_fcw_def Let_def case_prod_beta)
  then show ?thesis
    using update_speed_map_fields(1) [OF 1] update_cruise_fields(1) [OF 2]
      update_mpcs_fields(1) [OF 3] choose_solution_fields(1) [OF 4] by simp
qed

subsection \<open>The example cycle\<close>

lemma demo_optimizers:
  assumes "update demo_E cp sm prm t self = Inr s'"
  shows "v_mpc (mpc1 s') = vLead (leadOne (radarState sm))"
    and "a_mpc (mpc1 s') = aLeadK (leadOne (radarState sm))"
    and "v_mpc_future (mpc1 s') = vLead (leadOne (radarState sm))"
    and "prev_lead_status (mpc1 s') = status (leadOne (radarState sm))"
    and "v_mpc (mpc2 s') = vLead (leadTwo (radarState sm))"
    and "a_mpc (mpc2 s') = aLeadK (leadTwo (radarState sm))"
    and "v_mpc_future (mpc2 s') = vLead (leadTwo (radarState sm))"
    and "prev_lead_status (mpc2 s') = status (leadTwo (radarState sm))"
  using update_optimizers [OF assms] by (simp_all add: demo_E_def)

lemma demo_cruise:
  assumes u: "update demo_E cp sm prm t self = Inr s'"
    and e: "is_enabled sm \<and> \<not> first_loop self \<and> \<not> brakePressed (carState sm)
          \<and> \<not> gasPressed (carState sm)"
  shows "v_cruise s' = max (v_acc_next self + a_acc_next self * LON_MPC_STEP) 0"
    and "a_cruise s' = a_acc_next self"
  using update_cruise_candidate [OF u e] by (auto simp: demo_E_def)

lemma demo_leads:
  "leadOne (radarState demo_sm) = demo_lead"
  "leadTwo (radarState demo_sm) = demo_lead\<lparr>status := False, vLead := 5\<rparr>"
  by (simp_all add: demo_sm_def)

lemma demo_candidates:
  assumes u: "update demo_E cp sm demo_prm t self = Inr s'"
    and "vLead (leadOne (radarState sm)) = 7" and "aLeadK (leadOne (radarState sm)) = - 1"
    and "status (leadOne (radarState sm))" and "\<not> status (leadTwo (radarState sm))"
  shows "eligible_candidates (ModelLongEnabled demo_prm) s'
         = [(''cruise'', v_cruise s', a_cruise s'), (''mpc1'', 7, - 1)]"
  unfolding eligible_candidates_def demo_optimizers [OF u]
  using assms(2-) by (simp add: demo_prm_def)

lemma demo_pick:
  assumes "eligible_candidates m s' = [(''cruise'', 10, ac), (''mpc1'', 7, - 1)]"
    and "eligible_candidates m s' = as @ w # bs"
    and "\<forall>c\<in>set as. fst (snd w) < fst (snd c)"
    and "\<forall>c\<in>set bs. fst (snd w) \<le> fst (snd c)"
  shows "w = (''mpc1'', 7, - 1)"
proof -
  from assms(1,2) have "[(''cruise'', 10, ac), (''mpc1'', 7, - 1)] = as @ w # bs" by simp
  from pick_second [OF this assms(3,4)] show ?thesis by simp
qed

lemma demo_sm_enabled:
  "is_enabled demo_sm" "is_enabled demo_sm_brake" "is_enabled demo_sm_fcw"
  "is_enabled demo_sm_fcw_brake" "\<not> is_enabled demo_sm_brake_off"
  "\<not> is_enabled demo_sm_brake_starting"
  "longControlState (controlsState demo_sm_brake_starting) = starting"
  "longControlState (controlsState demo_sm_brake_off) \<noteq> starting"
  by (simp_all add: is_enabled_def demo_sm_def demo_sm_brake_def demo_sm_fcw_def
      demo_sm_fcw_brake_def demo_sm_brake_off_def demo_sm_off_def demo_sm_brake_starting_def
      demo_controlsState_def)

lemma demo_sm_variants:
  "modelV2 demo_sm_brake = modelV2 demo_sm" "alive_modelV2 demo_sm_brake = alive_modelV2 demo_sm"
  "modelV2 demo_sm_brake_off = modelV2 demo_sm"
  "alive_modelV2 demo_sm_brake_off = alive_modelV2 demo_sm"
  "modelV2 demo_sm_brake_starting = modelV2 demo_sm"
  "alive_modelV2 demo_sm_brake_starting = alive_modelV2 demo_sm"
  "modelV2 demo_sm_fcw = modelV2 demo_sm" "alive_modelV2 demo_sm_fcw = alive_modelV2 demo_sm"
  "modelV2 demo_sm_fcw_brake = modelV2 demo_sm"
  "alive_modelV2 demo_sm_fcw_brake = alive_modelV2 demo_sm"
  by (simp_all add: demo_sm_brake_def demo_sm_fcw_def demo_sm_fcw_brake_def
      demo_sm_brake_off_def demo_sm_off_def demo_sm_brake_starting_def)

lemma demo_sm_brake_carState:
  "carState demo_sm_brake = demo_carState\<lparr>brakePressed := True\<rparr>"
  "carState demo_sm_brake_off = demo_carState\<lparr>brakePressed := True\<rparr>"
  "carState demo_sm_brake_starting = demo_carState\<lparr>brakePressed := True\<rparr>"
  "carState demo_sm_fcw_brake = demo_carState\<lparr>brakePressed := True\<rparr>"
  "carState demo_sm_fcw = demo_carState"
  "carState demo_sm = demo_carState"
  by (simp_all add: demo_sm_brake_def demo_sm_fcw_def demo_sm_fcw_brake_def
      demo_sm_brake_off_def demo_sm_off_def demo_sm_brake_starting_def demo_sm_def)

lemma demo_sm_radar:
  "radarState demo_sm_brake = radarState demo_sm"
  "radarState demo_sm_brake_off = radarState demo_sm"
  "radarState demo_sm_brake_starting = radarState demo_sm"
  "leadOne (radarState demo_sm_fcw) = demo_lead\<lparr>lead_fcw := True\<rparr>"
  "leadOne (radarState demo_sm_fcw_brake) = demo_lead\<lparr>lead_fcw := True\<rparr>"
  by (simp_all add: demo_sm_brake_def demo_sm_fcw_def demo_sm_fcw_brake_def
      demo_sm_brake_off_def demo_sm_off_def demo_sm_brake_starting_def)

lemma demo_returns:
  assumes "CP self = demo_CP"
  shows "\<exists>s'. update demo_E cp demo_sm demo_prm t self = Inr s'"
    and "\<exists>s'. update demo_E cp demo_sm_brake demo_prm t self = Inr s'"
    and "\<exists>s'. update demo_E cp demo_sm_brake_off demo_prm t self = Inr s'"
    and "\<exists>s'. update demo_E cp demo_sm_brake_starting demo_prm t self = Inr s'"
    and "\<exists>s'. update demo_E cp demo_sm_fcw demo_prm t self = Inr s'"
    and "\<exists>s'. update demo_E cp demo_sm_fcw_brake demo_prm t self = Inr s'"
  by (rule update_demo_returns;
      simp add: assms demo_sm_variants demo_sm_brake_carState demo_carState_def)+

lemma demo_setpoint: "cruise_setpoint demo_E demo_CP demo_sm = 10"
  by (simp add: cruise_setpoint_def demo_E_def demo_CP_def demo_sm_def demo_controlsState_def
      demo_CV_def Let_def)

text \<open>What the example cycle computes from \<open>demo_planner\<close>.\<close>

lemma demo_cycle_cruise:
  assumes u: "update demo_E cp demo_sm demo_prm t demo_planner = Inr s'"
  shows "v_cruise s' = 10" and "a_cruise s' = 0"
    and "v_acc_start s' = 10" and "a_acc_start s' = 0"
    and "eligible_candidates (ModelLongEnabled demo_prm) s'
         = [(''cruise'', 10, 0), (''mpc1'', 7, - 1)]"
proof -
  have e: "is_enabled demo_sm \<and> \<not> first_loop demo_planner
      \<and> \<not> brakePressed (carState demo_sm) \<and> \<not> gasPressed (carState demo_sm)"
    by (simp add: demo_sm_enabled demo_sm_carState demo_planner_def)
  show c: "v_cruise s' = 10" "a_cruise s' = 0"
    using demo_cruise [OF u e] by (simp_all add: demo_planner_def LON_MPC_STEP_def)
  show "v_acc_start s' = 10" "a_acc_start s' = 0"
    using update_warm_start [OF u e] by (simp_all add: demo_planner_def)
  show "eligible_candidates (ModelLongEnabled demo_prm) s'
         = [(''cruise'', 10, 0), (''mpc1'', 7, - 1)]"
    using demo_candidates [OF u] c by (simp add: demo_leads demo_lead_def)
qed

lemma demo_planner_CP: "CP demo_planner = demo_CP"
  by (simp add: demo_planner_def)

text \<open>The example cycle: the cruise candidate at 10 m/s, the first lead optimizer at
  7 m/s, the second one without a lead.\<close>

theorem arbiter_selects_slowest_witness:
  "\<exists>s'. update demo_E demo_CP demo_sm demo_prm 0 demo_planner = Inr s' \<and> is_enabled demo_sm
     \<and> eligible_candidates (ModelLongEnabled demo_prm) s'
         = [(''cruise'', 10, 0), (''mpc1'', 7, - 1)]
     \<and> longitudinalPlanSource s' = ''mpc1'' \<and> v_acc s' = 7 \<and> a_acc s' = - 1
     \<and> plan_longitudinalPlanSource (longitudinalPlan (snd (make_plan_send demo_E demo_sm 0 s')))
         = ''mpc1''
     \<and> vTarget (longitudinalPlan (snd (make_plan_send demo_E demo_sm 0 s'))) = 7
     \<and> aTarget (longitudinalPlan (snd (make_plan_send demo_E demo_sm 0 s'))) = - 1"
proof -
  from demo_returns(1) [where cp = demo_CP and t = 0, OF demo_planner_CP]
  obtain s' where u: "update demo_E demo_CP demo_sm demo_prm 0 demo_planner = Inr s'"
    by (elim exE)
  note en = demo_sm_enabled(1)
  note c = demo_cycle_cruise [OF u]
  from arbiter_selects_slowest [OF u en, of 0] obtain as w bs where
    A: "eligible_candidates (ModelLongEnabled demo_prm) s' = as @ w # bs"
    and C: "\<forall>c\<in>set as. fst (snd w) < fst (snd c)"
    and D: "\<forall>c\<in>set bs. fst (snd w) \<le> fst (snd c)"
    and R: "longitudinalPlanSource s' = fst w" "v_acc s' = fst (snd w)" "a_acc s' = snd (snd w)"
      "plan_longitudinalPlanSource (longitudinalPlan (snd (make_plan_send demo_E demo_sm 0 s')))
         = fst w"
      "vTarget (longitudinalPlan (snd (make_plan_send demo_E demo_sm 0 s'))) = fst (snd w)"
      "aTarget (longitudinalPlan (snd (make_plan_send demo_E demo_sm 0 s'))) = snd (snd w)"
    by (elim exE conjE)
  have w: "w = (''mpc1'', 7, - 1)" by (rule demo_pick [OF c(5) A C D])
  have "update demo_E demo_CP demo_sm demo_prm 0 demo_planner = Inr s' \<and> is_enabled demo_sm
     \<and> eligible_candidates (ModelLongEnabled demo_prm) s'
         = [(''cruise'', 10, 0), (''mpc1'', 7, - 1)]
     \<and> longitudinalPlanSource s' = ''mpc1'' \<and> v_acc s' = 7 \<and> a_acc s' = - 1
     \<and> plan_longitudinalPlanSource (longitudinalPlan (snd (make_plan_send demo_E demo_sm 0 s')))
         = ''mpc1''
     \<and> vTarget (longitudinalPlan (snd (make_plan_send demo_E demo_sm 0 s'))) = 7
     \<and> aTarget (longitudinalPlan (snd (make_plan_send demo_E demo_sm 0 s'))) = - 1"
    unfolding R w using u en c(5) by simp
  then show ?thesis by (rule exI)
qed

text \<open>In the example cycle the second lead optimizer has no lead and is not a candidate,
  yet its future speed of 5 m/s is the minimum.\<close>

theorem future_speed_minimum_witness:
  "\<exists>s'. update demo_E demo_CP demo_sm demo_prm 0 demo_planner = Inr s'
     \<and> cruise_setpoint demo_E demo_CP demo_sm = 10
     \<and> v_mpc_future (mpc1 s') = 7 \<and> v_mpc_future (mpc2 s') = 5
     \<and> \<not> prev_lead_status (mpc2 s') \<and> \<not> ModelLongEnabled demo_prm
     \<and> v_acc s' = 7 \<and> v_acc_future s' = 5
     \<and> vTargetFuture (longitudinalPlan (snd (make_plan_send demo_E demo_sm 0 s'))) = 5"
proof -
  from demo_returns(1) [where cp = demo_CP and t = 0, OF demo_planner_CP]
  obtain s' where u: "update demo_E demo_CP demo_sm demo_prm 0 demo_planner = Inr s'"
    by (elim exE)
  note t = future_speed_minimum [OF u, of 0]
  note o = demo_optimizers [OF u]
  have f: "v_mpc_future (mpc1 s') = 7" "v_mpc_future (mpc2 s') = 5"
    "\<not> prev_lead_status (mpc2 s')"
    unfolding o by (simp_all add: demo_leads demo_lead_def)
  have m: "\<not> ModelLongEnabled demo_prm" by (simp add: demo_prm_def)
  then have nm: "\<not> (valid (mpc_model s') \<and> ModelLongEnabled demo_prm)" by simp
  have vf: "v_acc_future s' = 5"
    using t [THEN conjunct2, THEN conjunct2, THEN conjunct1, THEN mp, OF nm]
    by (simp add: f demo_setpoint)
  have pf: "vTargetFuture (longitudinalPlan (snd (make_plan_send demo_E demo_sm 0 s'))) = 5"
    using t [THEN conjunct2, THEN conjunct2, THEN conjunct2] vf by simp
  from update_selection [OF u demo_sm_enabled(1)] obtain as w bs where
    A: "eligible_candidates (ModelLongEnabled demo_prm) s' = as @ w # bs"
    and C: "\<forall>c\<in>set as. fst (snd w) < fst (snd c)"
    and D: "\<forall>c\<in>set bs. fst (snd w) \<le> fst (snd c)"
    and V: "v_acc s' = fst (snd w)"
    by (elim exE conjE)
  have "w = (''mpc1'', 7, - 1)" by (rule demo_pick [OF demo_cycle_cruise(5) [OF u] A C D])
  with V have v: "v_acc s' = 7" by simp
  from u demo_setpoint f m v vf pf have
    "update demo_E demo_CP demo_sm demo_prm 0 demo_planner = Inr s'
     \<and> cruise_setpoint demo_E demo_CP demo_sm = 10
     \<and> v_mpc_future (mpc1 s') = 7 \<and> v_mpc_future (mpc2 s') = 5
     \<and> \<not> prev_lead_status (mpc2 s') \<and> \<not> ModelLongEnabled demo_prm
     \<and> v_acc s' = 7 \<and> v_acc_future s' = 5
     \<and> vTargetFuture (longitudinalPlan (snd (make_plan_send demo_E demo_sm 0 s'))) = 5"
    by (intro conjI)
  then show ?thesis by (rule exI)
qed

text \<open>A warner that fires, with the brake free and with the brake pressed.\<close>

theorem collision_warning_flag_witness:
  "(\<exists>s'. update demo_E demo_CP demo_sm_fcw demo_prm 0 demo_planner = Inr s'
      \<and> lead_fcw (leadOne (radarState demo_sm_fcw))
      \<and> \<not> brakePressed (carState demo_sm_fcw) \<and> fcw s'
      \<and> plan_fcw (longitudinalPlan (snd (make_plan_send demo_E demo_sm_fcw 0 s'))))
   \<and> (\<exists>s'. update demo_E demo_CP demo_sm_fcw_brake demo_prm 0 demo_planner = Inr s'
      \<and> lead_fcw (leadOne (radarState demo_sm_fcw_brake))
      \<and> brakePressed (carState demo_sm_fcw_brake) \<and> \<not> fcw s'
      \<and> \<not> plan_fcw (longitudinalPlan (snd (make_plan_send demo_E demo_sm_fcw_brake 0 s'))))"
proof
  from demo_returns(5) [where cp = demo_CP and t = 0, OF demo_planner_CP]
  obtain s' where u: "update demo_E demo_CP demo_sm_fcw demo_prm 0 demo_planner = Inr s'"
    by (elim exE)
  have "update demo_E demo_CP demo_sm_fcw demo_prm 0 demo_planner = Inr s'
      \<and> lead_fcw (leadOne (radarState demo_sm_fcw))
      \<and> \<not> brakePressed (carState demo_sm_fcw) \<and> fcw s'
      \<and> plan_fcw (longitudinalPlan (snd (make_plan_send demo_E demo_sm_fcw 0 s')))"
    using collision_warning_flag [OF u, of 0] u
    by (simp add: demo_E_def demo_sm_radar demo_sm_brake_carState demo_carState_def)
  then show "\<exists>s'. update demo_E demo_CP demo_sm_fcw demo_prm 0 demo_planner = Inr s'
      \<and> lead_fcw (leadOne (radarState demo_sm_fcw))
      \<and> \<not> brakePressed (carState demo_sm_fcw) \<and> fcw s'
      \<and> plan_fcw (longitudinalPlan (snd (make_plan_send demo_E demo_sm_fcw 0 s')))"
    by (rule exI)
next
  from demo_returns(6) [where cp = demo_CP and t = 0, OF demo_planner_CP]
  obtain s' where u: "update demo_E demo_CP demo_sm_fcw_brake demo_prm 0 demo_planner = Inr s'"
    by (elim exE)
  have "update demo_E demo_CP demo_sm_fcw_brake demo_prm 0 demo_planner = Inr s'
      \<and> lead_fcw (leadOne (radarState demo_sm_fcw_brake))
      \<and> brakePressed (carState demo_sm_fcw_brake) \<and> \<not> fcw s'
      \<and> \<not> plan_fcw (longitudinalPlan (snd (make_plan_send demo_E demo_sm_fcw_brake 0 s')))"
    using collision_warning_flag [OF u, of 0] u
    by (simp add: demo_E_def demo_sm_radar demo_sm_brake_carState demo_carState_def)
  then show "\<exists>s'. update demo_E demo_CP demo_sm_fcw_brake demo_prm 0 demo_planner = Inr s'
      \<and> lead_fcw (leadOne (radarState demo_sm_fcw_brake))
      \<and> brakePressed (carState demo_sm_fcw_brake) \<and> \<not> fcw s'
      \<and> \<not> plan_fcw (longitudinalPlan (snd (make_plan_send demo_E demo_sm_fcw_brake 0 s')))"
    by (rule exI)
qed

text \<open>The example cycle selects the lead optimizer, with the pedals free and with the
  brake pressed.\<close>

lemma demo_cycle_selection:
  assumes u: "update demo_E cp demo_sm demo_prm t demo_planner = Inr s'"
  shows "longitudinalPlanSource s' = ''mpc1''" and "v_acc s' = 7" and "a_acc s' = - 1"
proof -
  from update_selection [OF u demo_sm_enabled(1)] obtain as w bs where
    A: "eligible_candidates (ModelLongEnabled demo_prm) s' = as @ w # bs"
    and C: "\<forall>c\<in>set as. fst (snd w) < fst (snd c)"
    and D: "\<forall>c\<in>set bs. fst (snd w) \<le> fst (snd c)"
    and R: "longitudinalPlanSource s' = fst w" "v_acc s' = fst (snd w)" "a_acc s' = snd (snd w)"
    by (elim exE conjE)
  have w: "w = (''mpc1'', 7, - 1)" by (rule demo_pick [OF demo_cycle_cruise(5) [OF u] A C D])
  show "longitudinalPlanSource s' = ''mpc1''" "v_acc s' = 7" "a_acc s' = - 1"
    unfolding R w by simp_all
qed

lemma demo_brake_candidates:
  assumes u: "update demo_E cp demo_sm_brake demo_prm t demo_planner = Inr s'"
  shows "eligible_candidates (ModelLongEnabled demo_prm) s'
         = [(''cruise'', 10, 0), (''mpc1'', 7, - 1)]"
proof -
  have o: "\<not> (is_enabled demo_sm_brake \<and> \<not> first_loop demo_planner
      \<and> \<not> brakePressed (carState demo_sm_brake) \<and> \<not> gasPressed (carState demo_sm_brake))"
    by (simp add: demo_sm_brake_carState)
  note ns = enabled_not_starting [OF demo_sm_enabled(2)]
  have c: "v_cruise s' = 10" "a_cruise s' = 0"
    using update_override(3,4) [OF u o] ns
    by (simp_all add: demo_sm_brake_carState demo_carState_def)
  show ?thesis
    using demo_candidates [OF u] c by (simp add: demo_sm_radar demo_leads demo_lead_def)
qed

lemma demo_brake_cycle:
  assumes u: "update demo_E cp demo_sm_brake demo_prm t demo_planner = Inr s'"
  shows "longitudinalPlanSource s' = ''mpc1''" and "v_acc s' = 7" and "a_acc s' = - 1"
proof -
  from update_selection [OF u demo_sm_enabled(2)] obtain as w bs where
    A: "eligible_candidates (ModelLongEnabled demo_prm) s' = as @ w # bs"
    and C: "\<forall>c\<in>set as. fst (snd w) < fst (snd c)"
    and D: "\<forall>c\<in>set bs. fst (snd w) \<le> fst (snd c)"
    and R: "longitudinalPlanSource s' = fst w" "v_acc s' = fst (snd w)" "a_acc s' = snd (snd w)"
    by (elim exE conjE)
  have w: "w = (''mpc1'', 7, - 1)" by (rule demo_pick [OF demo_brake_candidates [OF u] A C D])
  show "longitudinalPlanSource s' = ''mpc1''" "v_acc s' = 7" "a_acc s' = - 1"
    unfolding R w by simp_all
qed

lemma demo_brake_starting_cycle:
  assumes u: "update demo_E cp demo_sm_brake_starting demo_prm t demo_planner = Inr s'"
  shows "v_acc s' = 0.3" and "a_acc s' = 1"
proof -
  have o: "\<not> (is_enabled demo_sm_brake_starting \<and> \<not> first_loop demo_planner
      \<and> \<not> brakePressed (carState demo_sm_brake_starting)
      \<and> \<not> gasPressed (carState demo_sm_brake_starting))"
    by (simp add: demo_sm_brake_carState)
  show "v_acc s' = 0.3" "a_acc s' = 1"
    using update_override(5,6) [OF u o demo_sm_enabled(6)]
    by (simp_all add: demo_sm_enabled(7) demo_planner_def demo_CP_def)
qed

text \<open>The brake pressed under pid control, where the lead optimizer is selected, and with
  the long control off, where the reset values are the plan.\<close>

theorem brake_override_witness:
  "(\<exists>s'. update demo_E demo_CP demo_sm_brake demo_prm 0 demo_planner = Inr s'
      \<and> brakePressed (carState demo_sm_brake) \<and> is_enabled demo_sm_brake
      \<and> v_acc_start s' = 10 \<and> a_acc_start s' = 0 \<and> v_cruise s' = 10 \<and> a_cruise s' = 0
      \<and> longitudinalPlanSource s' = ''mpc1'' \<and> v_acc s' = 7 \<and> a_acc s' = - 1
      \<and> vTarget (longitudinalPlan (snd (make_plan_send demo_E demo_sm_brake 0 s'))) = 7
      \<and> aTarget (longitudinalPlan (snd (make_plan_send demo_E demo_sm_brake 0 s'))) = - 1)
   \<and> (\<exists>s'. update demo_E demo_CP demo_sm_brake_off demo_prm 0 demo_planner = Inr s'
      \<and> brakePressed (carState demo_sm_brake_off) \<and> \<not> is_enabled demo_sm_brake_off
      \<and> v_acc_start s' = 10 \<and> a_acc_start s' = 0 \<and> v_cruise s' = 10 \<and> a_cruise s' = 0
      \<and> longitudinalPlanSource s' = ''mpc2'' \<and> v_acc s' = 10 \<and> a_acc s' = 0
      \<and> vTarget (longitudinalPlan (snd (make_plan_send demo_E demo_sm_brake_off 0 s'))) = 10
      \<and> aTarget (longitudinalPlan (snd (make_plan_send demo_E demo_sm_brake_off 0 s'))) = 0)"
proof
  from demo_returns(2) [where cp = demo_CP and t = 0, OF demo_planner_CP]
  obtain s' where u: "update demo_E demo_CP demo_sm_brake demo_prm 0 demo_planner = Inr s'"
    by (elim exE)
  have b: "brakePressed (carState demo_sm_brake)" by (simp add: demo_sm_brake_carState)
  note en = demo_sm_enabled(2)
  note ns = enabled_not_starting [OF en]
  note t = brake_override [OF u b, of 0]
  note r1 = t [THEN conjunct2]
  note r2 = r1 [THEN conjunct2]
  note r3 = r2 [THEN conjunct2]
  note r4 = r3 [THEN conjunct2]
  note r5 = r4 [THEN conjunct2]
  note r6 = r5 [THEN conjunct2]
  have s: "v_acc_start s' = 10" "a_acc_start s' = 0" "v_cruise s' = 10" "a_cruise s' = 0"
    using t [THEN conjunct1] r1 [THEN conjunct1] r2 [THEN conjunct1] r3 [THEN conjunct1] ns
    by (simp_all add: demo_sm_brake_carState demo_carState_def)
  from r5 [THEN conjunct1, THEN mp, OF en] obtain as w bs where
    A: "eligible_candidates (ModelLongEnabled demo_prm) s' = as @ w # bs"
    and C: "\<forall>c\<in>set as. fst (snd w) < fst (snd c)"
    and D: "\<forall>c\<in>set bs. fst (snd w) \<le> fst (snd c)"
    and R: "longitudinalPlanSource s' = fst w" "v_acc s' = fst (snd w)" "a_acc s' = snd (snd w)"
    by (elim exE conjE)
  have w: "w = (''mpc1'', 7, - 1)" by (rule demo_pick [OF demo_brake_candidates [OF u] A C D])
  have sel: "longitudinalPlanSource s' = ''mpc1''" "v_acc s' = 7" "a_acc s' = - 1"
    unfolding R w by simp_all
  have p: "vTarget (longitudinalPlan (snd (make_plan_send demo_E demo_sm_brake 0 s'))) = 7"
    "aTarget (longitudinalPlan (snd (make_plan_send demo_E demo_sm_brake 0 s'))) = - 1"
    using r6 sel by simp_all
  from u b en s sel p have
    "update demo_E demo_CP demo_sm_brake demo_prm 0 demo_planner = Inr s'
      \<and> brakePressed (carState demo_sm_brake) \<and> is_enabled demo_sm_brake
      \<and> v_acc_start s' = 10 \<and> a_acc_start s' = 0 \<and> v_cruise s' = 10 \<and> a_cruise s' = 0
      \<and> longitudinalPlanSource s' = ''mpc1'' \<and> v_acc s' = 7 \<and> a_acc s' = - 1
      \<and> vTarget (longitudinalPlan (snd (make_plan_send demo_E demo_sm_brake 0 s'))) = 7
      \<and> aTarget (longitudinalPlan (snd (make_plan_send demo_E demo_sm_brake 0 s'))) = - 1"
    by (intro conjI)
  then show "\<exists>s'. update demo_E demo_CP demo_sm_brake demo_prm 0 demo_planner = Inr s'
      \<and> brakePressed (carState demo_sm_brake) \<and> is_enabled demo_sm_brake
      \<and> v_acc_start s' = 10 \<and> a_acc_start s' = 0 \<and> v_cruise s' = 10 \<and> a_cruise s' = 0
      \<and> longitudinalPlanSource s' = ''mpc1'' \<and> v_acc s' = 7 \<and> a_acc s' = - 1
      \<and> vTarget (longitudinalPlan (snd (make_plan_send demo_E demo_sm_brake 0 s'))) = 7
      \<and> aTarget (longitudinalPlan (snd (make_plan_send demo_E demo_sm_brake 0 s'))) = - 1"
    by (rule exI)
next
  from demo_returns(3) [where cp = demo_CP and t = 0, OF demo_planner_CP]
  obtain s' where u: "update demo_E demo_CP demo_sm_brake_off demo_prm 0 demo_planner = Inr s'"
    by (elim exE)
  have b: "brakePressed (carState demo_sm_brake_off)" by (simp add: demo_sm_brake_carState)
  note nen = demo_sm_enabled(5)
  note ns = demo_sm_enabled(8)
  note t = brake_override [OF u b, of 0]
  note r1 = t [THEN conjunct2]
  note r2 = r1 [THEN conjunct2]
  note r3 = r2 [THEN conjunct2]
  note r4 = r3 [THEN conjunct2]
  note r5 = r4 [THEN conjunct2]
  note r6 = r5 [THEN conjunct2]
  have s: "v_acc_start s' = 10" "a_acc_start s' = 0" "v_cruise s' = 10" "a_cruise s' = 0"
    using t [THEN conjunct1] r1 [THEN conjunct1] r2 [THEN conjunct1] r3 [THEN conjunct1] ns
    by (simp_all add: demo_sm_brake_carState demo_carState_def)
  have sel: "longitudinalPlanSource s' = ''mpc2''" "v_acc s' = 10" "a_acc s' = 0"
    using r4 [THEN conjunct1, THEN mp, OF nen] ns
    by (simp_all add: demo_sm_brake_carState demo_carState_def demo_planner_def)
  have p: "vTarget (longitudinalPlan (snd (make_plan_send demo_E demo_sm_brake_off 0 s'))) = 10"
    "aTarget (longitudinalPlan (snd (make_plan_send demo_E demo_sm_brake_off 0 s'))) = 0"
    using r6 sel by simp_all
  from u b nen s sel p have
    "update demo_E demo_CP demo_sm_brake_off demo_prm 0 demo_planner = Inr s'
      \<and> brakePressed (carState demo_sm_brake_off) \<and> \<not> is_enabled demo_sm_brake_off
      \<and> v_acc_start s' = 10 \<and> a_acc_start s' = 0 \<and> v_cruise s' = 10 \<and> a_cruise s' = 0
      \<and> longitudinalPlanSource s' = ''mpc2'' \<and> v_acc s' = 10 \<and> a_acc s' = 0
      \<and> vTarget (longitudinalPlan (snd (make_plan_send demo_E demo_sm_brake_off 0 s'))) = 10
      \<and> aTarget (longitudinalPlan (snd (make_plan_send demo_E demo_sm_brake_off 0 s'))) = 0"
    by (intro conjI)
  then show "\<exists>s'. update demo_E demo_CP demo_sm_brake_off demo_prm 0 demo_planner = Inr s'
      \<and> brakePressed (carState demo_sm_brake_off) \<and> \<not> is_enabled demo_sm_brake_off
      \<and> v_acc_start s' = 10 \<and> a_acc_start s' = 0 \<and> v_cruise s' = 10 \<and> a_cruise s' = 0
      \<and> longitudinalPlanSource s' = ''mpc2'' \<and> v_acc s' = 10 \<and> a_acc s' = 0
      \<and> vTarget (longitudinalPlan (snd (make_plan_send demo_E demo_sm_brake_off 0 s'))) = 10
      \<and> aTarget (longitudinalPlan (snd (make_plan_send demo_E demo_sm_brake_off 0 s'))) = 0"
    by (rule exI)
qed

text \<open>The claim as stated fails in two ways. With the brake pressed under pid control and
  a lead optimizer at 7 m/s, \<open>v_acc\<close> is 7 and \<open>a_acc\<close> is -1, where the ego speed is 10 and
  \<open>min(aEgo, 0)\<close> is 0. With the brake pressed in the starting state, \<open>v_acc\<close> and \<open>a_acc\<close>
  are minSpeedCan and startAccel.\<close>

theorem brake_override_counterexample:
  "brakePressed (carState demo_sm_brake) \<and> vEgo (carState demo_sm_brake) = 10
   \<and> min (aEgo (carState demo_sm_brake)) 0 = 0
   \<and> map_sum id v_acc (update demo_E demo_CP demo_sm_brake demo_prm 0 demo_planner) = Inr 7
   \<and> map_sum id a_acc (update demo_E demo_CP demo_sm_brake demo_prm 0 demo_planner)
       = Inr (- 1)
   \<and> map_sum id (vTarget \<circ> longitudinalPlan \<circ> snd \<circ> make_plan_send demo_E demo_sm_brake 0)
       (update demo_E demo_CP demo_sm_brake demo_prm 0 demo_planner) = Inr 7
   \<and> brakePressed (carState demo_sm_brake_starting)
   \<and> vEgo (carState demo_sm_brake_starting) = 10
   \<and> min (aEgo (carState demo_sm_brake_starting)) 0 = 0
   \<and> map_sum id v_acc (update demo_E demo_CP demo_sm_brake_starting demo_prm 0 demo_planner)
       = Inr 0.3
   \<and> map_sum id a_acc (update demo_E demo_CP demo_sm_brake_starting demo_prm 0 demo_planner)
       = Inr 1"
proof -
  from demo_returns(2) [where cp = demo_CP and t = 0, OF demo_planner_CP]
  obtain s1 where u1: "update demo_E demo_CP demo_sm_brake demo_prm 0 demo_planner = Inr s1"
    by (elim exE)
  from demo_returns(4) [where cp = demo_CP and t = 0, OF demo_planner_CP]
  obtain s2 where
    u2: "update demo_E demo_CP demo_sm_brake_starting demo_prm 0 demo_planner = Inr s2"
    by (elim exE)
  have p: "vTarget (longitudinalPlan (snd (make_plan_send demo_E demo_sm_brake 0 s1))) = v_acc s1"
    by (rule make_plan_send_fields)
  show ?thesis
    unfolding u1 u2
    by (simp add: demo_brake_cycle [OF u1] demo_brake_starting_cycle [OF u2] p
        demo_sm_brake_carState demo_carState_def)
qed

text \<open>Two example cycles with a publish in between: the first one leaves 9.99375 m/s and
  -0.25 m/s/s, which the second one starts from.\<close>

theorem warm_start_continuity_witness:
  "\<exists>s1 s2. update demo_E demo_CP demo_sm demo_prm 0 demo_planner = Inr s1
     \<and> update demo_E demo_CP demo_sm demo_prm 0.05 (fst (publish demo_E demo_sm 0 [] s1))
           = Inr s2
     \<and> is_enabled demo_sm \<and> \<not> brakePressed (carState demo_sm)
     \<and> \<not> gasPressed (carState demo_sm)
     \<and> v_acc_start s1 = 10 \<and> a_acc_start s1 = 0 \<and> v_acc s1 = 7 \<and> a_acc s1 = - 1
     \<and> a_acc_next s1 = - 0.25 \<and> v_acc_next s1 = 9.99375
     \<and> v_acc_start s2 = 9.99375 \<and> a_acc_start s2 = - 0.25
     \<and> vStart (longitudinalPlan (snd (make_plan_send demo_E demo_sm 0 s2))) = 9.99375
     \<and> aStart (longitudinalPlan (snd (make_plan_send demo_E demo_sm 0 s2))) = - 0.25"
proof -
  from demo_returns(1) [where cp = demo_CP and t = 0, OF demo_planner_CP]
  obtain s1 where u1: "update demo_E demo_CP demo_sm demo_prm 0 demo_planner = Inr s1"
    by (elim exE)
  have cp1: "CP (fst (publish demo_E demo_sm 0 [] s1)) = demo_CP"
    using update_CP [OF u1] demo_planner_CP by (simp add: publish_fields)
  from demo_returns(1) [where cp = demo_CP and t = "0.05", OF cp1]
  obtain s2 where u2: "update demo_E demo_CP demo_sm demo_prm 0.05
      (fst (publish demo_E demo_sm 0 [] s1)) = Inr s2"
    by (elim exE)
  have d: "fst (publish demo_E demo_sm 0 [] s1) = s1
      \<or> fst (publish demo_E demo_sm 0 [] s1) = fst (publish demo_E demo_sm 0 [] s1)"
    by simp
  note en = demo_sm_enabled(1)
  note nb = demo_sm_carState(4)
  note ng = demo_sm_carState(5)
  note t = warm_start_continuity [OF u1 d u2 en nb ng, of 0]
  note c = demo_cycle_cruise(3,4) [OF u1]
  note sel = demo_cycle_selection(2,3) [OF u1]
  note r1 = t [THEN conjunct2]
  note r2 = r1 [THEN conjunct2]
  note r3 = r2 [THEN conjunct2]
  note r4 = r3 [THEN conjunct2]
  have an: "a_acc_next s1 = - 0.25"
    unfolding r2 [THEN conjunct1] c sel by (simp add: demo_CP_def LON_MPC_STEP_def)
  have vn: "v_acc_next s1 = 9.99375"
    unfolding r3 [THEN conjunct1] an c by (simp add: demo_CP_def)
  have w: "v_acc_start s2 = 9.99375" "a_acc_start s2 = - 0.25"
    using t [THEN conjunct1] r1 [THEN conjunct1] an vn by simp_all
  have p: "vStart (longitudinalPlan (snd (make_plan_send demo_E demo_sm 0 s2))) = 9.99375"
    "aStart (longitudinalPlan (snd (make_plan_send demo_E demo_sm 0 s2))) = - 0.25"
    using r4 an vn by simp_all
  from u1 u2 en nb ng c sel an vn w p have
    "update demo_E demo_CP demo_sm demo_prm 0 demo_planner = Inr s1
     \<and> update demo_E demo_CP demo_sm demo_prm 0.05 (fst (publish demo_E demo_sm 0 [] s1))
           = Inr s2
     \<and> is_enabled demo_sm \<and> \<not> brakePressed (carState demo_sm)
     \<and> \<not> gasPressed (carState demo_sm)
     \<and> v_acc_start s1 = 10 \<and> a_acc_start s1 = 0 \<and> v_acc s1 = 7 \<and> a_acc s1 = - 1
     \<and> a_acc_next s1 = - 0.25 \<and> v_acc_next s1 = 9.99375
     \<and> v_acc_start s2 = 9.99375 \<and> a_acc_start s2 = - 0.25
     \<and> vStart (longitudinalPlan (snd (make_plan_send demo_E demo_sm 0 s2))) = 9.99375
     \<and> aStart (longitudinalPlan (snd (make_plan_send demo_E demo_sm 0 s2))) = - 0.25"
    by (intro conjI)
  then show ?thesis by (intro exI)
qed

subsection \<open>The force-slow-deceleration flag\<close>

lemma force_decel_steps:
  "is_enabled (sm\<lparr>controlsState := (controlsState sm)\<lparr>forceDecel := b\<rparr>\<rparr>) = is_enabled sm"
  "cruise_setpoint E cp (sm\<lparr>controlsState := (controlsState sm)\<lparr>forceDecel := b\<rparr>\<rparr>)
     = cruise_setpoint E cp sm"
  "update_mpcs E (sm\<lparr>controlsState := (controlsState sm)\<lparr>forceDecel := b\<rparr>\<rparr>) self
     = update_mpcs E sm self"
  "determine_fcw E (sm\<lparr>controlsState := (controlsState sm)\<lparr>forceDecel := b\<rparr>\<rparr>) t self
     = determine_fcw E sm t self"
  "make_plan_send E (sm\<lparr>controlsState := (controlsState sm)\<lparr>forceDecel := b\<rparr>\<rparr>) lt self
     = make_plan_send E sm lt self"
  by (simp_all add: is_enabled_def cruise_setpoint_def update_mpcs_def convert_data_def
      determine_fcw_def fcw_call_def make_plan_send_def)

lemma update_cruise_sm_cong:
  assumes "carState a = carState b"
    and "longControlState (controlsState a) = longControlState (controlsState b)"
  shows "update_cruise E a sp en fol fsd self = update_cruise E b sp en fol fsd self"
  unfolding update_cruise_def assms ..

lemma update_cruise_force_decel:
  "update_cruise E (sm\<lparr>controlsState := (controlsState sm)\<lparr>forceDecel := b\<rparr>\<rparr>) sp en fol fsd
     self = update_cruise E sm sp en fol fsd' self"
proof -
  have "update_cruise E (sm\<lparr>controlsState := (controlsState sm)\<lparr>forceDecel := b\<rparr>\<rparr>) sp en fol
      fsd' self = update_cruise E sm sp en fol fsd' self"
    by (rule update_cruise_sm_cong) simp_all
  then show ?thesis
    using update_cruise_force_slow_decel
      [of E "sm\<lparr>controlsState := (controlsState sm)\<lparr>forceDecel := b\<rparr>\<rparr>" sp en fol fsd self fsd']
    by simp
qed

lemma update_force_decel:
  "update E cp (sm\<lparr>controlsState := (controlsState sm)\<lparr>forceDecel := b\<rparr>\<rparr>) prm t self
     = update E cp sm prm t self"
  unfolding update_def force_decel_steps
    update_cruise_force_decel [where fsd' = "forceDecel (controlsState sm)"]
  by simp

lemma publish_force_decel:
  "publish E (sm\<lparr>controlsState := (controlsState sm)\<lparr>forceDecel := b\<rparr>\<rparr>) lt pm self
     = publish E sm lt pm self"
  unfolding publish_def force_decel_steps ..

text \<open>
  Claim C9. Two cycles whose messages differ only in forceDecel give the same result of
  update (the same planner state, or the same error) and the same result of publish
  (the planner state and the messages sent).
\<close>

theorem force_decel_noninterference:
  "update E cp (sm\<lparr>controlsState := (controlsState sm)\<lparr>forceDecel := b\<rparr>\<rparr>) prm t self
     = update E cp sm prm t self
   \<and> publish E (sm\<lparr>controlsState := (controlsState sm)\<lparr>forceDecel := b\<rparr>\<rparr>) lt pm self
     = publish E sm lt pm self"
  using update_force_decel publish_force_decel by (rule conjI)

text \<open>The example cycle with forceDecel set and cleared.\<close>

theorem force_decel_noninterference_witness:
  "\<exists>s'. forceDecel (controlsState demo_sm_force_decel) \<and> \<not> forceDecel (controlsState demo_sm)
     \<and> update demo_E demo_CP demo_sm_force_decel demo_prm 0 demo_planner = Inr s'
     \<and> update demo_E demo_CP demo_sm demo_prm 0 demo_planner = Inr s'
     \<and> publish demo_E demo_sm_force_decel 0 [] s' = publish demo_E demo_sm 0 [] s'"
proof -
  from demo_returns(1) [where cp = demo_CP and t = 0, OF demo_planner_CP]
  obtain s' where u: "update demo_E demo_CP demo_sm demo_prm 0 demo_planner = Inr s'"
    by (elim exE)
  have e: "demo_sm\<lparr>controlsState := (controlsState demo_sm)\<lparr>forceDecel := True\<rparr>\<rparr>
      = demo_sm_force_decel"
    by (simp add: demo_sm_force_decel_def demo_sm_def)
  have f: "forceDecel (controlsState demo_sm_force_decel)"
    "\<not> forceDecel (controlsState demo_sm)"
    by (simp_all add: demo_sm_force_decel_def demo_sm_def demo_controlsState_def)
  note t1 = force_decel_noninterference
    [where E = demo_E and cp = demo_CP and sm = demo_sm and b = True and prm = demo_prm
      and t = 0 and self = demo_planner and lt = 0 and pm = "[]", unfolded e]
  note t2 = force_decel_noninterference
    [where E = demo_E and cp = demo_CP and sm = demo_sm and b = True and prm = demo_prm
      and t = 0 and self = s' and lt = 0 and pm = "[]", unfolded e]
  from f t1 [THEN conjunct1] u t2 [THEN conjunct2] have
    "forceDecel (controlsState demo_sm_force_decel) \<and> \<not> forceDecel (controlsState demo_sm)
     \<and> update demo_E demo_CP demo_sm_force_decel demo_prm 0 demo_planner = Inr s'
     \<and> update demo_E demo_CP demo_sm demo_prm 0 demo_planner = Inr s'
     \<and> publish demo_E demo_sm_force_decel 0 [] s' = publish demo_E demo_sm 0 [] s'"
    by simp
  then show ?thesis by (rule exI)
qed

section \<open>The plan source\<close>

text \<open>
  Claim C10, as amended. With enabled false, \<open>choose_solution\<close> changes \<open>v_acc_future\<close>
  only. So in every returning cycle that is not enabled, the plan source, and what publish
  sends as longitudinalPlanSource, is the label the planner had before the cycle; a new
  planner has the label cruise. In every enabled cycle, also when brake, gas or the first
  loop send the cruise block through its override branch, the label is the one of the
  first slowest eligible candidate of this cycle.
\<close>

theorem disabled_keeps_plan_source:
  "choose_solution sp False model_enabled self =
     Inr (self\<lparr>v_acc_future :=
                 min (v_mpc_future (mpc1 self)) (min (v_mpc_future (mpc2 self)) sp)\<rparr>)
   \<and> (\<not> is_enabled sm \<and> update E cp sm prm t self = Inr s'
        \<longrightarrow> longitudinalPlanSource s' = longitudinalPlanSource self
          \<and> plan_longitudinalPlanSource (longitudinalPlan (snd (make_plan_send E sm lt s')))
              = longitudinalPlanSource self)
   \<and> (is_enabled sm \<and> update E cp sm prm t self = Inr s'
        \<longrightarrow> (\<exists>as w bs. eligible_candidates (ModelLongEnabled prm) s' = as @ w # bs
               \<and> (\<forall>c\<in>set as. fst (snd w) < fst (snd c))
               \<and> (\<forall>c\<in>set bs. fst (snd w) \<le> fst (snd c))
               \<and> longitudinalPlanSource s' = fst w
               \<and> plan_longitudinalPlanSource
                    (longitudinalPlan (snd (make_plan_send E sm lt s'))) = fst w))
   \<and> (Planner_init E cp0 offset = Inr s0 \<longrightarrow> longitudinalPlanSource s0 = ''cruise'')"
proof (intro conjI impI)
  show "choose_solution sp False model_enabled self =
     Inr (self\<lparr>v_acc_future :=
                 min (v_mpc_future (mpc1 self)) (min (v_mpc_future (mpc2 self)) sp)\<rparr>)"
    by (rule choose_solution_disabled)
next
  assume h: "\<not> is_enabled sm \<and> update E cp sm prm t self = Inr s'"
  then show a: "longitudinalPlanSource s' = longitudinalPlanSource self"
    using update_source_disabled by blast
  show "plan_longitudinalPlanSource (longitudinalPlan (snd (make_plan_send E sm lt s')))
              = longitudinalPlanSource self"
    unfolding make_plan_send_fields by (rule a)
next
  assume h: "is_enabled sm \<and> update E cp sm prm t self = Inr s'"
  from update_selection [OF h [THEN conjunct2] h [THEN conjunct1]] obtain as w bs where
    "eligible_candidates (ModelLongEnabled prm) s' = as @ w # bs"
    "\<forall>c\<in>set as. fst (snd w) < fst (snd c)"
    "\<forall>c\<in>set bs. fst (snd w) \<le> fst (snd c)"
    "longitudinalPlanSource s' = fst w"
    by (elim exE conjE)
  then have "eligible_candidates (ModelLongEnabled prm) s' = as @ w # bs
               \<and> (\<forall>c\<in>set as. fst (snd w) < fst (snd c))
               \<and> (\<forall>c\<in>set bs. fst (snd w) \<le> fst (snd c))
               \<and> longitudinalPlanSource s' = fst w
               \<and> plan_longitudinalPlanSource
                    (longitudinalPlan (snd (make_plan_send E sm lt s'))) = fst w"
    unfolding make_plan_send_fields by (intro conjI)
  then show "\<exists>as w bs. eligible_candidates (ModelLongEnabled prm) s' = as @ w # bs
               \<and> (\<forall>c\<in>set as. fst (snd w) < fst (snd c))
               \<and> (\<forall>c\<in>set bs. fst (snd w) \<le> fst (snd c))
               \<and> longitudinalPlanSource s' = fst w
               \<and> plan_longitudinalPlanSource
                    (longitudinalPlan (snd (make_plan_send E sm lt s'))) = fst w"
    by (intro exI)
next
  assume "Planner_init E cp0 offset = Inr s0"
  then show "longitudinalPlanSource s0 = ''cruise''" by (rule Planner_init_source)
qed

lemma demo_sm_gas_facts:
  "is_enabled demo_sm_gas" "gasPressed (carState demo_sm_gas)"
  "carState demo_sm_gas = demo_carState\<lparr>gasPressed := True\<rparr>"
  "radarState demo_sm_gas = radarState demo_sm"
  "modelV2 demo_sm_gas = modelV2 demo_sm" "alive_modelV2 demo_sm_gas = alive_modelV2 demo_sm"
  by (simp_all add: is_enabled_def demo_sm_gas_def demo_sm_def demo_controlsState_def)

lemma demo_gas_returns:
  "\<exists>s'. update demo_E cp demo_sm_gas demo_prm t demo_planner = Inr s'"
  by (rule update_demo_returns)
     (simp_all add: demo_sm_gas_facts demo_carState_def demo_planner_def)

lemma demo_gas_candidates:
  assumes u: "update demo_E cp demo_sm_gas demo_prm t demo_planner = Inr s'"
  shows "eligible_candidates (ModelLongEnabled demo_prm) s'
         = [(''cruise'', 10, 0), (''mpc1'', 7, - 1)]"
proof -
  have o: "\<not> (is_enabled demo_sm_gas \<and> \<not> first_loop demo_planner
      \<and> \<not> brakePressed (carState demo_sm_gas) \<and> \<not> gasPressed (carState demo_sm_gas))"
    by (simp add: demo_sm_gas_facts)
  note ns = enabled_not_starting [OF demo_sm_gas_facts(1)]
  have c: "v_cruise s' = 10" "a_cruise s' = 0"
    using update_override(3,4) [OF u o] ns
    by (simp_all add: demo_sm_gas_facts demo_carState_def)
  show ?thesis
    using demo_candidates [OF u] c by (simp add: demo_sm_gas_facts demo_leads demo_lead_def)
qed

lemma demo_gas_cycle:
  assumes u: "update demo_E cp demo_sm_gas demo_prm t demo_planner = Inr s'"
  shows "longitudinalPlanSource s' = ''mpc1''"
proof -
  from update_selection [OF u demo_sm_gas_facts(1)] obtain as w bs where
    A: "eligible_candidates (ModelLongEnabled demo_prm) s' = as @ w # bs"
    and C: "\<forall>c\<in>set as. fst (snd w) < fst (snd c)"
    and D: "\<forall>c\<in>set bs. fst (snd w) \<le> fst (snd c)"
    and R: "longitudinalPlanSource s' = fst w"
    by (elim exE conjE)
  have w: "w = (''mpc1'', 7, - 1)" by (rule demo_pick [OF demo_gas_candidates [OF u] A C D])
  show ?thesis unfolding R w by simp
qed

text \<open>The long control off, where the label mpc2 is kept; the gas pressed under pid
  control, where mpc1 is selected; and a new planner.\<close>

theorem disabled_keeps_plan_source_witness:
  "\<not> is_enabled demo_sm_off
   \<and> (\<exists>s'. update demo_E demo_CP demo_sm_off demo_prm 0 demo_planner = Inr s'
          \<and> longitudinalPlanSource s' = ''mpc2''
          \<and> plan_longitudinalPlanSource
                (longitudinalPlan (snd (make_plan_send demo_E demo_sm_off 0 s'))) = ''mpc2'')
   \<and> is_enabled demo_sm_gas
   \<and> (\<exists>s'. update demo_E demo_CP demo_sm_gas demo_prm 0 demo_planner = Inr s'
          \<and> longitudinalPlanSource s' = ''mpc1''
          \<and> plan_longitudinalPlanSource
                (longitudinalPlan (snd (make_plan_send demo_E demo_sm_gas 0 s'))) = ''mpc1'')
   \<and> (\<exists>s0. Planner_init demo_E demo_CP (Some ''0'') = Inr s0
          \<and> longitudinalPlanSource s0 = ''cruise'')"
proof -
  have "\<exists>s'. update demo_E demo_CP demo_sm_off demo_prm 0 demo_planner = Inr s'"
    by (rule update_demo_returns)
       (simp_all add: demo_sm_off_def demo_sm_carState demo_planner_def)
  then obtain s' where
    u: "update demo_E demo_CP demo_sm_off demo_prm 0 demo_planner = Inr s'" by (elim exE)
  have src: "longitudinalPlanSource demo_planner = ''mpc2''" by (simp add: demo_planner_def)
  have h: "\<not> is_enabled demo_sm_off
      \<and> update demo_E demo_CP demo_sm_off demo_prm 0 demo_planner = Inr s'"
    using demo_sm_off_not_enabled u by simp
  note t = disabled_keeps_plan_source [where sm = demo_sm_off and E = demo_E and cp = demo_CP
      and prm = demo_prm and t = 0 and self = demo_planner and s' = s' and lt = 0
      and ?cp0.0 = demo_CP and offset = "Some ''0''"]
  have a: "update demo_E demo_CP demo_sm_off demo_prm 0 demo_planner = Inr s'
          \<and> longitudinalPlanSource s' = ''mpc2''
          \<and> plan_longitudinalPlanSource
                (longitudinalPlan (snd (make_plan_send demo_E demo_sm_off 0 s'))) = ''mpc2''"
    using t [THEN conjunct2, THEN conjunct1, THEN mp, OF h] u src by simp
  obtain s0 where i: "Planner_init demo_E demo_CP (Some ''0'') = Inr s0"
    by (simp add: Planner_init_def demo_E_def)
  have b: "Planner_init demo_E demo_CP (Some ''0'') = Inr s0
          \<and> longitudinalPlanSource s0 = ''cruise''"
    using t [THEN conjunct2, THEN conjunct2, THEN conjunct2, THEN mp, of s0, OF i] i by simp
  from demo_gas_returns [where cp = demo_CP and t = 0] obtain s2 where
    u2: "update demo_E demo_CP demo_sm_gas demo_prm 0 demo_planner = Inr s2" by (elim exE)
  have h2: "is_enabled demo_sm_gas
      \<and> update demo_E demo_CP demo_sm_gas demo_prm 0 demo_planner = Inr s2"
    using demo_sm_gas_facts(1) u2 by simp
  note t2 = disabled_keeps_plan_source [where sm = demo_sm_gas and E = demo_E
      and cp = demo_CP and prm = demo_prm and t = 0 and self = demo_planner and s' = s2
      and lt = 0]
  from t2 [THEN conjunct2, THEN conjunct2, THEN conjunct1, THEN mp, OF h2]
  obtain as w bs where
    A: "eligible_candidates (ModelLongEnabled demo_prm) s2 = as @ w # bs"
    and C: "\<forall>c\<in>set as. fst (snd w) < fst (snd c)"
    and D: "\<forall>c\<in>set bs. fst (snd w) \<le> fst (snd c)"
    and R: "longitudinalPlanSource s2 = fst w"
      "plan_longitudinalPlanSource
         (longitudinalPlan (snd (make_plan_send demo_E demo_sm_gas 0 s2))) = fst w"
    by (elim exE conjE)
  have w: "w = (''mpc1'', 7, - 1)" by (rule demo_pick [OF demo_gas_candidates [OF u2] A C D])
  have c: "update demo_E demo_CP demo_sm_gas demo_prm 0 demo_planner = Inr s2
          \<and> longitudinalPlanSource s2 = ''mpc1''
          \<and> plan_longitudinalPlanSource
                (longitudinalPlan (snd (make_plan_send demo_E demo_sm_gas 0 s2))) = ''mpc1''"
    unfolding R w using u2 by simp
  have a': "\<exists>s'. update demo_E demo_CP demo_sm_off demo_prm 0 demo_planner = Inr s'
          \<and> longitudinalPlanSource s' = ''mpc2''
          \<and> plan_longitudinalPlanSource
                (longitudinalPlan (snd (make_plan_send demo_E demo_sm_off 0 s'))) = ''mpc2''"
    using a by (intro exI)
  have b': "\<exists>s0. Planner_init demo_E demo_CP (Some ''0'') = Inr s0
          \<and> longitudinalPlanSource s0 = ''cruise''"
    using b by (intro exI)
  have c': "\<exists>s'. update demo_E demo_CP demo_sm_gas demo_prm 0 demo_planner = Inr s'
          \<and> longitudinalPlanSource s' = ''mpc1''
          \<and> plan_longitudinalPlanSource
                (longitudinalPlan (snd (make_plan_send demo_E demo_sm_gas 0 s'))) = ''mpc1''"
    using c by (intro exI)
  from demo_sm_off_not_enabled a' demo_sm_gas_facts(1) c' b' show ?thesis by (intro conjI)
qed

text \<open>The claim as stated fails in an override cycle under pid control: with the gas
  pressed, the planner that carried the label mpc2 publishes mpc1, selected in this
  cycle.\<close>

theorem disabled_keeps_plan_source_counterexample:
  "gasPressed (carState demo_sm_gas)
   \<and> longitudinalPlanSource demo_planner = ''mpc2''
   \<and> map_sum id longitudinalPlanSource
       (update demo_E demo_CP demo_sm_gas demo_prm 0 demo_planner) = Inr ''mpc1''
   \<and> map_sum id (plan_longitudinalPlanSource \<circ> longitudinalPlan \<circ> snd
                  \<circ> make_plan_send demo_E demo_sm_gas 0)
       (update demo_E demo_CP demo_sm_gas demo_prm 0 demo_planner) = Inr ''mpc1''"
proof -
  from demo_gas_returns [where cp = demo_CP and t = 0] obtain s' where
    u: "update demo_E demo_CP demo_sm_gas demo_prm 0 demo_planner = Inr s'" by (elim exE)
  have p: "plan_longitudinalPlanSource
      (longitudinalPlan (snd (make_plan_send demo_E demo_sm_gas 0 s')))
      = longitudinalPlanSource s'"
    by (rule make_plan_send_fields)
  show ?thesis
    unfolding u
    by (simp add: demo_gas_cycle [OF u] p demo_sm_gas_facts demo_planner_def)
qed

end
